(* ===== verification/Prelude.thy ===== *)
theory Prelude
  imports Complex_Main "HOL-Library.Word"
begin

text \<open>
  Shared vocabulary of the SecurityBot development (\<open>src/index.js\<close>).
  It holds the types that name the model's data (Discord snowflakes, permission
  bitfields), the JavaScript built-ins the bot relies on, written out once so that
  every component uses the same reading of them:
  \<^item> a JavaScript \<open>Set\<close> is a duplicate-free list in insertion order
    (\<open>js_set_add\<close>, \<open>js_set_delete\<close>, \<open>js_set_of\<close>);
  \<^item> \<open>String.prototype.trim\<close>, \<open>split(/\r?\n/)\<close>, \<open>join('\n')\<close> and
    \<open>toLowerCase\<close> on byte strings (\<open>js_trim\<close>, \<open>split_lines\<close>, \<open>join_lines\<close>,
    \<open>js_lower\<close>);
  \<^item> the named-theorem collections \<open>js_set_simps\<close> and \<open>text_simps\<close> that the
    component proofs use with \<open>simp add:\<close>.
  Strings are byte lists (\<open>string\<close>); the identifiers the bot stores are ASCII digit
  strings, for which bytes and UTF-16 code units coincide. Only the ASCII whitespace
  characters are treated as whitespace by \<open>js_trim\<close>.
\<close>

named_theorems js_set_simps "facts about JavaScript Sets modelled as distinct lists"

named_theorems text_simps "facts about the string built-ins"

type_synonym snowflake = string

type_synonym perm = "64 word"

section \<open>JavaScript Sets and string built-ins\<close>

definition js_set_add :: "'a list \<Rightarrow> 'a \<Rightarrow> 'a list" where
  "js_set_add s x = (if x \<in> set s then s else s @ [x])"

definition js_set_delete :: "'a list \<Rightarrow> 'a \<Rightarrow> 'a list" where
  "js_set_delete s x = removeAll x s"

definition js_set_of :: "'a list \<Rightarrow> 'a list" where
  "js_set_of xs = fold (\<lambda>x s. js_set_add s x) xs []"

definition nl :: char where "nl = CHR 0x0A"

definition cr :: char where "cr = CHR 0x0D"

text \<open>The ASCII part of ECMAScript's WhiteSpace and LineTerminator sets.\<close>

definition js_ws :: "char \<Rightarrow> bool" where
  "js_ws c \<longleftrightarrow> c \<in> set [CHR 0x09, CHR 0x0A, CHR 0x0B, CHR 0x0C, CHR 0x0D, CHR 0x20]"

definition js_trim :: "string \<Rightarrow> string" where
  "js_trim s = rev (dropWhile js_ws (rev (dropWhile js_ws s)))"

definition is_digit :: "char \<Rightarrow> bool" where
  "is_digit c \<longleftrightarrow> c \<in> set ''0123456789''"

text \<open>\<open>toLowerCase\<close> on ASCII letters.\<close>

definition js_lower_char :: "char \<Rightarrow> char" where
  "js_lower_char c =
     (if c \<in> set ''ABCDEFGHIJKLMNOPQRSTUVWXYZ''
      then char_of (of_char c + (32::nat)) else c)"

definition js_lower :: "string \<Rightarrow> string" where
  "js_lower s = map js_lower_char s"

text \<open>
  \<open>raw.split(/\r?\n/)\<close>: the separator is a line feed together with one carriage
  return right before it, if there is one.
\<close>

definition drop_cr :: "string \<Rightarrow> string" where
  "drop_cr s = (if s \<noteq> [] \<and> last s = cr then butlast s else s)"

fun split_lines_acc :: "string \<Rightarrow> string \<Rightarrow> string list" where
  "split_lines_acc acc [] = [rev acc]"
| "split_lines_acc acc (c # cs) =
     (if c = nl then drop_cr (rev acc) # split_lines_acc [] cs
      else split_lines_acc (c # acc) cs)"

definition split_lines :: "string \<Rightarrow> string list" where
  "split_lines s = split_lines_acc [] s"

text \<open>\<open>s.startsWith(p)\<close>.\<close>

definition starts_with :: "string \<Rightarrow> string \<Rightarrow> bool" where
  "starts_with s p \<longleftrightarrow> take (length p) s = p"

text \<open>
  \<open>s.split(sep)\<close> at every character satisfying \<open>P\<close>, empty pieces kept. The bot
  splits on a run of separators (\<open>/[,\s]+/\<close>) and then drops the empty pieces
  (\<open>.filter(Boolean)\<close>); splitting at every separator and dropping the empty pieces
  leaves the same tokens.
\<close>

fun split_on_acc :: "(char \<Rightarrow> bool) \<Rightarrow> string \<Rightarrow> string \<Rightarrow> string list" where
  "split_on_acc P acc [] = [rev acc]"
| "split_on_acc P acc (c # cs) =
     (if P c then rev acc # split_on_acc P [] cs else split_on_acc P (c # acc) cs)"

definition split_on :: "(char \<Rightarrow> bool) \<Rightarrow> string \<Rightarrow> string list" where
  "split_on P s = split_on_acc P [] s"

text \<open>\<open>xs.join('\n')\<close>.\<close>

fun join_lines :: "string list \<Rightarrow> string" where
  "join_lines [] = []"
| "join_lines [x] = x"
| "join_lines (x # y # ys) = x @ nl # join_lines (y # ys)"

section \<open>Lemmas on JavaScript Sets\<close>

lemma set_js_set_add [simp, js_set_simps]: "set (js_set_add s x) = insert x (set s)"
  by (auto simp: js_set_add_def)

lemma distinct_js_set_add [simp, js_set_simps]: "distinct (js_set_add s x) = distinct s"
  by (simp add: js_set_add_def)

lemma set_js_set_delete [simp, js_set_simps]: "set (js_set_delete s x) = set s - {x}"
  by (simp add: js_set_delete_def)

lemma distinct_js_set_delete [simp, js_set_simps]: "distinct s \<Longrightarrow> distinct (js_set_delete s x)"
  by (simp add: js_set_delete_def distinct_removeAll)

lemma js_set_add_absent [js_set_simps]: "x \<notin> set s \<Longrightarrow> js_set_add s x = s @ [x]"
  by (simp add: js_set_add_def)

lemma js_set_add_present [js_set_simps]: "x \<in> set s \<Longrightarrow> js_set_add s x = s"
  by (simp add: js_set_add_def)

lemma js_set_delete_add_absent [js_set_simps]:
  "x \<notin> set s \<Longrightarrow> js_set_delete (js_set_add s x) x = s"
  by (simp add: js_set_add_def js_set_delete_def)

lemma fold_js_set_add_distinct:
  "distinct (acc @ xs) \<Longrightarrow> fold (\<lambda>x s. js_set_add s x) xs acc = acc @ xs"
  by (induction xs arbitrary: acc) (auto simp: js_set_add_absent)

lemma set_fold_js_set_add [simp, js_set_simps]:
  "set (fold (\<lambda>x s. js_set_add s x) xs acc) = set acc \<union> set xs"
  by (induction xs arbitrary: acc) auto

lemma distinct_fold_js_set_add [simp, js_set_simps]:
  "distinct (fold (\<lambda>x s. js_set_add s x) xs acc) = distinct acc"
  by (induction xs arbitrary: acc) auto

lemma js_set_of_distinct [js_set_simps]: "distinct xs \<Longrightarrow> js_set_of xs = xs"
  using fold_js_set_add_distinct [of "[]" xs] by (simp add: js_set_of_def)

lemma set_js_set_of [simp, js_set_simps]: "set (js_set_of xs) = set xs"
  by (simp add: js_set_of_def)

lemma distinct_js_set_of [simp, js_set_simps]: "distinct (js_set_of xs)"
  by (simp add: js_set_of_def)

section \<open>Lists\<close>

lemma find_append: "find P (xs @ ys) = (case find P xs of None \<Rightarrow> find P ys | Some x \<Rightarrow> Some x)"
  by (induction xs) auto

lemma find_SomeD: "find P xs = Some x \<Longrightarrow> x \<in> set xs \<and> P x"
  by (induction xs) (auto split: if_splits)

section \<open>Lemmas on the string built-ins\<close>

lemma nl_not_cr [simp, text_simps]: "nl \<noteq> cr"
  by (simp add: nl_def cr_def)

lemma js_ws_nl [simp, text_simps]: "js_ws nl" and js_ws_cr [simp, text_simps]: "js_ws cr"
  by (simp_all add: js_ws_def nl_def cr_def)

lemma digit_not_ws [text_simps]: "is_digit c \<Longrightarrow> \<not> js_ws c"
  by (auto simp: is_digit_def js_ws_def)

lemma set_js_trim [text_simps]: "set (js_trim s) \<subseteq> set s"
  unfolding js_trim_def by (auto dest!: set_dropWhileD)

lemma js_trim_no_ws [simp, text_simps]:
  "s = [] \<or> \<not> js_ws (hd s) \<and> \<not> js_ws (last s) \<Longrightarrow> js_trim s = s"
proof (cases "s = []")
  case False
  assume h: "s = [] \<or> \<not> js_ws (hd s) \<and> \<not> js_ws (last s)"
  with False have "dropWhile js_ws s = s" by (simp add: dropWhile_eq_self_iff)
  moreover from h False have "dropWhile js_ws (rev s) = rev s"
    by (simp add: dropWhile_eq_self_iff hd_rev)
  ultimately show ?thesis by (simp add: js_trim_def)
qed (simp add: js_trim_def)

lemma last_js_trim [text_simps]: "js_trim s \<noteq> [] \<Longrightarrow> \<not> js_ws (last (js_trim s))"
proof -
  assume ne: "js_trim s \<noteq> []"
  let ?t = "dropWhile js_ws (rev (dropWhile js_ws s))"
  from ne have "?t \<noteq> []" by (simp add: js_trim_def)
  then have "\<not> js_ws (hd ?t)" by (metis hd_dropWhile)
  with \<open>?t \<noteq> []\<close> show ?thesis by (simp add: js_trim_def last_rev)
qed

lemma hd_js_trim [text_simps]: "js_trim s \<noteq> [] \<Longrightarrow> \<not> js_ws (hd (js_trim s))"
proof -
  assume ne: "js_trim s \<noteq> []"
  let ?u = "dropWhile js_ws s"
  have u_ne: "?u \<noteq> []"
  proof
    assume "?u = []"
    with ne show False by (simp add: js_trim_def)
  qed
  have hu: "\<not> js_ws (hd ?u)" using u_ne by (metis hd_dropWhile)
  have "dropWhile js_ws (rev ?u) \<noteq> []" using ne by (simp add: js_trim_def)
  moreover have "last (dropWhile js_ws (rev ?u)) = last (rev ?u)"
    using u_ne hu by (intro dropWhile_last) (auto simp: last_rev)
  ultimately have "hd (js_trim s) = hd ?u"
    using u_ne by (simp add: js_trim_def hd_rev last_rev)
  with hu show ?thesis by simp
qed

end
