(* ===== verification/IdStore.thy ===== *)
theory IdStore
  imports Prelude
begin

text \<open>
  The identifier and set store of \<open>src/index.js\<close> (lines 35--124): the flat files
  \<open>blacklist.txt\<close>, \<open>whitelist.txt\<close>, \<open>allowedUsers.txt\<close> and \<open>tickets.txt\<close>,
  one identifier per line, read by \<open>readSet\<close>, rewritten whole by \<open>writeSet\<close>, and
  mutated by \<open>addIds\<close> / \<open>removeIds\<close>. The file system is a map from file names to
  contents (\<open>None\<close>: the file is missing, which \<open>readSet\<close> reads as the empty set).
  The theory proves that every set read back is a duplicate-free list of trimmed,
  non-empty, single-line identifiers, that writing such a set and reading it back is the
  identity (the print/parse round trip), that \<open>addIds\<close> and \<open>removeIds\<close> refine
  insertion and deletion on the set they read, that adding and then removing a fresh
  identifier restores the set, and the round trip of \<open>parseUserId\<close> on mentions.
\<close>

type_synonym fstore = "string \<rightharpoonup> string"

definition allowed_file :: string where "allowed_file = ''allowedUsers.txt''"

definition blacklist_file :: string where "blacklist_file = ''blacklist.txt''"

definition whitelist_file :: string where "whitelist_file = ''whitelist.txt''"

definition tickets_file :: string where "tickets_file = ''tickets.txt''"

text \<open>\<open>readSet(file)\<close>: a missing or unreadable file is the empty set.\<close>

definition read_set :: "fstore \<Rightarrow> string \<Rightarrow> snowflake list" where
  "read_set fs file =
     (case fs file of
        None \<Rightarrow> []
      | Some raw \<Rightarrow> js_set_of (filter (\<lambda>s. s \<noteq> []) (map js_trim (split_lines raw))))"

text \<open>\<open>writeSet(file, set)\<close>: \<open>[...set].join('\n') + (set.size ? '\n' : '')\<close>.\<close>

definition write_set :: "fstore \<Rightarrow> string \<Rightarrow> snowflake list \<Rightarrow> fstore" where
  "write_set fs file s = fs(file \<mapsto> join_lines s @ (if s = [] then [] else [nl]))"

text \<open>The test \<open>/^\d{5,}$/\<close>.\<close>

definition valid_id :: "string \<Rightarrow> bool" where
  "valid_id s \<longleftrightarrow> 5 \<le> length s \<and> list_all is_digit s"

text \<open>\<open>addIds\<close> and \<open>removeIds\<close> return the new file system and the set they wrote.\<close>

definition add_ids :: "fstore \<Rightarrow> string \<Rightarrow> string list \<Rightarrow> fstore \<times> snowflake list" where
  "add_ids fs file ids =
     (let s = fold (\<lambda>i s. if valid_id i then js_set_add s i else s) ids (read_set fs file)
      in (write_set fs file s, s))"

definition remove_ids :: "fstore \<Rightarrow> string \<Rightarrow> string list \<Rightarrow> fstore \<times> snowflake list" where
  "remove_ids fs file ids =
     (let s = fold (\<lambda>i s. js_set_delete s i) ids (read_set fs file)
      in (write_set fs file s, s))"

text \<open>\<open>parseUserId(str)\<close>; \<open>None\<close> as argument is \<open>undefined\<close>.\<close>

definition parse_user_id :: "string option \<Rightarrow> snowflake option" where
  "parse_user_id str =
     (case str of
        None \<Rightarrow> None
      | Some s \<Rightarrow>
          if s = [] then None
          else (let i = filter is_digit (filter (\<lambda>c. c \<notin> set ''<@!>#&'') s)
                in if valid_id i then Some i else None))"

definition is_allowed_user :: "fstore \<Rightarrow> snowflake \<Rightarrow> bool" where
  "is_allowed_user fs uid \<longleftrightarrow> uid \<in> set (read_set fs allowed_file)"

definition is_ticket_channel_id :: "fstore \<Rightarrow> snowflake \<Rightarrow> bool" where
  "is_ticket_channel_id fs cid \<longleftrightarrow> cid \<in> set (read_set fs tickets_file)"

definition add_ticket_channel_id :: "fstore \<Rightarrow> snowflake \<Rightarrow> fstore" where
  "add_ticket_channel_id fs cid = fst (add_ids fs tickets_file [cid])"

text \<open>An identifier as a line of a set file: non-empty, trimmed, one line.\<close>

definition clean_id :: "string \<Rightarrow> bool" where
  "clean_id s \<longleftrightarrow> s \<noteq> [] \<and> \<not> js_ws (hd s) \<and> \<not> js_ws (last s) \<and> nl \<notin> set s"

text \<open>
  A file is canonical when it holds exactly what \<open>writeSet\<close> writes for the set read
  from it; the add/remove round trip restores the contents of such a file.
\<close>

definition canonical_file :: "fstore \<Rightarrow> string \<Rightarrow> bool" where
  "canonical_file fs file \<longleftrightarrow> fs file = Some (concat (map (\<lambda>y. y @ [nl]) (read_set fs file)))"

text \<open>
  The contract of the store (specification, section 4.1): each file holds a set; add
  inserts the well-formed ids, remove deletes, and both return the new set.
\<close>

type_synonym set_store = "string \<Rightarrow> snowflake set"

definition abs_store :: "fstore \<Rightarrow> set_store" where
  "abs_store fs = (\<lambda>file. set (read_set fs file))"

definition spec_add :: "set_store \<Rightarrow> string \<Rightarrow> string list \<Rightarrow> set_store \<times> snowflake set" where
  "spec_add S file ids = (let s = S file \<union> {i \<in> set ids. valid_id i} in (S(file := s), s))"

definition spec_remove :: "set_store \<Rightarrow> string \<Rightarrow> string list \<Rightarrow> set_store \<times> snowflake set" where
  "spec_remove S file ids = (let s = S file - set ids in (S(file := s), s))"

section \<open>File names\<close>

lemma store_files_distinct [simp]:
  "blacklist_file \<noteq> whitelist_file" "whitelist_file \<noteq> blacklist_file"
  "blacklist_file \<noteq> tickets_file" "tickets_file \<noteq> blacklist_file"
  "blacklist_file \<noteq> allowed_file" "allowed_file \<noteq> blacklist_file"
  "whitelist_file \<noteq> allowed_file" "allowed_file \<noteq> whitelist_file"
  by (simp_all add: blacklist_file_def whitelist_file_def tickets_file_def allowed_file_def)

section \<open>Shape of the sets read back\<close>

lemma set_drop_cr: "set (drop_cr s) \<subseteq> set s"
  by (auto simp: drop_cr_def dest: in_set_butlastD)

lemma split_lines_acc_no_nl:
  "x \<in> set (split_lines_acc acc cs) \<Longrightarrow> nl \<notin> set acc \<Longrightarrow> nl \<notin> set x"
proof (induction acc cs rule: split_lines_acc.induct)
  case (1 acc)
  then show ?case by simp
next
  case (2 acc c cs)
  then show ?case by (auto split: if_splits dest: set_drop_cr [THEN subsetD])
qed

lemma split_lines_no_nl: "x \<in> set (split_lines raw) \<Longrightarrow> nl \<notin> set x"
  unfolding split_lines_def using split_lines_acc_no_nl by fastforce

lemma clean_js_trim: "nl \<notin> set s \<Longrightarrow> js_trim s \<noteq> [] \<Longrightarrow> clean_id (js_trim s)"
  using set_js_trim [of s] by (auto simp: clean_id_def hd_js_trim last_js_trim)

lemma read_set_clean: "x \<in> set (read_set fs file) \<Longrightarrow> clean_id x"
  by (auto simp: read_set_def split_lines_no_nl clean_js_trim split: option.splits)

lemma read_set_distinct [simp]: "distinct (read_set fs file)"
  by (simp add: read_set_def split: option.splits)

lemma valid_id_clean: "valid_id s \<Longrightarrow> clean_id s"
proof -
  assume v: "valid_id s"
  then have ne: "s \<noteq> []" by (auto simp: valid_id_def)
  from v have d: "\<forall>c \<in> set s. is_digit c" by (simp add: valid_id_def list_all_iff)
  have "is_digit (hd s)" "is_digit (last s)" using d ne by simp_all
  moreover have "\<not> is_digit nl" by (simp add: is_digit_def nl_def)
  ultimately show ?thesis using ne d by (auto simp: clean_id_def digit_not_ws)
qed

section \<open>The print/parse round trip\<close>

lemma write_set_content:
  "join_lines s @ (if s = [] then [] else [nl]) = concat (map (\<lambda>x. x @ [nl]) s)"
  by (induction s rule: join_lines.induct) simp_all

lemma split_lines_acc_append:
  "nl \<notin> set s \<Longrightarrow> split_lines_acc acc (s @ rest) = split_lines_acc (rev s @ acc) rest"
  by (induction s arbitrary: acc) auto

lemma split_lines_encoded:
  assumes "\<forall>x \<in> set xs. clean_id x"
  shows "split_lines_acc [] (concat (map (\<lambda>x. x @ [nl]) xs)) = xs @ [[]]"
  using assms
proof (induction xs)
  case Nil
  then show ?case by simp
next
  case (Cons x xs)
  then have c: "clean_id x" by simp
  then have "nl \<notin> set x" "drop_cr x = x"
    by (auto simp: clean_id_def drop_cr_def)
  then show ?case using Cons by (simp add: split_lines_acc_append)
qed

lemma clean_trim_id: "clean_id x \<Longrightarrow> js_trim x = x"
  by (simp add: clean_id_def)

theorem read_write_set:
  assumes "distinct xs" and "\<forall>x \<in> set xs. clean_id x"
  shows "read_set (write_set fs file xs) file = xs"
proof -
  have "map js_trim xs = xs" using assms(2) by (induction xs) (auto simp: clean_trim_id)
  moreover have "filter (\<lambda>s. s \<noteq> []) xs = xs"
    using assms(2) by (auto simp: clean_id_def filter_id_conv)
  ultimately show ?thesis using assms
    by (simp add: read_set_def write_set_def write_set_content split_lines_def
        split_lines_encoded js_set_of_distinct)
qed

lemma read_write_set_other [simp]:
  "file' \<noteq> file \<Longrightarrow> read_set (write_set fs file xs) file' = read_set fs file'"
  by (simp add: read_set_def write_set_def)

section \<open>Refinement of addIds and removeIds\<close>

lemma add_fold_distinct:
  "distinct acc \<Longrightarrow> distinct (fold (\<lambda>i s. if valid_id i then js_set_add s i else s) ids acc)"
  by (induction ids arbitrary: acc) auto

lemma add_fold_set:
  "set (fold (\<lambda>i s. if valid_id i then js_set_add s i else s) ids acc) =
   set acc \<union> {i \<in> set ids. valid_id i}"
  by (induction ids arbitrary: acc) auto

lemma add_fold_clean:
  "\<forall>x \<in> set acc. clean_id x \<Longrightarrow>
   \<forall>x \<in> set (fold (\<lambda>i s. if valid_id i then js_set_add s i else s) ids acc). clean_id x"
  by (auto simp: add_fold_set valid_id_clean)

lemma remove_fold_set:
  "set (fold (\<lambda>i s. js_set_delete s i) ids acc) = set acc - set ids"
  by (induction ids arbitrary: acc) auto

lemma remove_fold_distinct:
  "distinct acc \<Longrightarrow> distinct (fold (\<lambda>i s. js_set_delete s i) ids acc)"
  by (induction ids arbitrary: acc) (auto simp: js_set_delete_def distinct_removeAll)

lemma read_set_add_ids:
  "read_set (fst (add_ids fs file ids)) file = snd (add_ids fs file ids)"
proof -
  let ?s = "fold (\<lambda>i s. if valid_id i then js_set_add s i else s) ids (read_set fs file)"
  have "distinct ?s" by (simp add: add_fold_distinct)
  moreover have "\<forall>x \<in> set ?s. clean_id x"
    by (rule add_fold_clean) (auto dest: read_set_clean)
  ultimately have "read_set (write_set fs file ?s) file = ?s" by (rule read_write_set)
  then show ?thesis by (simp add: add_ids_def Let_def)
qed

lemma read_set_remove_ids:
  "read_set (fst (remove_ids fs file ids)) file = snd (remove_ids fs file ids)"
proof -
  let ?s = "fold (\<lambda>i s. js_set_delete s i) ids (read_set fs file)"
  have "distinct ?s" by (simp add: remove_fold_distinct)
  moreover have "\<forall>x \<in> set ?s. clean_id x" by (auto simp: remove_fold_set dest: read_set_clean)
  ultimately have "read_set (write_set fs file ?s) file = ?s" by (rule read_write_set)
  then show ?thesis by (simp add: remove_ids_def Let_def)
qed

theorem add_ids_set:
  "set (read_set (fst (add_ids fs file ids)) file) =
   set (read_set fs file) \<union> {i \<in> set ids. valid_id i}"
  unfolding read_set_add_ids by (simp add: add_ids_def Let_def add_fold_set)

theorem remove_ids_set:
  "set (read_set (fst (remove_ids fs file ids)) file) = set (read_set fs file) - set ids"
  unfolding read_set_remove_ids by (simp add: remove_ids_def Let_def remove_fold_set)

lemma add_ids_other [simp]:
  "file' \<noteq> file \<Longrightarrow> fst (add_ids fs file ids) file' = fs file'"
  by (simp add: add_ids_def write_set_def Let_def)

lemma remove_ids_other [simp]:
  "file' \<noteq> file \<Longrightarrow> fst (remove_ids fs file ids) file' = fs file'"
  by (simp add: remove_ids_def write_set_def Let_def)

lemma read_set_add_ids_other [simp]:
  "file' \<noteq> file \<Longrightarrow> read_set (fst (add_ids fs file ids)) file' = read_set fs file'"
  by (simp add: read_set_def)

lemma read_set_remove_ids_other [simp]:
  "file' \<noteq> file \<Longrightarrow> read_set (fst (remove_ids fs file ids)) file' = read_set fs file'"
  by (simp add: read_set_def)

text \<open>
  C13. Refinement: seen through \<open>abs_store\<close> (each file as the set \<open>readSet\<close>
  returns), \<open>addIds\<close> and \<open>removeIds\<close> are the set store's add and remove: the new
  abstract store and the returned set are the specification's.
\<close>

theorem store_refines_spec:
  "(abs_store (fst (add_ids fs file ids)), set (snd (add_ids fs file ids))) =
     spec_add (abs_store fs) file ids \<and>
   (abs_store (fst (remove_ids fs file ids)), set (snd (remove_ids fs file ids))) =
     spec_remove (abs_store fs) file ids"
proof -
  have a: "abs_store (fst (add_ids fs file ids)) = (abs_store fs)(file := abs_store fs file \<union> {i \<in> set ids. valid_id i})"
    by (rule ext) (simp add: abs_store_def add_ids_set)
  have r: "abs_store (fst (remove_ids fs file ids)) = (abs_store fs)(file := abs_store fs file - set ids)"
    by (rule ext) (simp add: abs_store_def remove_ids_set)
  show ?thesis
    using a r add_ids_set [of fs "file" ids] remove_ids_set [of fs "file" ids]
    by (simp add: spec_add_def spec_remove_def Let_def abs_store_def read_set_add_ids read_set_remove_ids)
qed

section \<open>Adding and removing a fresh identifier\<close>

lemma add_ids_single:
  "snd (add_ids fs file [x]) = (if valid_id x then js_set_add (read_set fs file) x else read_set fs file)"
  by (simp add: add_ids_def Let_def)

lemma remove_ids_single:
  "snd (remove_ids fs file [x]) = js_set_delete (read_set fs file) x"
  by (simp add: remove_ids_def Let_def)

text \<open>
  After \<open>addIds(file, [x])\<close> and \<open>removeIds(file, [x])\<close> with a valid
  identifier \<open>x\<close> that was not in the set, the set read back is the set before.
\<close>

theorem add_remove_ids_roundtrip:
  assumes "valid_id x" and "x \<notin> set (read_set fs file)"
  shows "read_set (fst (remove_ids (fst (add_ids fs file [x])) file [x])) file = read_set fs file"
  using assms
  by (simp add: read_set_remove_ids remove_ids_single read_set_add_ids add_ids_single
      js_set_delete_add_absent)

lemma add_remove_ids_roundtrip_witness:
  "valid_id ''777777'' \<and> ''777777'' \<notin> set (read_set [''blacklist.txt'' \<mapsto> ''123456'' @ [nl]] ''blacklist.txt'') \<and>
   read_set (fst (remove_ids (fst (add_ids [''blacklist.txt'' \<mapsto> ''123456'' @ [nl]] ''blacklist.txt'' [''777777'']))
     ''blacklist.txt'' [''777777''])) ''blacklist.txt'' = [''123456'']"
proof -
  let ?fs = "[''blacklist.txt'' \<mapsto> ''123456'' @ [nl]] :: fstore"
  have r: "read_set ?fs ''blacklist.txt'' = [''123456'']"
    by (simp add: read_set_def split_lines_def js_set_of_def js_set_add_def js_trim_def js_ws_def
        nl_def cr_def drop_cr_def)
  have v: "valid_id ''777777''" by (simp add: valid_id_def is_digit_def)
  show ?thesis using add_remove_ids_roundtrip [OF v, of ?fs "''blacklist.txt''"] r v by simp
qed

lemma write_set_canonical:
  "canonical_file fs file \<Longrightarrow> write_set fs file (read_set fs file) = fs"
  by (auto simp: canonical_file_def write_set_def write_set_content)

lemma remove_ids_file:
  "fst (remove_ids fs file ids) = write_set fs file (snd (remove_ids fs file ids))"
  by (simp add: remove_ids_def Let_def)

lemma write_set_twice [simp]: "write_set (write_set fs file a) file b = write_set fs file b"
  by (simp add: write_set_def)

lemma add_ids_file:
  "fst (add_ids fs file ids) = write_set fs file (snd (add_ids fs file ids))"
  by (simp add: add_ids_def Let_def)

theorem add_remove_ids_content:
  assumes "valid_id x" and "x \<notin> set (read_set fs file)" and "canonical_file fs file"
  shows "fst (remove_ids (fst (add_ids fs file [x])) file [x]) = fs"
proof -
  let ?A = "fst (add_ids fs file [x])"
  have a: "?A = write_set fs file (js_set_add (read_set fs file) x)"
    using assms(1) by (simp add: add_ids_file [of fs] add_ids_single)
  have r: "read_set ?A file = js_set_add (read_set fs file) x"
    using assms(1) by (simp add: read_set_add_ids add_ids_single)
  have "fst (remove_ids ?A file [x]) = write_set ?A file (js_set_delete (read_set ?A file) x)"
    by (simp add: remove_ids_file [of ?A] remove_ids_single)
  also have "\<dots> = write_set fs file (read_set fs file)"
    using assms(2) by (subst r) (simp add: a js_set_delete_add_absent)
  also have "\<dots> = fs" using assms(3) by (rule write_set_canonical)
  finally show ?thesis .
qed

section \<open>parseUserId\<close>

lemma filter_digits_special:
  "filter is_digit (filter (\<lambda>c. c \<notin> set ''<@!>#&'') s) = filter is_digit s"
  by (induction s) (auto simp: is_digit_def)

lemma filter_digits_valid: "valid_id i \<Longrightarrow> filter is_digit i = i"
  by (simp add: valid_id_def list_all_iff)

lemma parse_user_id_Some:
  "parse_user_id (Some s) =
     (if s = [] then None
      else let i = filter is_digit s in if valid_id i then Some i else None)"
  by (simp only: parse_user_id_def option.case filter_digits_special)

lemma parse_user_id_valid: "parse_user_id str = Some i \<Longrightarrow> valid_id i"
  by (auto simp: parse_user_id_def Let_def split: option.splits if_splits)

text \<open>
  \<open>parseUserId\<close> recovers a valid identifier from any wrapping without digits,
  in particular from the mention forms \<open><@id>\<close> and \<open><@!id>\<close>.
\<close>

theorem parse_user_id_wrapped:
  assumes "valid_id i" and "\<not> list_ex is_digit (p @ q)"
  shows "parse_user_id (Some (p @ i @ q)) = Some i"
proof -
  from assms(2) have fp: "filter is_digit p = []" and fq: "filter is_digit q = []"
    by (simp_all add: list_ex_iff filter_empty_conv)
  from assms(1) have fi: "filter is_digit i = i" by (rule filter_digits_valid)
  from assms(1) have "p @ i @ q \<noteq> []" by (auto simp: valid_id_def)
  then show ?thesis using assms(1) by (simp add: parse_user_id_Some Let_def fp fq fi)
qed

lemma parse_user_id_wrapped_witness:
  "valid_id ''123456'' \<and> \<not> list_ex is_digit (''<@!'' @ ''>'') \<and>
   parse_user_id (Some (''<@!'' @ ''123456'' @ ''>'')) = Some ''123456''"
proof -
  have v: "valid_id ''123456''" by (simp add: valid_id_def is_digit_def)
  have n: "\<not> list_ex is_digit (''<@!'' @ ''>'')" by (simp add: is_digit_def)
  show ?thesis using parse_user_id_wrapped [OF v n] v n by simp
qed

end
