(* ===== verification/Features.thy ===== *)
theory Features
  imports Prelude
begin

text \<open>
  The feature toggle registry of \<open>src/index.js\<close> (lines 185--229 and the
  \<open>+enable\<close>/\<open>+disable\<close> command, lines 1458--1496). \<open>FEATURES\<close> is a plain
  JavaScript object, modelled as its list of own entries in property order
  (\<open>jsobj\<close>); \<open>FEATURES[key] = v\<close> is \<open>obj_set\<close> and \<open>{...A, ...B}\<close> is
  \<open>obj_assign (obj_assign [] A) B\<close>. A watcher's guard \<open>if (!FEATURES.ban) return\<close>
  tests JavaScript truthiness (\<open>feature_on\<close>).
  \<open>features.json\<close> is held as the entry list that \<open>JSON.stringify\<close> wrote and
  \<open>JSON.parse\<close> returns (\<open>None\<close>: missing or unparsable); the JSON text itself is
  not modelled, nor the ordering JavaScript gives to integer-like keys.
  The theory proves that every loaded or updated registry lists the six capabilities
  first and without duplicates, that loading what was saved gives the registry back,
  and what the toggle command does to each capability.
\<close>

datatype jsval = JBool bool | JNum rat | JStr string | JNull | JArr | JObj

fun truthy :: "jsval \<Rightarrow> bool" where
  "truthy (JBool b) = b"
| "truthy (JNum n) = (n \<noteq> 0)"
| "truthy (JStr s) = (s \<noteq> [])"
| "truthy JNull = False"
| "truthy JArr = True"
| "truthy JObj = True"

type_synonym jsobj = "(string \<times> jsval) list"

fun obj_set :: "jsobj \<Rightarrow> string \<Rightarrow> jsval \<Rightarrow> jsobj" where
  "obj_set [] k v = [(k, v)]"
| "obj_set ((k', v') # kvs) k v =
     (if k' = k then (k, v) # kvs else (k', v') # obj_set kvs k v)"

definition obj_assign :: "jsobj \<Rightarrow> jsobj \<Rightarrow> jsobj" where
  "obj_assign a b = fold (\<lambda>(k, v) acc. obj_set acc k v) b a"

definition feature_keys :: "string list" where
  "feature_keys = [''ban'', ''kick'', ''botadd'', ''channel'', ''roleUpdate'', ''roleDelete'']"

definition default_features :: jsobj where
  "default_features = map (\<lambda>k. (k, JBool True)) feature_keys"

text \<open>\<open>if (!FEATURES[k]) return\<close>: a missing key is \<open>undefined\<close>, which is falsy.\<close>

definition feature_on :: "jsobj \<Rightarrow> string \<Rightarrow> bool" where
  "feature_on f k = (case map_of f k of None \<Rightarrow> False | Some v \<Rightarrow> truthy v)"

text \<open>\<open>listFeaturesPretty()\<close>, lines 224--228: every key of \<open>FEATURES\<close> in order with
  whether it shows \<open>ENABLED\<close> (\<open>v ? 'ENABLED' : 'DISABLED'\<close>); the bullets and the
  join into lines are rendering.\<close>

definition list_features_pretty :: "jsobj \<Rightarrow> (string \<times> bool) list" where
  "list_features_pretty f = map (\<lambda>(k, v). (k, truthy v)) f"

text \<open>
  \<open>loadFeatures()\<close>: the argument is the parsed file, the result the new
  \<open>FEATURES\<close> and the file afterwards (the defaults are written back when the read
  or the parse failed).
\<close>

definition save_features :: "jsobj \<Rightarrow> jsobj option" where
  "save_features f = Some f"

definition load_features :: "jsobj option \<Rightarrow> jsobj \<times> jsobj option" where
  "load_features parsed =
     (case parsed of
        Some obj \<Rightarrow> (obj_assign (obj_assign [] default_features) obj, parsed)
      | None \<Rightarrow> (obj_assign [] default_features,
                 save_features (obj_assign [] default_features)))"

definition normalize_feature_key :: "string option \<Rightarrow> string option" where
  "normalize_feature_key k =
     (case k of
        None \<Rightarrow> None
      | Some raw \<Rightarrow>
          if raw = [] then None
          else (let s = js_trim (js_lower raw) in
                if s \<in> set [''ban'', ''bans''] then Some ''ban''
                else if s \<in> set [''kick'', ''kicks''] then Some ''kick''
                else if s \<in> set [''botadd'', ''bot'', ''bots''] then Some ''botadd''
                else if s \<in> set [''channel'', ''channels'', ''ch''] then Some ''channel''
                else if s \<in> set [''roleupdate'', ''role'', ''role-update'', ''role_upd'', ''ru'']
                  then Some ''roleUpdate''
                else if s \<in> set [''roledelete'', ''role-del'', ''rd''] then Some ''roleDelete''
                else None))"

text \<open>The \<open>+enable\<close>/\<open>+disable\<close> command: its reply and the new registry.\<close>

datatype feat_reply = FeatUsage | FeatUpdated nat "string list"

definition feature_sep :: "char \<Rightarrow> bool" where
  "feature_sep c \<longleftrightarrow> c = CHR '','' \<or> js_ws c"

definition feature_tokens :: "string \<Rightarrow> string list" where
  "feature_tokens args = filter (\<lambda>s. s \<noteq> []) (map js_trim (split_on feature_sep args))"

definition apply_feature_token ::
  "bool \<Rightarrow> string \<Rightarrow> jsobj \<times> nat \<times> string list \<Rightarrow> jsobj \<times> nat \<times> string list" where
  "apply_feature_token enabling t acc =
     (case acc of (f, changed, unknown) \<Rightarrow>
        (case normalize_feature_key (Some t) of
           None \<Rightarrow> (f, changed, unknown @ [t])
         | Some key \<Rightarrow> (obj_set f key (JBool enabling), Suc changed, unknown)))"

definition toggle_enabling :: "string \<Rightarrow> bool" where
  "toggle_enabling content = starts_with (js_lower content) ''+enable ''"

text \<open>\<open>content.replace(/^\+(enable|disable)\s*/i, '')\<close>, then the tokens.\<close>

definition toggle_tokens :: "string \<Rightarrow> string list" where
  "toggle_tokens content =
     feature_tokens (dropWhile js_ws (drop (if toggle_enabling content then 7 else 8) content))"

definition feature_command :: "string \<Rightarrow> jsobj \<Rightarrow> (jsobj \<times> feat_reply) option" where
  "feature_command content f =
     (if \<not> (starts_with (js_lower content) ''+enable '' \<or> starts_with (js_lower content) ''+disable'')
      then None
      else if toggle_tokens content = [] then Some (f, FeatUsage)
      else (case fold (apply_feature_token (toggle_enabling content)) (toggle_tokens content) (f, 0, []) of
              (f', changed, unknown) \<Rightarrow> Some (f', FeatUpdated changed unknown)))"

text \<open>A registry lists the six capabilities first, in order, and no key twice.\<close>

definition features_wf :: "jsobj \<Rightarrow> bool" where
  "features_wf f \<longleftrightarrow> take 6 (map fst f) = feature_keys \<and> distinct (map fst f)"

definition recognised :: "string \<Rightarrow> bool" where
  "recognised t \<longleftrightarrow> normalize_feature_key (Some t) \<noteq> None"

section \<open>Object laws\<close>

lemma map_of_obj_set [simp]: "map_of (obj_set f k v) = (map_of f)(k \<mapsto> v)"
  by (induction f) auto

lemma keys_obj_set:
  "map fst (obj_set f k v) = (if k \<in> set (map fst f) then map fst f else map fst f @ [k])"
  by (induction f) force+

lemma obj_set_notin: "k \<notin> set (map fst a) \<Longrightarrow> obj_set a k v = a @ [(k, v)]"
  by (induction a) auto

lemma obj_set_append_notin:
  "k \<notin> set (map fst a) \<Longrightarrow> obj_set (a @ c) k v = a @ obj_set c k v"
  by (induction a) auto

lemma obj_set_head [simp]: "obj_set ((k, v') # c) k v = (k, v) # c"
  by simp

text \<open>
  Assigning the entries of \<open>b\<close> onto an object whose keys run along a prefix of
  \<open>b\<close>'s keys gives \<open>b\<close> back: the key order of the prefix is kept, the values
  are overwritten.
\<close>

lemma fold_obj_set_prefix:
  assumes "distinct (map fst (b1 @ b2))" and "map fst c = take (length c) (map fst b2)"
  shows "fold (\<lambda>(k, v) acc. obj_set acc k v) b2 (b1 @ c) = b1 @ b2"
  using assms
proof (induction b2 arbitrary: b1 c)
  case Nil
  then show ?case by simp
next
  case (Cons kv b2)
  obtain k v where kv: "kv = (k, v)" by (cases kv)
  have k_new: "k \<notin> set (map fst b1)" using Cons.prems(1) kv by auto
  have step: "obj_set (b1 @ c) k v = (b1 @ [(k, v)]) @ tl c"
  proof (cases c)
    case Nil
    then show ?thesis using k_new by (simp add: obj_set_notin)
  next
    case (Cons kv' c')
    with Cons.prems(2) kv have "fst kv' = k" by simp
    with Cons k_new show ?thesis by (cases kv') (simp add: obj_set_append_notin)
  qed
  have "map fst (tl c) = take (length (tl c)) (map fst b2)"
    using Cons.prems(2) kv by (cases c) simp_all
  moreover have "distinct (map fst ((b1 @ [(k, v)]) @ b2))" using Cons.prems(1) kv by simp
  ultimately have "fold (\<lambda>(k, v) acc. obj_set acc k v) b2 ((b1 @ [(k, v)]) @ tl c) =
                   (b1 @ [(k, v)]) @ b2"
    by (rule Cons.IH [rotated])
  then show ?case using step kv by simp
qed

lemma map_of_obj_assign:
  "map_of (obj_assign a b) k =
     (case map_of (rev b) k of None \<Rightarrow> map_of a k | Some v \<Rightarrow> Some v)"
  unfolding obj_assign_def
  by (induction b arbitrary: a) (auto simp: map_add_def split: option.splits)

section \<open>The registry's shape\<close>

lemma features_wf_length: "features_wf f \<Longrightarrow> 6 \<le> length f"
proof -
  assume "features_wf f"
  then have "length (take 6 (map fst f)) = 6" by (simp add: features_wf_def feature_keys_def)
  then show ?thesis by simp
qed

lemma features_wf_obj_set: "features_wf f \<Longrightarrow> features_wf (obj_set f k v)"
  using features_wf_length [of f] by (auto simp: features_wf_def keys_obj_set)

lemma features_wf_fold_obj_set:
  "features_wf f \<Longrightarrow> features_wf (fold (\<lambda>(k, v) acc. obj_set acc k v) b f)"
  by (induction b arbitrary: f) (auto simp: features_wf_obj_set)

lemma obj_assign_defaults: "obj_assign [] default_features = default_features"
  using fold_obj_set_prefix [of "[]" default_features "[]"]
  by (simp add: obj_assign_def default_features_def feature_keys_def)

lemma features_wf_default: "features_wf default_features"
  by (simp add: features_wf_def default_features_def feature_keys_def)

lemma normalize_feature_key_keys:
  "normalize_feature_key k = Some key \<Longrightarrow> key \<in> set feature_keys"
  unfolding normalize_feature_key_def feature_keys_def Let_def
  by (simp split: option.splits if_splits)

lemma fst_load_features:
  "fst (load_features parsed) =
     (case parsed of None \<Rightarrow> default_features | Some obj \<Rightarrow> obj_assign default_features obj)"
  by (simp add: load_features_def obj_assign_defaults split: option.splits)

lemma features_wf_assign_default: "features_wf (obj_assign default_features obj)"
  by (simp add: obj_assign_def features_wf_fold_obj_set features_wf_default)

text \<open>
  Loading the registry always yields one that lists the six capabilities first
  and no key twice, whatever the file held.
\<close>

theorem load_features_wf: "features_wf (fst (load_features parsed))"
  by (simp add: fst_load_features features_wf_default features_wf_assign_default split: option.splits)

text \<open>
  Saving a registry and loading it again gives the same registry
  (\<open>saveFeatures\<close> followed by \<open>loadFeatures\<close>).
\<close>

theorem load_save_features:
  assumes "features_wf f"
  shows "load_features (save_features f) = (f, save_features f)"
proof -
  have d: "map fst default_features = feature_keys" "length default_features = 6"
    by (simp_all add: default_features_def feature_keys_def)
  have "map fst default_features = take (length default_features) (map fst f)"
    using assms unfolding features_wf_def d by simp
  moreover have "distinct (map fst ([] @ f))" using assms by (simp add: features_wf_def)
  ultimately have "fold (\<lambda>(k, v) acc. obj_set acc k v) f ([] @ default_features) = [] @ f"
    by (intro fold_obj_set_prefix)
  then show ?thesis
    unfolding load_features_def save_features_def obj_assign_defaults
    by (simp add: obj_assign_def)
qed

lemma load_save_features_witness:
  "features_wf default_features \<and>
   load_features (save_features default_features) = (default_features, save_features default_features)"
  using load_save_features [OF features_wf_default] features_wf_default by simp

section \<open>The toggle command\<close>

lemma fold_apply_feature_token:
  "fold (apply_feature_token en) ts (f, c, u) =
     (fold (\<lambda>t f. case normalize_feature_key (Some t) of
                     None \<Rightarrow> f | Some key \<Rightarrow> obj_set f key (JBool en)) ts f,
      c + length (filter recognised ts), u @ filter (\<lambda>t. \<not> recognised t) ts)"
  by (induction ts arbitrary: f c u)
     (auto simp: apply_feature_token_def recognised_def split: option.splits)

lemma map_of_fold_toggle:
  "map_of (fold (\<lambda>t f. case normalize_feature_key (Some t) of
                         None \<Rightarrow> f | Some key \<Rightarrow> obj_set f key (JBool en)) ts f) k =
     (if \<exists>t \<in> set ts. normalize_feature_key (Some t) = Some k then Some (JBool en) else map_of f k)"
  by (induction ts arbitrary: f) (auto split: option.splits)

lemma keys_fold_toggle:
  "set feature_keys \<subseteq> set (map fst f) \<Longrightarrow>
   map fst (fold (\<lambda>t f. case normalize_feature_key (Some t) of
                         None \<Rightarrow> f | Some key \<Rightarrow> obj_set f key (JBool en)) ts f) = map fst f"
proof (induction ts arbitrary: f)
  case Nil
  then show ?case by simp
next
  case (Cons t ts)
  show ?case
  proof (cases "normalize_feature_key (Some t)")
    case None
    with Cons show ?thesis by simp
  next
    case (Some key)
    then have "key \<in> set (map fst f)" using Cons.prems normalize_feature_key_keys by blast
    then have k: "map fst (obj_set f key (JBool en)) = map fst f" by (simp add: keys_obj_set)
    then have "set feature_keys \<subseteq> set (map fst (obj_set f key (JBool en)))"
      using Cons.prems by simp
    from Cons.IH [OF this] k Some show ?thesis by simp
  qed
qed

lemma feature_command_prefix:
  assumes "feature_command content f = Some (f', reply)"
  shows "starts_with (js_lower content) ''+enable '' \<or> starts_with (js_lower content) ''+disable''"
  using assms unfolding feature_command_def by (metis option.discI)

lemma feature_command_usage:
  assumes "feature_command content f = Some (f', reply)"
  shows "toggle_tokens content = [] \<Longrightarrow> f' = f \<and> reply = FeatUsage"
  using assms feature_command_prefix [OF assms] unfolding feature_command_def by simp

lemma feature_command_update:
  assumes "feature_command content f = Some (f', reply)"
  shows "toggle_tokens content \<noteq> [] \<Longrightarrow>
         (f', reply) = (case fold (apply_feature_token (toggle_enabling content)) (toggle_tokens content)
                               (f, 0, []) of
                          (f', changed, unknown) \<Rightarrow> (f', FeatUpdated changed unknown))"
  using assms feature_command_prefix [OF assms] unfolding feature_command_def
  by (simp split: prod.splits)

lemma feature_command_updated:
  assumes "feature_command content f = Some (f', reply)" "toggle_tokens content \<noteq> []"
  shows "f' = fold (\<lambda>t f. case normalize_feature_key (Some t) of
                             None \<Rightarrow> f | Some key \<Rightarrow> obj_set f key (JBool (toggle_enabling content)))
                (toggle_tokens content) f
         \<and> reply = FeatUpdated (length (filter recognised (toggle_tokens content)))
                               (filter (\<lambda>t. \<not> recognised t) (toggle_tokens content))"
  using feature_command_update [OF assms(1) assms(2)] by (simp add: fold_apply_feature_token)

text \<open>
  C33. The \<open>+enable\<close>/\<open>+disable\<close> command sets exactly the capabilities its
  recognised tokens name to the command's value, leaves every other key as it was,
  and reports the number of recognised tokens and the list of the others.
\<close>

theorem feature_command_effect:
  assumes "feature_command content f = Some (f', reply)"
  shows "map_of f' k =
           (if \<exists>t \<in> set (toggle_tokens content). normalize_feature_key (Some t) = Some k
            then Some (JBool (toggle_enabling content)) else map_of f k) \<and>
         reply = (if toggle_tokens content = [] then FeatUsage
                  else FeatUpdated (length (filter recognised (toggle_tokens content)))
                                   (filter (\<lambda>t. \<not> recognised t) (toggle_tokens content)))"
  using feature_command_usage [OF assms] feature_command_updated [OF assms]
  by (cases "toggle_tokens content = []") (simp_all add: map_of_fold_toggle)

lemma feature_command_effect_witness:
  "feature_command ''+disable bans'' default_features =
     Some (obj_set default_features ''ban'' (JBool False), FeatUpdated 1 []) \<and>
   map_of (obj_set default_features ''ban'' (JBool False)) ''ban'' = Some (JBool False)"
proof -
  have c: "feature_command ''+disable bans'' default_features =
           Some (obj_set default_features ''ban'' (JBool False), FeatUpdated 1 [])"
    by (simp add: feature_command_def toggle_tokens_def toggle_enabling_def Let_def js_lower_def
        js_lower_char_def starts_with_def feature_tokens_def split_on_def feature_sep_def js_trim_def
        js_ws_def apply_feature_token_def normalize_feature_key_def)
  have t: "toggle_tokens ''+disable bans'' = [''bans'']"
    by (simp add: toggle_tokens_def toggle_enabling_def js_lower_def js_lower_char_def starts_with_def
        feature_tokens_def split_on_def feature_sep_def js_trim_def js_ws_def)
  have n: "normalize_feature_key (Some ''bans'') = Some ''ban''"
    by (simp add: normalize_feature_key_def js_lower_def js_lower_char_def js_trim_def js_ws_def)
  have en: "\<not> toggle_enabling ''+disable bans''"
    by (simp add: toggle_enabling_def js_lower_def js_lower_char_def starts_with_def)
  show ?thesis using feature_command_effect [OF c, of "''ban''"] c t n en by simp
qed

text \<open>The command never adds or removes a key of a well-formed registry.\<close>

lemma feature_command_keys:
  assumes "features_wf f" and "feature_command content f = Some (f', reply)"
  shows "map fst f' = map fst f"
proof -
  have "set feature_keys \<subseteq> set (map fst f)"
    using assms(1) by (metis features_wf_def set_take_subset)
  then show ?thesis
    using feature_command_usage [OF assms(2)] feature_command_updated [OF assms(2)]
    by (cases "toggle_tokens content = []") (simp_all add: keys_fold_toggle)
qed

lemma feature_command_wf:
  "features_wf f \<Longrightarrow> feature_command content f = Some (f', reply) \<Longrightarrow> features_wf f'"
  using feature_command_keys unfolding features_wf_def by metis

end
