(* ===== verification/RoleBaseline.thy ===== *)
theory RoleBaseline
  imports Prelude
begin

text \<open>
  The role baseline snapshot of \<open>src/index.js\<close> (lines 146--184):
  \<open>ORIGINAL_ROLE_STATE\<close> maps a guild id to a map from role id to the role's last
  accepted \<open>{ position, permissions }\<close>; \<open>snapshotGuildRoles\<close>,
  \<open>getOriginalRoleState\<close>, \<open>setOriginalRoleState\<close> and
  \<open>removeOriginalRoleState\<close> read and write it. The nested JavaScript \<open>Map\<close>s are
  nested partial functions. The theory proves the lookup/update laws the enforcement
  engine relies on: a lookup after a set returns the snapshot just taken, a lookup after
  a remove returns nothing, and both leave every other role and guild unchanged.
\<close>

record role_snap =
  position :: int
  permissions :: perm

text \<open>The part of a discord.js \<open>Role\<close> the bot reads.\<close>

record role =
  role_id :: snowflake
  role_position :: int
  role_perms :: perm

type_synonym baseline = "snowflake \<rightharpoonup> (snowflake \<rightharpoonup> role_snap)"

definition snap_of :: "role \<Rightarrow> role_snap" where
  "snap_of r = \<lparr>position = role_position r, permissions = role_perms r\<rparr>"

text \<open>
  \<open>snapshotGuildRoles(guild)\<close>: \<open>None\<close> as argument is a \<open>roles.fetch()\<close> that
  threw, which leaves the map as it was.
\<close>

definition snapshot_guild_roles :: "baseline \<Rightarrow> snowflake \<Rightarrow> role list option \<Rightarrow> baseline" where
  "snapshot_guild_roles b gid fetched =
     (case fetched of
        None \<Rightarrow> b
      | Some roles \<Rightarrow> b(gid \<mapsto> fold (\<lambda>r m. m(role_id r \<mapsto> snap_of r)) roles Map.empty))"

definition get_original_role_state :: "baseline \<Rightarrow> snowflake \<Rightarrow> snowflake \<Rightarrow> role_snap option" where
  "get_original_role_state b gid rid = (case b gid of None \<Rightarrow> None | Some m \<Rightarrow> m rid)"

definition set_original_role_state :: "baseline \<Rightarrow> snowflake \<Rightarrow> role \<Rightarrow> baseline" where
  "set_original_role_state b gid r =
     b(gid \<mapsto> (case b gid of None \<Rightarrow> Map.empty | Some m \<Rightarrow> m)(role_id r \<mapsto> snap_of r))"

definition remove_original_role_state :: "baseline \<Rightarrow> snowflake \<Rightarrow> snowflake \<Rightarrow> baseline" where
  "remove_original_role_state b gid rid =
     (case b gid of None \<Rightarrow> b | Some m \<Rightarrow> b(gid \<mapsto> m(rid := None)))"

section \<open>Lookup and update laws\<close>

lemma get_set_original_role_state [simp]:
  "get_original_role_state (set_original_role_state b gid r) gid' rid =
     (if gid' = gid \<and> rid = role_id r then Some (snap_of r)
      else get_original_role_state b gid' rid)"
  by (auto simp: get_original_role_state_def set_original_role_state_def split: option.splits)

lemma get_remove_original_role_state [simp]:
  "get_original_role_state (remove_original_role_state b gid rid) gid' rid' =
     (if gid' = gid \<and> rid' = rid then None else get_original_role_state b gid' rid')"
  by (auto simp: get_original_role_state_def remove_original_role_state_def split: option.splits)

lemma fold_snapshot_lookup:
  "fold (\<lambda>r m. m(role_id r \<mapsto> snap_of r)) roles m0 rid =
     (case find (\<lambda>r. role_id r = rid) (rev roles) of
        None \<Rightarrow> m0 rid | Some r \<Rightarrow> Some (snap_of r))"
  by (induction roles arbitrary: m0) (auto simp: find_append split: option.splits)

text \<open>
  After a snapshot of a guild whose roles have distinct ids, the baseline of each of
  its roles is that role's current state, and no other role has one.
\<close>

lemma get_snapshot_guild_roles:
  assumes "distinct (map role_id roles)"
  shows "get_original_role_state (snapshot_guild_roles b gid (Some roles)) gid rid =
           (case find (\<lambda>r. role_id r = rid) roles of None \<Rightarrow> None | Some r \<Rightarrow> Some (snap_of r))"
proof -
  have "find (\<lambda>r. role_id r = rid) (rev roles) = find (\<lambda>r. role_id r = rid) roles"
    using assms
  proof (induction roles)
    case Nil
    then show ?case by simp
  next
    case (Cons r rs)
    then have IH: "find (\<lambda>r. role_id r = rid) (rev rs) = find (\<lambda>r. role_id r = rid) rs"
      by simp
    show ?case
    proof (cases "role_id r = rid")
      case True
      with Cons.prems have "find (\<lambda>r. role_id r = rid) rs = None"
        by (auto simp: find_None_iff image_iff)
      with True IH show ?thesis by (simp add: find_append)
    next
      case False
      with IH show ?thesis by (simp add: find_append split: option.splits)
    qed
  qed
  then show ?thesis
    by (simp add: get_original_role_state_def snapshot_guild_roles_def fold_snapshot_lookup)
qed

end
