(* ===== verification/AuditLog.thy ===== *)
theory AuditLog
  imports Prelude
begin

text \<open>
  The audit attribution of \<open>src/index.js\<close>: each watcher calls
  \<open>guild.fetchAuditLogs({ type, limit: 5 })\<close>, which returns the five newest
  entries of one action type, and picks the first entry whose target is the event's
  target and whose age is below a window (60 s for bans, 15 s otherwise). The ban
  watcher retries once, 1.5 s later, when the first read finds nothing
  (\<open>fetchEntry\<close>, lines 444--455). An audit log is a list of entries, newest first;
  a read that throws is \<open>None\<close>.
  The theory proves that the channel/role deletion watchers' "find by target, then
  check the age" agrees with the other watchers' "find by target and age" on a log
  ordered newest first, and what the ban retry returns in each case.
\<close>

datatype audit_type =
  MemberBanAdd | MemberKick | BotAdd | ChannelDelete | RoleDelete | RoleUpdate

record audit_entry =
  a_type :: audit_type
  a_target :: "snowflake option"
  a_executor :: "snowflake option"
  a_created :: int

type_synonym audit_log = "audit_entry list"

text \<open>\<open>guild.fetchAuditLogs({ type, limit: 5 })\<close>.\<close>

definition fetch_audit_logs :: "audit_log \<Rightarrow> audit_type \<Rightarrow> audit_entry list" where
  "fetch_audit_logs l ty = take 5 (filter (\<lambda>e. a_type e = ty) l)"

text \<open>\<open>logs.entries.find(e => e.target?.id === target && (Date.now() - e.createdTimestamp < w))\<close>\<close>

definition find_recent ::
  "int \<Rightarrow> int \<Rightarrow> snowflake \<Rightarrow> audit_entry list \<Rightarrow> audit_entry option" where
  "find_recent now w target es =
     find (\<lambda>e. a_target e = Some target \<and> now - a_created e < w) es"

text \<open>
  The deletion watchers: \<open>find(e => e.target?.id === target)\<close>, then
  \<open>if (!(Date.now() - entry.createdTimestamp < 15_000)) return\<close>.
\<close>

definition find_then_check ::
  "int \<Rightarrow> int \<Rightarrow> snowflake \<Rightarrow> audit_entry list \<Rightarrow> audit_entry option" where
  "find_then_check now w target es =
     (case find (\<lambda>e. a_target e = Some target) es of
        None \<Rightarrow> None
      | Some e \<Rightarrow> if now - a_created e < w then Some e else None)"

text \<open>
  The ban watcher's \<open>fetchEntry\<close> with its retry. The arguments are the log and the
  clock at the first read and at the read 1.5 s later. The outer \<open>None\<close> is a read
  that threw (the handler's \<open>catch\<close> ends it), the inner one an entry not found.
\<close>

definition fetch_ban_entry :: "int \<Rightarrow> snowflake \<Rightarrow> audit_log \<Rightarrow> audit_entry option" where
  "fetch_ban_entry now target l = find_recent now 60000 target (fetch_audit_logs l MemberBanAdd)"

definition resolve_ban_entry ::
  "audit_log option \<Rightarrow> int \<Rightarrow> audit_log option \<Rightarrow> int \<Rightarrow> snowflake \<Rightarrow> audit_entry option option" where
  "resolve_ban_entry l1 t1 l2 t2 target =
     (case l1 of
        None \<Rightarrow> None
      | Some log1 \<Rightarrow>
          (case fetch_ban_entry t1 target log1 of
             Some e \<Rightarrow> Some (Some e)
           | None \<Rightarrow> (case l2 of None \<Rightarrow> None | Some log2 \<Rightarrow> Some (fetch_ban_entry t2 target log2))))"

section \<open>Properties\<close>

text \<open>A log ordered newest first: creation times do not increase along the list.\<close>

definition newest_first :: "audit_entry list \<Rightarrow> bool" where
  "newest_first es \<longleftrightarrow> sorted_wrt (\<lambda>a b. a_created b \<le> a_created a) es"

lemma newest_first_filter: "newest_first l \<Longrightarrow> newest_first (filter P l)"
  by (simp add: newest_first_def sorted_wrt_filter)

lemma newest_first_take: "newest_first l \<Longrightarrow> newest_first (take n l)"
  by (simp add: newest_first_def sorted_wrt_take)

lemma newest_first_fetch: "newest_first l \<Longrightarrow> newest_first (fetch_audit_logs l ty)"
  by (simp add: fetch_audit_logs_def newest_first_filter newest_first_take)

lemma find_then_check_Cons:
  "find_then_check now w target (e # es) =
     (if a_target e = Some target then (if now - a_created e < w then Some e else None)
      else find_then_check now w target es)"
  by (simp add: find_then_check_def)

text \<open>
  C34. On a log ordered newest first, the deletion watchers' lookup (first entry for
  the target, then its age) finds the same entry as the age-filtered lookup of the
  other watchers.
\<close>

theorem find_then_check_eq_find_recent:
  assumes "newest_first es"
  shows "find_then_check now w target es = find_recent now w target es"
  using assms
proof (induction es)
  case Nil
  then show ?case by (simp add: find_then_check_def find_recent_def)
next
  case (Cons e es)
  have tail: "newest_first es" and older: "\<forall>x \<in> set es. a_created x \<le> a_created e"
    using Cons.prems by (simp_all add: newest_first_def)
  show ?case
  proof (cases "a_target e = Some target")
    case True
    have "find_recent now w target es = None" if "\<not> now - a_created e < w"
      using that older by (auto simp: find_recent_def find_None_iff)
    with True show ?thesis by (simp add: find_then_check_Cons find_recent_def)
  next
    case False
    then show ?thesis using Cons.IH tail by (simp add: find_then_check_Cons find_recent_def)
  qed
qed

lemma find_then_check_eq_find_recent_witness:
  "newest_first [\<lparr>a_type = ChannelDelete, a_target = Some ''42'', a_executor = Some ''7'', a_created = 100\<rparr>,
                 \<lparr>a_type = ChannelDelete, a_target = Some ''42'', a_executor = Some ''8'', a_created = 90\<rparr>] \<and>
   find_then_check 120 15 ''42''
     [\<lparr>a_type = ChannelDelete, a_target = Some ''42'', a_executor = Some ''7'', a_created = 100\<rparr>,
      \<lparr>a_type = ChannelDelete, a_target = Some ''42'', a_executor = Some ''8'', a_created = 90\<rparr>] =
   find_recent 120 15 ''42''
     [\<lparr>a_type = ChannelDelete, a_target = Some ''42'', a_executor = Some ''7'', a_created = 100\<rparr>,
      \<lparr>a_type = ChannelDelete, a_target = Some ''42'', a_executor = Some ''8'', a_created = 90\<rparr>]"
proof -
  let ?es = "[\<lparr>a_type = ChannelDelete, a_target = Some ''42'', a_executor = Some ''7'', a_created = 100\<rparr>,
              \<lparr>a_type = ChannelDelete, a_target = Some ''42'', a_executor = Some ''8'', a_created = 90\<rparr>]"
  have s: "newest_first ?es" by (simp add: newest_first_def)
  show ?thesis using find_then_check_eq_find_recent [OF s, of 120 15 "''42''"] s by simp
qed

lemma resolve_ban_first:
  "fetch_ban_entry t1 target log1 = Some e \<Longrightarrow>
   resolve_ban_entry (Some log1) t1 l2 t2 target = Some (Some e)"
  by (simp add: resolve_ban_entry_def)

lemma resolve_ban_retry:
  "fetch_ban_entry t1 target log1 = None \<Longrightarrow>
   resolve_ban_entry (Some log1) t1 (Some log2) t2 target = Some (fetch_ban_entry t2 target log2)"
  by (simp add: resolve_ban_entry_def)

lemma find_recent_fetch:
  "find_recent now w target (fetch_audit_logs l ty) = Some e \<Longrightarrow>
   a_type e = ty \<and> a_target e = Some target \<and> now - a_created e < w"
  by (auto simp: find_recent_def fetch_audit_logs_def dest!: find_SomeD dest: in_set_takeD)

lemma resolve_ban_entry_found:
  "resolve_ban_entry l1 t1 l2 t2 target = Some (Some e) \<Longrightarrow>
   a_type e = MemberBanAdd \<and> a_target e = Some target"
  by (auto simp: resolve_ban_entry_def fetch_ban_entry_def split: option.splits
      dest: find_recent_fetch)

end
