(* ===== verification/Perms.thy ===== *)
theory Perms
  imports Prelude
begin

text \<open>
  Permission bitfields. \<open>src/index.js\<close> guards every watcher with
  \<open>me.permissions.has(PermissionsBitField.Flags.ViewAuditLog)\<close> and the ban reversal
  with \<open>BanMembers\<close>. \<open>PermissionsBitField.has\<close> is discord.js code, not part of the
  repository: it tests \<open>(bitfield & bit) === bit\<close>, and by default succeeds for any
  bit when the Administrator bit is set. Bitfields are 64-bit words here
  (\<open>perm\<close>); Discord's flags all lie below bit 64.
\<close>

unbundle bit_operations_syntax

definition flag_kick_members :: perm where "flag_kick_members = push_bit 1 1"
definition flag_ban_members :: perm where "flag_ban_members = push_bit 2 1"
definition flag_administrator :: perm where "flag_administrator = push_bit 3 1"
definition flag_view_audit_log :: perm where "flag_view_audit_log = push_bit 7 1"
definition flag_manage_roles :: perm where "flag_manage_roles = push_bit 28 1"

text \<open>\<open>bits.has(bit)\<close> with \<open>checkAdmin = true\<close>.\<close>

definition bits_has :: "perm \<Rightarrow> perm \<Rightarrow> bool" where
  "bits_has p f \<longleftrightarrow> p AND f = f"

definition perm_has :: "perm \<Rightarrow> perm \<Rightarrow> bool" where
  "perm_has p f \<longleftrightarrow> bits_has p flag_administrator \<or> bits_has p f"

lemma flag_values:
  "flag_kick_members = 2" "flag_ban_members = 4" "flag_administrator = 8"
  "flag_view_audit_log = 128" "flag_manage_roles = 268435456"
  by (simp_all add: flag_kick_members_def flag_ban_members_def flag_administrator_def
      flag_view_audit_log_def flag_manage_roles_def)

lemma perm_has_admin: "bits_has p flag_administrator \<Longrightarrow> perm_has p f"
  by (simp add: perm_has_def)

lemma bits_has_or: "bits_has p f \<Longrightarrow> bits_has (p OR q) f"
proof -
  assume "bits_has p f"
  then have "p AND f = f" by (simp add: bits_has_def)
  then have "(p OR q) AND f = f OR (q AND f)" by (simp add: bit.conj_disj_distrib2)
  also have "\<dots> = f" by (simp add: bit_eq_iff bit_or_iff bit_and_iff)
  finally show ?thesis by (simp add: bits_has_def)
qed

text \<open>Granting more bits never revokes a permission.\<close>

lemma perm_has_mono: "perm_has p f \<Longrightarrow> perm_has (p OR q) f"
  by (auto simp: perm_has_def bits_has_or)

lemma perm_has_zero: "\<not> perm_has 0 flag_view_audit_log"
  by (simp add: perm_has_def bits_has_def flag_values)

end
