(* ===== verification/Engine.thy ===== *)
theory Engine
  imports IdStore Features RoleBaseline AuditLog Perms
begin

text \<open>
  The enforcement decision engine of \<open>src/index.js\<close>: the audit-log watchers
  \<open>guildBanAdd\<close>, \<open>channelDelete\<close>, \<open>roleDelete\<close> (two listeners),
  \<open>roleCreate\<close>, \<open>roleUpdate\<close>, \<open>guildMemberRemove\<close> and \<open>guildMemberAdd\<close>
  (lines 415--763) with their helper \<open>addExecutorToBlacklist\<close>.

  The bot's mutable state is the record \<open>bot_state\<close>: the set files, the
  \<open>FEATURES\<close> object, \<open>ORIGINAL_ROLE_STATE\<close> and \<open>REVERTING_ROLES\<close>. What the
  platform answers during one handler run is the record \<open>env\<close>: the bot's and the
  guild owner's ids, the bot member's permissions (\<open>None\<close>: no member object), the
  audit log as the handler reads it (and as the ban watcher reads it again 1.5 s later),
  the clock, whether a log channel is found, whether each platform call succeeds
  (\<open>call_ok\<close>) and whether the gateway's update of the reverted role reaches the
  cached role object before the role watcher resets its baseline (\<open>role_patched\<close>).
  A handler run maps the state and the list of platform calls made so far
  (\<open>run\<close>) to the new ones. A call that fails throws; the thrown error is the
  \<open>Inl\<close> of \<open>res\<close>, and each handler ends where its outer \<open>catch\<close> swallows it.
  Awaited calls of one handler are sequenced; handlers are not interleaved.
\<close>

datatype log_note =
    NoteBlacklisted snowflake
  | NoteBanCannotReverse snowflake
  | NoteUnbanned snowflake
  | NoteUnbanFailed snowflake
  | NoteRoleCreated snowflake
  | NoteRoleAccepted snowflake snowflake
  | NoteRoleReverted snowflake bool bool "snowflake option"
  | NoteKickDetected snowflake "snowflake option"
  | NoteBotAdded snowflake "snowflake option"
  | NoteAutoBanned snowflake

datatype action =
    Unban snowflake snowflake
  | BanMember snowflake snowflake
  | KickMember snowflake snowflake
  | SetPermissions snowflake snowflake perm
  | SetPosition snowflake snowflake int
  | SendLog log_note
  | SendDM snowflake

record bot_state =
  store :: fstore
  features :: jsobj
  role_base :: baseline
  reverting :: "snowflake list"

record env =
  bot_id :: snowflake
  owner_id :: snowflake
  guild_id :: snowflake
  me_perms :: "perm option"
  audit :: "audit_log option"
  audit_retry :: "audit_log option"
  now :: int
  now_retry :: int
  log_channel :: bool
  call_ok :: "action \<Rightarrow> bool"
  role_patched :: bool

datatype err = Failed action

type_synonym run = "bot_state \<times> action list"
type_synonym res = "(err + unit) \<times> run"

section \<open>Sequencing platform calls\<close>

definition ok :: "run \<Rightarrow> res" where
  "ok r = (Inr (), r)"

definition call :: "env \<Rightarrow> action \<Rightarrow> run \<Rightarrow> res" where
  "call e a r = (case r of (st, tr) \<Rightarrow>
     (if call_ok e a then Inr () else Inl (Failed a), st, tr @ [a]))"

text \<open>\<open>const logc = await getLogChannel(...); if (logc) await logc.send(...)\<close>\<close>

definition send_log :: "env \<Rightarrow> log_note \<Rightarrow> run \<Rightarrow> res" where
  "send_log e n r = (if log_channel e then call e (SendLog n) r else ok r)"

definition andthen :: "res \<Rightarrow> (run \<Rightarrow> res) \<Rightarrow> res" where
  "andthen m k = (case m of (Inl x, r) \<Rightarrow> (Inl x, r) | (Inr _, r) \<Rightarrow> k r)"

definition upd_state :: "(bot_state \<Rightarrow> bot_state) \<Rightarrow> run \<Rightarrow> run" where
  "upd_state f r = (f (fst r), snd r)"

section \<open>Shared helpers\<close>

definition is_protected_id :: "env \<Rightarrow> snowflake \<Rightarrow> bool" where
  "is_protected_id e i \<longleftrightarrow> i = owner_id e \<or> i = bot_id e"

definition has_view_audit :: "env \<Rightarrow> bool" where
  "has_view_audit e = (case me_perms e of None \<Rightarrow> False | Some p \<Rightarrow> perm_has p flag_view_audit_log)"

definition whitelisted :: "bot_state \<Rightarrow> snowflake \<Rightarrow> bool" where
  "whitelisted st i \<longleftrightarrow> i \<in> set (read_set (store st) whitelist_file)"

definition blacklisted :: "bot_state \<Rightarrow> snowflake \<Rightarrow> bool" where
  "blacklisted st i \<longleftrightarrow> i \<in> set (read_set (store st) blacklist_file)"

text \<open>\<open>entry?.executor?.id\<close>, read as JavaScript truthiness: an absent or empty id is none.\<close>

definition exec_id :: "audit_entry option \<Rightarrow> snowflake option" where
  "exec_id en =
     (case en of
        None \<Rightarrow> None
      | Some x \<Rightarrow> (case a_executor x of None \<Rightarrow> None | Some i \<Rightarrow> if i = [] then None else Some i))"

definition blacklist_add :: "snowflake \<Rightarrow> bot_state \<Rightarrow> bot_state" where
  "blacklist_add i st = st\<lparr>store := fst (add_ids (store st) blacklist_file [i])\<rparr>"

text \<open>\<open>addExecutorToBlacklist(guild, executorId, reason)\<close>, lines 418--433.\<close>

definition add_executor_to_blacklist :: "env \<Rightarrow> snowflake option \<Rightarrow> run \<Rightarrow> res" where
  "add_executor_to_blacklist e ex r =
     (case ex of
        None \<Rightarrow> ok r
      | Some x \<Rightarrow>
          if is_protected_id e x then ok r
          else if whitelisted (fst r) x then ok r
          else send_log e (NoteBlacklisted x) (upd_state (blacklist_add x) r))"

section \<open>The watchers\<close>

text \<open>\<open>client.on('guildBanAdd')\<close>, lines 435--499.\<close>

definition on_guild_ban_add :: "env \<Rightarrow> snowflake \<Rightarrow> run \<Rightarrow> run" where
  "on_guild_ban_add e target r =
     (if \<not> feature_on (features (fst r)) ''ban'' then r
      else case me_perms e of
        None \<Rightarrow> r
      | Some p \<Rightarrow>
          if \<not> perm_has p flag_view_audit_log then r
          else case resolve_ban_entry (audit e) (now e) (audit_retry e) (now_retry e) target of
            None \<Rightarrow> r
          | Some en \<Rightarrow>
              (case exec_id en of
                 None \<Rightarrow> r
               | Some x \<Rightarrow>
                   if x = bot_id e then r
                   else if whitelisted (fst r) x then r
                   else if \<not> perm_has p flag_ban_members
                   then snd (send_log e (NoteBanCannotReverse x) r)
                   else (case andthen (call e (Unban (guild_id e) target) r)
                                (send_log e (NoteUnbanned target)) of
                           (Inl _, r1) \<Rightarrow> snd (send_log e (NoteUnbanFailed target) r1)
                         | (Inr _, r1) \<Rightarrow> snd (add_executor_to_blacklist e (Some x) r1))))"

text \<open>
  \<open>client.on('channelDelete')\<close> (lines 502--517) and the first
  \<open>client.on('roleDelete')\<close> (lines 520--535): the same shape, with the audit type
  and the feature key as parameters.
\<close>

definition on_deletion ::
  "string \<Rightarrow> audit_type \<Rightarrow> env \<Rightarrow> snowflake \<Rightarrow> run \<Rightarrow> run" where
  "on_deletion key ty e target r =
     (if \<not> feature_on (features (fst r)) key then r
      else if \<not> has_view_audit e then r
      else case audit e of
        None \<Rightarrow> r
      | Some l \<Rightarrow>
          (case find_then_check (now e) 15000 target (fetch_audit_logs l ty) of
             None \<Rightarrow> r
           | Some en \<Rightarrow> snd (add_executor_to_blacklist e (exec_id (Some en)) r)))"

definition on_channel_delete :: "env \<Rightarrow> snowflake \<Rightarrow> run \<Rightarrow> run" where
  "on_channel_delete = on_deletion ''channel'' ChannelDelete"

definition on_role_delete_blacklist :: "env \<Rightarrow> snowflake \<Rightarrow> run \<Rightarrow> run" where
  "on_role_delete_blacklist = on_deletion ''roleDelete'' RoleDelete"

text \<open>The second \<open>client.on('roleDelete')\<close>, lines 555--559 (no feature guard).\<close>

definition on_role_delete_snapshot :: "env \<Rightarrow> snowflake \<Rightarrow> run \<Rightarrow> run" where
  "on_role_delete_snapshot e rid =
     upd_state (\<lambda>st. st\<lparr>role_base := remove_original_role_state (role_base st) (guild_id e) rid\<rparr>)"

text \<open>\<open>client.on('roleCreate')\<close>, lines 542--552 (no feature guard).\<close>

definition set_baseline :: "env \<Rightarrow> role \<Rightarrow> bot_state \<Rightarrow> bot_state" where
  "set_baseline e ro st = st\<lparr>role_base := set_original_role_state (role_base st) (guild_id e) ro\<rparr>"

definition on_role_create :: "env \<Rightarrow> role \<Rightarrow> run \<Rightarrow> run" where
  "on_role_create e ro r =
     snd (send_log e (NoteRoleCreated (role_id ro)) (upd_state (set_baseline e ro) r))"

text \<open>\<open>client.on('roleUpdate')\<close>, lines 567--654.\<close>

definition role_update_exec :: "env \<Rightarrow> role \<Rightarrow> snowflake option" where
  "role_update_exec e new =
     (case audit e of
        None \<Rightarrow> None
      | Some l \<Rightarrow> exec_id (find_recent (now e) 15000 (role_id new) (fetch_audit_logs l RoleUpdate)))"

text \<open>
  The \<open>newRole\<close> object that step 6 snapshots: patched with the reverted values if the
  gateway's update arrived first, otherwise still the changed role.
\<close>

definition role_at_reset :: "env \<Rightarrow> role \<Rightarrow> role_snap \<Rightarrow> role" where
  "role_at_reset e new orig =
     (if role_patched e
      then new\<lparr>role_perms := permissions orig, role_position := position orig\<rparr> else new)"

definition revert_role :: "env \<Rightarrow> role \<Rightarrow> role_snap \<Rightarrow> snowflake option \<Rightarrow> run \<Rightarrow> run" where
  "revert_role e new orig ex r =
     (let rid = role_id new;
          pc = (role_perms new \<noteq> permissions orig);
          pp = (role_position new \<noteq> position orig);
          r1 = upd_state (\<lambda>st. st\<lparr>reverting := js_set_add (reverting st) rid\<rparr>) r;
          m = andthen (if pc then call e (SetPermissions (guild_id e) rid (permissions orig)) r1 else ok r1)
                (\<lambda>r. andthen (if pp then call e (SetPosition (guild_id e) rid (position orig)) r else ok r)
                       (send_log e (NoteRoleReverted rid pc pp ex)));
          released = (fst m, upd_state (\<lambda>st. st\<lparr>reverting := js_set_delete (reverting st) rid\<rparr>) (snd m))
      in case andthen released (add_executor_to_blacklist e ex) of
           (Inl _, r2) \<Rightarrow> r2
         | (Inr _, r2) \<Rightarrow> upd_state (set_baseline e (role_at_reset e new orig)) r2)"

definition on_role_update :: "env \<Rightarrow> role \<Rightarrow> run \<Rightarrow> run" where
  "on_role_update e new r =
     (if \<not> feature_on (features (fst r)) ''roleUpdate'' then r
      else if \<not> has_view_audit e then r
      else let ex = role_update_exec e new in
        if (case ex of None \<Rightarrow> False | Some x \<Rightarrow> whitelisted (fst r) x)
        then snd (send_log e (NoteRoleAccepted (role_id new) (the ex)) (upd_state (set_baseline e new) r))
        else case get_original_role_state (role_base (fst r)) (guild_id e) (role_id new) of
          None \<Rightarrow> upd_state (set_baseline e new) r
        | Some orig \<Rightarrow>
            if role_perms new = permissions orig \<and> role_position new = position orig then r
            else revert_role e new orig ex r)"

text \<open>\<open>client.on('guildMemberRemove')\<close>, lines 659--705.\<close>

definition on_member_remove :: "env \<Rightarrow> snowflake \<Rightarrow> run \<Rightarrow> run" where
  "on_member_remove e member r =
     (if \<not> feature_on (features (fst r)) ''kick'' then r
      else if \<not> has_view_audit e then r
      else case audit e of
        None \<Rightarrow> r
      | Some l \<Rightarrow>
          (case find_recent (now e) 15000 member (fetch_audit_logs l MemberKick) of
             None \<Rightarrow> r
           | Some en \<Rightarrow>
               (let ex = exec_id (Some en) in
                case add_executor_to_blacklist e ex r of
                  (Inl _, r1) \<Rightarrow> r1
                | (Inr _, r1) \<Rightarrow>
                    snd (send_log e (NoteKickDetected member ex) (snd (call e (SendDM member) r1))))))"

text \<open>\<open>client.on('guildMemberAdd')\<close>, lines 709--763.\<close>

definition on_member_add :: "env \<Rightarrow> snowflake \<Rightarrow> bool \<Rightarrow> run \<Rightarrow> run" where
  "on_member_add e member is_bot r =
     (if \<not> feature_on (features (fst r)) ''botadd'' then r
      else if \<not> is_bot then r
      else case me_perms e of
        None \<Rightarrow> r
      | Some p \<Rightarrow>
          if \<not> perm_has p flag_view_audit_log then r
          else if whitelisted (fst r) member then r
          else case audit e of
            None \<Rightarrow> r
          | Some l \<Rightarrow>
              (let ex = exec_id (find_recent (now e) 15000 member (fetch_audit_logs l BotAdd));
                   r1 = (if is_protected_id e member then r
                         else snd (call e (KickMember (guild_id e) member) r));
                   r2 = upd_state (blacklist_add member) r1
               in case send_log e (NoteBotAdded member ex) r2 of
                    (Inl _, r3) \<Rightarrow> r3
                  | (Inr _, r3) \<Rightarrow>
                      (case ex of
                         None \<Rightarrow> r3
                       | Some x \<Rightarrow> if is_protected_id e x then r3
                                   else snd (add_executor_to_blacklist e ex r3))))"

section \<open>Dispatch\<close>

datatype event =
    BanAdded snowflake
  | ChannelDeleted snowflake
  | RoleDeleted snowflake
  | RoleCreated role
  | RoleUpdated role
  | MemberRemoved snowflake
  | MemberAdded snowflake bool

text \<open>
  Both \<open>roleDelete\<close> listeners run on a deleted role: the second one runs to its end
  while the first one awaits its audit-log read, and the two touch disjoint state.
\<close>

fun handle_event :: "env \<Rightarrow> event \<Rightarrow> run \<Rightarrow> run" where
  "handle_event e (BanAdded u) r = on_guild_ban_add e u r"
| "handle_event e (ChannelDeleted c) r = on_channel_delete e c r"
| "handle_event e (RoleDeleted rid) r = on_role_delete_blacklist e rid (on_role_delete_snapshot e rid r)"
| "handle_event e (RoleCreated ro) r = on_role_create e ro r"
| "handle_event e (RoleUpdated ro) r = on_role_update e ro r"
| "handle_event e (MemberRemoved u) r = on_member_remove e u r"
| "handle_event e (MemberAdded u b) r = on_member_add e u b r"

end
