(* ===== verification/Enforcement.thy ===== *)
theory Enforcement
  imports Engine
begin

text \<open>
  Properties of the enforcement decision engine (\<open>Engine\<close>) shared by all watchers:
  the frame lemmas of the call sequencing, what each watcher may add to the blacklist
  (never a whitelisted identifier, never a protected one except the added bot's own id),
  the feature gates, and the release of \<open>REVERTING_ROLES\<close>. The theories
  \<open>Watchers\<close> and \<open>RoleWatch\<close> build the per-watcher decision tables on it.
  The abbreviations \<open>demo_env\<close> and \<open>demo_state\<close> are a concrete guild
  (bot \<open>900000\<close>, owner \<open>100000\<close>, whitelist \<open>{222222}\<close>) on which the
  witnesses evaluate the handlers.
\<close>

named_theorems run_simps "state and trace of the sequencing combinators"

section \<open>Definitions\<close>

text \<open>
  \<open>bl_ok e A st st'\<close>: from \<open>st\<close> to \<open>st'\<close> the whitelist is unchanged and every
  identifier that entered the blacklist is unprotected and not whitelisted, or in \<open>A\<close>.
\<close>

definition bl_ok :: "env \<Rightarrow> snowflake set \<Rightarrow> bot_state \<Rightarrow> bot_state \<Rightarrow> bool" where
  "bl_ok e A st st' \<longleftrightarrow>
     read_set (store st') whitelist_file = read_set (store st) whitelist_file \<and>
     (\<forall>x. blacklisted st' x \<longrightarrow> blacklisted st x \<or> x \<in> A \<or>
                                 (\<not> is_protected_id e x \<and> \<not> whitelisted st x))"

text \<open>The identifiers a watcher may add to the blacklist beyond unprotected, non-whitelisted executors.\<close>

fun event_extra :: "bot_state \<Rightarrow> event \<Rightarrow> snowflake set" where
  "event_extra st (MemberAdded m b) = {x. x = m \<and> \<not> whitelisted st m}"
| "event_extra st ev = {}"

text \<open>
  The \<open>FEATURES\<close> key that guards each event's watcher. The role-create listener and
  the second role-delete listener have no guard.
\<close>

fun event_feature :: "event \<Rightarrow> string option" where
  "event_feature (BanAdded u) = Some ''ban''"
| "event_feature (ChannelDeleted c) = Some ''channel''"
| "event_feature (RoleUpdated ro) = Some ''roleUpdate''"
| "event_feature (MemberRemoved u) = Some ''kick''"
| "event_feature (MemberAdded u b) = Some ''botadd''"
| "event_feature (RoleDeleted rid) = None"
| "event_feature (RoleCreated ro) = None"

text \<open>The log messages a handler posts when a log channel exists.\<close>

definition log_calls :: "env \<Rightarrow> log_note list \<Rightarrow> action list" where
  "log_calls e ns = (if log_channel e then map SendLog ns else [])"

text \<open>
  \<open>new_ids_valid f st st'\<close>: every id in file \<open>f\<close> after the step that was not there
  before is a well-formed id (the test \<open>valid_id\<close> of \<open>addIds\<close>).
\<close>

definition new_ids_valid :: "string \<Rightarrow> bot_state \<Rightarrow> bot_state \<Rightarrow> bool" where
  "new_ids_valid f st st' \<longleftrightarrow>
     (\<forall>x \<in> set (read_set (store st') f). x \<in> set (read_set (store st) f) \<or> valid_id x)"

text \<open>A guild on which the witnesses run the handlers.\<close>

abbreviation demo_env :: env where
  "demo_env \<equiv> \<lparr>bot_id = ''900000'', owner_id = ''100000'', guild_id = ''500000'',
     me_perms = Some 132,
     audit = Some [\<lparr>a_type = MemberBanAdd, a_target = Some ''444444'', a_executor = Some ''333333'', a_created = 1000\<rparr>,
                   \<lparr>a_type = ChannelDelete, a_target = Some ''444444'', a_executor = Some ''333333'', a_created = 1000\<rparr>],
     audit_retry = None, now = 2000, now_retry = 3500, log_channel = True,
     call_ok = (\<lambda>_. True), role_patched = True\<rparr>"

abbreviation demo_state :: bot_state where
  "demo_state \<equiv> \<lparr>store = [whitelist_file \<mapsto> ''222222'' @ [nl]], features = default_features,
     role_base = Map.empty, reverting = []\<rparr>"

abbreviation role_env :: env where
  "role_env \<equiv> demo_env\<lparr>audit := Some
     [\<lparr>a_type = RoleUpdate, a_target = Some ''600000'', a_executor = Some ''333333'', a_created = 1000\<rparr>]\<rparr>"

abbreviation role_state :: bot_state where
  "role_state \<equiv> demo_state\<lparr>role_base := [''500000'' \<mapsto> [''600000'' \<mapsto> \<lparr>position = 5, permissions = 6\<rparr>]]\<rparr>"

lemmas store_eval = read_set_def split_lines_def js_set_of_def js_set_add_def js_trim_def js_ws_def
  nl_def cr_def drop_cr_def valid_id_def is_digit_def

lemmas watcher_eval = feature_on_def default_features_def feature_keys_def has_view_audit_def
  perm_has_def bits_has_def flag_values fetch_audit_logs_def find_then_check_def find_recent_def
  resolve_ban_entry_def fetch_ban_entry_def exec_id_def is_protected_id_def whitelisted_def

section \<open>Frame lemmas of the sequencing combinators\<close>

lemma state_ok [simp, run_simps]: "snd (ok r) = r" "fst (ok r) = Inr ()"
  by (simp_all add: ok_def)

lemma state_call [simp, run_simps]:
  "fst (snd (call e a r)) = fst r" "snd (snd (call e a r)) = snd r @ [a]"
  "fst (call e a r) = (if call_ok e a then Inr () else Inl (Failed a))"
  by (simp_all add: call_def split: prod.splits)

lemma state_send_log [simp, run_simps]:
  "fst (snd (send_log e n r)) = fst r"
  "snd (snd (send_log e n r)) = (if log_channel e then snd r @ [SendLog n] else snd r)"
  by (simp_all add: send_log_def)

lemma upd_state_simps [simp, run_simps]:
  "fst (upd_state f r) = f (fst r)" "snd (upd_state f r) = snd r"
  by (simp_all add: upd_state_def)

lemma andthen_Inl [simp, run_simps]: "andthen (Inl x, r) k = (Inl x, r)"
  by (simp add: andthen_def)

lemma andthen_Inr [simp, run_simps]: "andthen (Inr u, r) k = k r"
  by (simp add: andthen_def)

lemma andthen_ok [simp, run_simps]: "andthen (ok r) k = k r"
  by (simp add: ok_def)

lemma store_set_baseline [simp]: "store (set_baseline e ro st) = store st"
  by (simp add: set_baseline_def)

lemma features_set_baseline [simp]: "features (set_baseline e ro st) = features st"
  by (simp add: set_baseline_def)

lemma reverting_set_baseline [simp]: "reverting (set_baseline e ro st) = reverting st"
  by (simp add: set_baseline_def)

lemma features_blacklist_add [simp]: "features (blacklist_add i st) = features st"
  by (simp add: blacklist_add_def)

lemma role_base_blacklist_add [simp]: "role_base (blacklist_add i st) = role_base st"
  by (simp add: blacklist_add_def)

lemma reverting_blacklist_add [simp]: "reverting (blacklist_add i st) = reverting st"
  by (simp add: blacklist_add_def)

lemma whitelist_blacklist_add [simp]:
  "read_set (store (blacklist_add i st)) whitelist_file = read_set (store st) whitelist_file"
  by (simp add: blacklist_add_def)

lemma whitelisted_blacklist_add [simp]: "whitelisted (blacklist_add i st) x = whitelisted st x"
  by (simp add: whitelisted_def blacklist_add_def)

lemma blacklisted_blacklist_add:
  "blacklisted (blacklist_add i st) x \<longleftrightarrow> blacklisted st x \<or> (x = i \<and> valid_id i)"
  by (auto simp: blacklisted_def blacklist_add_def add_ids_set)

lemma state_if_call [simp]: "fst (if P then r else snd (call e a r)) = fst r"
  by simp

lemma state_andthen_call_log [simp]:
  "fst (snd (andthen (call e a r) (send_log e n))) = fst r"
  by (simp add: andthen_def call_def send_log_def ok_def split: prod.splits)

lemma state_revert_calls [simp]:
  "fst (snd (andthen (if pc then call e a1 r else ok r)
                     (\<lambda>r. andthen (if pp then call e a2 r else ok r) (send_log e n)))) = fst r"
  by (auto simp: andthen_def call_def send_log_def ok_def split: prod.splits sum.splits)

section \<open>Shared lemmas of the watchers\<close>

lemma role_id_role_at_reset [simp]: "role_id (role_at_reset e new orig) = role_id new"
  by (simp add: role_at_reset_def)

lemma blacklisted_store_eq: "store st' = store st \<Longrightarrow> blacklisted st' y = blacklisted st y"
  by (simp add: blacklisted_def)

lemma whitelisted_store_eq: "store st' = store st \<Longrightarrow> whitelisted st' y = whitelisted st y"
  by (simp add: whitelisted_def)

lemma blacklisted_set_baseline [simp]: "blacklisted (set_baseline e ro st) y = blacklisted st y"
  by (simp add: blacklisted_def)

lemma whitelisted_set_baseline [simp]: "whitelisted (set_baseline e ro st) y = whitelisted st y"
  by (simp add: whitelisted_def)

lemma case_res_Inr:
  "fst m = Inr () \<Longrightarrow> (case m of (Inl _, r2) \<Rightarrow> f r2 | (Inr _, r2) \<Rightarrow> g r2) = g (snd m)"
  by (cases m) simp

lemma add_executor_ok:
  "\<forall>a. call_ok e a \<Longrightarrow> fst (add_executor_to_blacklist e ex r) = Inr ()"
  by (simp add: add_executor_to_blacklist_def send_log_def call_def ok_def split: option.splits prod.splits)

lemma add_executor_trace:
  "snd (snd (add_executor_to_blacklist e ex r)) = snd r @
     (case ex of None \<Rightarrow> []
      | Some x \<Rightarrow> if is_protected_id e x \<or> whitelisted (fst r) x then [] else log_calls e [NoteBlacklisted x])"
  by (simp add: add_executor_to_blacklist_def log_calls_def split: option.splits)

lemma add_executor_blacklisted:
  "blacklisted (fst (snd (add_executor_to_blacklist e ex r))) y \<longleftrightarrow>
     blacklisted (fst r) y \<or> (ex = Some y \<and> \<not> is_protected_id e y \<and> \<not> whitelisted (fst r) y \<and> valid_id y)"
  by (auto simp: add_executor_to_blacklist_def blacklisted_blacklist_add split: option.splits)

lemma add_executor_frame [simp]:
  "role_base (fst (snd (add_executor_to_blacklist e ex r))) = role_base (fst r)"
  "features (fst (snd (add_executor_to_blacklist e ex r))) = features (fst r)"
  "reverting (fst (snd (add_executor_to_blacklist e ex r))) = reverting (fst r)"
  by (simp_all add: add_executor_to_blacklist_def split: option.splits)

lemma res_cases_state:
  assumes "P (fst (snd m))" and "\<And>s. P s \<Longrightarrow> P (f s)"
  shows "P (fst (case m of (Inl _, r2) \<Rightarrow> r2 | (Inr _, r2) \<Rightarrow> upd_state f r2))"
  using assms by (cases m) (auto split: sum.splits)

lemma andthen_state:
  assumes "P (fst (snd m))" and "\<And>r. P (fst r) \<Longrightarrow> P (fst (snd (k r)))"
  shows "P (fst (snd (andthen m k)))"
  using assms by (auto simp: andthen_def split: prod.splits sum.splits)

lemma reverting_revert_role:
  "reverting (fst (revert_role e new orig ex r)) =
     js_set_delete (js_set_add (reverting (fst r)) (role_id new)) (role_id new)"
proof -
  let ?v = "js_set_delete (js_set_add (reverting (fst r)) (role_id new)) (role_id new)"
  let ?r1 = "upd_state (\<lambda>st. st\<lparr>reverting := js_set_add (reverting st) (role_id new)\<rparr>) r"
  let ?m = "andthen (if role_perms new \<noteq> permissions orig
                     then call e (SetPermissions (guild_id e) (role_id new) (permissions orig)) ?r1 else ok ?r1)
              (\<lambda>r. andthen (if role_position new \<noteq> position orig
                             then call e (SetPosition (guild_id e) (role_id new) (position orig)) r else ok r)
                     (send_log e (NoteRoleReverted (role_id new) (role_perms new \<noteq> permissions orig)
                                   (role_position new \<noteq> position orig) ex)))"
  let ?rel = "(fst ?m, upd_state (\<lambda>st. st\<lparr>reverting := js_set_delete (reverting st) (role_id new)\<rparr>) (snd ?m))"
  have "reverting (fst (snd (andthen ?rel (add_executor_to_blacklist e ex)))) = ?v"
    by (rule andthen_state [where P = "\<lambda>s. reverting s = ?v"]) simp_all
  then have "reverting (fst (case andthen ?rel (add_executor_to_blacklist e ex) of
              (Inl _, r2) \<Rightarrow> r2
            | (Inr _, r2) \<Rightarrow> upd_state (set_baseline e (role_at_reset e new orig)) r2)) = ?v"
    by (rule res_cases_state [where P = "\<lambda>s. reverting s = ?v"]) simp
  then show ?thesis by (simp add: revert_role_def Let_def)
qed

lemma preserve_revert_role:
  assumes "\<And>s v. P (s\<lparr>reverting := v\<rparr>) = P s" and "\<And>x s. P s \<Longrightarrow> P (blacklist_add x s)"
    and "\<And>ro s. P s \<Longrightarrow> P (set_baseline e ro s)" and "P (fst r)"
  shows "P (fst (revert_role e new orig ex r))"
proof -
  let ?r1 = "upd_state (\<lambda>st. st\<lparr>reverting := js_set_add (reverting st) (role_id new)\<rparr>) r"
  let ?m = "andthen (if role_perms new \<noteq> permissions orig
                     then call e (SetPermissions (guild_id e) (role_id new) (permissions orig)) ?r1 else ok ?r1)
              (\<lambda>r. andthen (if role_position new \<noteq> position orig
                             then call e (SetPosition (guild_id e) (role_id new) (position orig)) r else ok r)
                     (send_log e (NoteRoleReverted (role_id new) (role_perms new \<noteq> permissions orig)
                                   (role_position new \<noteq> position orig) ex)))"
  let ?rel = "(fst ?m, upd_state (\<lambda>st. st\<lparr>reverting := js_set_delete (reverting st) (role_id new)\<rparr>) (snd ?m))"
  have "P (fst (snd ?rel))" using assms(1,4) by simp
  then have "P (fst (snd (andthen ?rel (add_executor_to_blacklist e ex))))"
    by (rule andthen_state) (auto simp: add_executor_to_blacklist_def assms(2) split: option.splits)
  then have "P (fst (case andthen ?rel (add_executor_to_blacklist e ex) of
              (Inl _, r2) \<Rightarrow> r2
            | (Inr _, r2) \<Rightarrow> upd_state (set_baseline e (role_at_reset e new orig)) r2))"
    by (rule res_cases_state) (rule assms(3))
  then show ?thesis by (simp add: revert_role_def Let_def)
qed

lemma features_revert_role [simp]: "features (fst (revert_role e new orig ex r)) = features (fst r)"
  by (rule preserve_revert_role [where P = "\<lambda>s. features s = features (fst r)"]) simp_all

lemma preserve_add_executor:
  assumes "\<And>x s. P s \<Longrightarrow> P (blacklist_add x s)" and "P (fst r)"
  shows "P (fst (snd (add_executor_to_blacklist e ex r)))"
  using assms by (auto simp: add_executor_to_blacklist_def split: option.splits)

lemma preserve_on_guild_ban_add:
  assumes "\<And>x s. P s \<Longrightarrow> P (blacklist_add x s)" and "P (fst r)"
  shows "P (fst (on_guild_ban_add e u r))"
proof -
  have "P (fst (case andthen (call e (Unban (guild_id e) u) r) (send_log e (NoteUnbanned u)) of
              (Inl _, r1) \<Rightarrow> snd (send_log e (NoteUnbanFailed u) r1)
            | (Inr _, r1) \<Rightarrow> snd (add_executor_to_blacklist e (Some x) r1)))" for x
  proof -
    let ?m = "andthen (call e (Unban (guild_id e) u) r) (send_log e (NoteUnbanned u))"
    have "fst (snd ?m) = fst r" by simp
    with assms show ?thesis
      by (cases ?m) (auto split: sum.splits intro: preserve_add_executor)
  qed
  with assms(2) show ?thesis
    unfolding on_guild_ban_add_def by (auto split: option.splits)
qed

lemma preserve_on_deletion:
  assumes "\<And>x s. P s \<Longrightarrow> P (blacklist_add x s)" and "P (fst r)"
  shows "P (fst (on_deletion k ty e t r))"
  using assms unfolding on_deletion_def
  by (auto split: option.splits intro: preserve_add_executor)

lemma preserve_on_member_remove:
  assumes "\<And>x s. P s \<Longrightarrow> P (blacklist_add x s)" and "P (fst r)"
  shows "P (fst (on_member_remove e m r))"
proof -
  have "P (fst (case add_executor_to_blacklist e ex r of
                 (Inl _, r1) \<Rightarrow> r1
               | (Inr _, r1) \<Rightarrow> snd (send_log e n (snd (call e a r1)))))" for ex n a
  proof -
    have "P (fst (snd (add_executor_to_blacklist e ex r)))"
      using assms by (rule preserve_add_executor)
    then show ?thesis by (cases "add_executor_to_blacklist e ex r") (auto split: sum.splits)
  qed
  with assms(2) show ?thesis
    unfolding on_member_remove_def Let_def by (auto split: option.splits)
qed

lemma preserve_on_member_add:
  assumes "\<And>x s. P s \<Longrightarrow> P (blacklist_add x s)" and "P (fst r)"
  shows "P (fst (on_member_add e m b r))"
proof -
  let ?r1 = "if is_protected_id e m then r else snd (call e (KickMember (guild_id e) m) r)"
  let ?r2 = "upd_state (blacklist_add m) ?r1"
  have r2: "P (fst ?r2)" using assms by simp
  have "P (fst (case send_log e n ?r2 of
          (Inl _, r3) \<Rightarrow> r3
        | (Inr _, r3) \<Rightarrow> (case ex of None \<Rightarrow> r3
                              | Some x \<Rightarrow> if is_protected_id e x then r3
                                          else snd (add_executor_to_blacklist e ex r3))))" for n ex
  proof -
    have "fst (snd (send_log e n ?r2)) = fst ?r2" by simp
    with r2 assms(1) show ?thesis
      by (cases "send_log e n ?r2")
         (auto split: sum.splits option.splits intro: preserve_add_executor)
  qed
  with assms(2) show ?thesis
    unfolding on_member_add_def Let_def by (auto split: option.splits)
qed

lemma frame_on_guild_ban_add [simp]:
  "reverting (fst (on_guild_ban_add e u r)) = reverting (fst r)"
  "features (fst (on_guild_ban_add e u r)) = features (fst r)"
  "role_base (fst (on_guild_ban_add e u r)) = role_base (fst r)"
  apply (rule preserve_on_guild_ban_add [where P = "\<lambda>s. reverting s = reverting (fst r)"]; simp)
  apply (rule preserve_on_guild_ban_add [where P = "\<lambda>s. features s = features (fst r)"]; simp)
  by (rule preserve_on_guild_ban_add [where P = "\<lambda>s. role_base s = role_base (fst r)"]; simp)

lemma frame_on_deletion [simp]:
  "reverting (fst (on_deletion k ty e t r)) = reverting (fst r)"
  "features (fst (on_deletion k ty e t r)) = features (fst r)"
  "role_base (fst (on_deletion k ty e t r)) = role_base (fst r)"
  apply (rule preserve_on_deletion [where P = "\<lambda>s. reverting s = reverting (fst r)"]; simp)
  apply (rule preserve_on_deletion [where P = "\<lambda>s. features s = features (fst r)"]; simp)
  by (rule preserve_on_deletion [where P = "\<lambda>s. role_base s = role_base (fst r)"]; simp)

lemma frame_on_member_remove [simp]:
  "reverting (fst (on_member_remove e m r)) = reverting (fst r)"
  "features (fst (on_member_remove e m r)) = features (fst r)"
  "role_base (fst (on_member_remove e m r)) = role_base (fst r)"
  apply (rule preserve_on_member_remove [where P = "\<lambda>s. reverting s = reverting (fst r)"]; simp)
  apply (rule preserve_on_member_remove [where P = "\<lambda>s. features s = features (fst r)"]; simp)
  by (rule preserve_on_member_remove [where P = "\<lambda>s. role_base s = role_base (fst r)"]; simp)

lemma frame_on_member_add [simp]:
  "reverting (fst (on_member_add e m b r)) = reverting (fst r)"
  "features (fst (on_member_add e m b r)) = features (fst r)"
  "role_base (fst (on_member_add e m b r)) = role_base (fst r)"
  apply (rule preserve_on_member_add [where P = "\<lambda>s. reverting s = reverting (fst r)"]; simp)
  apply (rule preserve_on_member_add [where P = "\<lambda>s. features s = features (fst r)"]; simp)
  by (rule preserve_on_member_add [where P = "\<lambda>s. role_base s = role_base (fst r)"]; simp)

section \<open>Deny-list additions\<close>

lemma bl_ok_refl [simp, intro]: "bl_ok e A st st"
  by (simp add: bl_ok_def)

lemma bl_ok_trans: "bl_ok e A s1 s2 \<Longrightarrow> bl_ok e A s2 s3 \<Longrightarrow> bl_ok e A s1 s3"
  unfolding bl_ok_def whitelisted_def by metis

lemma bl_ok_store: "store st' = store st \<Longrightarrow> bl_ok e A st st'"
  by (simp add: bl_ok_def blacklisted_def)

lemma bl_ok_add_member: "x \<in> A \<Longrightarrow> bl_ok e A st (blacklist_add x st)"
  by (auto simp: bl_ok_def blacklisted_blacklist_add)

lemma bl_ok_add_exec:
  "\<not> is_protected_id e x \<Longrightarrow> \<not> whitelisted st x \<Longrightarrow> bl_ok e A st (blacklist_add x st)"
  by (auto simp: bl_ok_def blacklisted_blacklist_add)

lemma bl_ok_add_executor_to_blacklist:
  "bl_ok e A st (fst r) \<Longrightarrow> bl_ok e A st (fst (snd (add_executor_to_blacklist e ex r)))"
proof (cases ex)
  case (Some x)
  assume h: "bl_ok e A st (fst r)"
  have "bl_ok e A (fst r) (blacklist_add x (fst r))" if "\<not> is_protected_id e x" "\<not> whitelisted (fst r) x"
    using that by (rule bl_ok_add_exec)
  with h Some show ?thesis by (auto simp: add_executor_to_blacklist_def intro: bl_ok_trans)
qed (simp add: add_executor_to_blacklist_def)

lemma bl_ok_andthen:
  assumes "bl_ok e A st (fst (snd m))"
    and "\<And>r. bl_ok e A st (fst r) \<Longrightarrow> bl_ok e A st (fst (snd (k r)))"
  shows "bl_ok e A st (fst (snd (andthen m k)))"
  using assms by (auto simp: andthen_def split: prod.splits sum.splits)

lemma bl_ok_on_guild_ban_add: "bl_ok e A (fst r) (fst (on_guild_ban_add e t r))"
proof -
  have step: "bl_ok e A (fst r)
      (fst (case andthen (call e (Unban (guild_id e) t) r) (send_log e (NoteUnbanned t)) of
              (Inl _, r1) \<Rightarrow> snd (send_log e (NoteUnbanFailed t) r1)
            | (Inr _, r1) \<Rightarrow> snd (add_executor_to_blacklist e (Some x) r1)))" for x
  proof -
    let ?m = "andthen (call e (Unban (guild_id e) t) r) (send_log e (NoteUnbanned t))"
    have "fst (snd ?m) = fst r" by simp
    then show ?thesis
      by (cases ?m) (auto split: sum.splits intro: bl_ok_add_executor_to_blacklist)
  qed
  show ?thesis
    unfolding on_guild_ban_add_def
    by (auto split: option.splits simp: step)
qed

lemma bl_ok_on_deletion: "bl_ok e A (fst r) (fst (on_deletion k ty e t r))"
  unfolding on_deletion_def
  by (auto split: option.splits intro: bl_ok_add_executor_to_blacklist)

lemma bl_ok_on_role_create: "bl_ok e A (fst r) (fst (on_role_create e ro r))"
  by (simp add: on_role_create_def bl_ok_store)

lemma bl_ok_on_role_delete_snapshot: "bl_ok e A (fst r) (fst (on_role_delete_snapshot e rid r))"
  by (simp add: on_role_delete_snapshot_def bl_ok_store)

lemma bl_ok_res_cases:
  assumes "bl_ok e A st (fst (snd m))"
    and "\<And>s. bl_ok e A st s \<Longrightarrow> bl_ok e A st (f s)"
  shows "bl_ok e A st (fst (case m of (Inl _, r2) \<Rightarrow> r2 | (Inr _, r2) \<Rightarrow> upd_state f r2))"
  using assms by (cases m) (auto split: sum.splits)

lemma bl_ok_revert_role: "bl_ok e A (fst r) (fst (revert_role e new orig ex r))"
proof -
  let ?r1 = "upd_state (\<lambda>st. st\<lparr>reverting := js_set_add (reverting st) (role_id new)\<rparr>) r"
  let ?m = "andthen (if role_perms new \<noteq> permissions orig
                     then call e (SetPermissions (guild_id e) (role_id new) (permissions orig)) ?r1 else ok ?r1)
              (\<lambda>r. andthen (if role_position new \<noteq> position orig
                             then call e (SetPosition (guild_id e) (role_id new) (position orig)) r else ok r)
                     (send_log e (NoteRoleReverted (role_id new) (role_perms new \<noteq> permissions orig)
                                   (role_position new \<noteq> position orig) ex)))"
  let ?rel = "(fst ?m, upd_state (\<lambda>st. st\<lparr>reverting := js_set_delete (reverting st) (role_id new)\<rparr>) (snd ?m))"
  have "store (fst (snd ?rel)) = store (fst r)" by simp
  then have "bl_ok e A (fst r) (fst (snd ?rel))" by (rule bl_ok_store)
  then have "bl_ok e A (fst r) (fst (snd (andthen ?rel (add_executor_to_blacklist e ex))))"
    by (rule bl_ok_andthen) (rule bl_ok_add_executor_to_blacklist)
  then have "bl_ok e A (fst r)
      (fst (case andthen ?rel (add_executor_to_blacklist e ex) of
              (Inl _, r2) \<Rightarrow> r2
            | (Inr _, r2) \<Rightarrow> upd_state (set_baseline e (role_at_reset e new orig)) r2))"
    by (rule bl_ok_res_cases) (simp add: bl_ok_def blacklisted_def)
  then show ?thesis by (simp add: revert_role_def Let_def)
qed

lemma bl_ok_on_role_update: "bl_ok e A (fst r) (fst (on_role_update e new r))"
  unfolding on_role_update_def Let_def
  by (auto split: option.splits simp: bl_ok_store bl_ok_revert_role)

lemma bl_ok_on_member_remove: "bl_ok e A (fst r) (fst (on_member_remove e m r))"
proof -
  have "bl_ok e A (fst r) (fst (case add_executor_to_blacklist e ex r of
                 (Inl _, r1) \<Rightarrow> r1
               | (Inr _, r1) \<Rightarrow> snd (send_log e n (snd (call e a r1)))))" for ex n a
  proof -
    have "bl_ok e A (fst r) (fst (snd (add_executor_to_blacklist e ex r)))"
      by (rule bl_ok_add_executor_to_blacklist) simp
    then show ?thesis by (cases "add_executor_to_blacklist e ex r") (auto split: sum.splits)
  qed
  then show ?thesis
    unfolding on_member_remove_def Let_def by (auto split: option.splits)
qed

lemma bl_ok_on_member_add:
  "bl_ok e {x. x = m \<and> \<not> whitelisted (fst r) m} (fst r) (fst (on_member_add e m b r))"
proof -
  let ?A = "{x. x = m \<and> \<not> whitelisted (fst r) m}"
  let ?r1 = "if is_protected_id e m then r else snd (call e (KickMember (guild_id e) m) r)"
  let ?r2 = "upd_state (blacklist_add m) ?r1"
  have r1: "fst ?r1 = fst r" by simp
  have r2: "bl_ok e ?A (fst r) (fst ?r2)" if "\<not> whitelisted (fst r) m"
    using r1 that by (simp add: bl_ok_add_member)
  have "bl_ok e ?A (fst r) (fst (case send_log e n ?r2 of
          (Inl _, r3) \<Rightarrow> r3
        | (Inr _, r3) \<Rightarrow> (case ex of None \<Rightarrow> r3
                              | Some x \<Rightarrow> if is_protected_id e x then r3
                                          else snd (add_executor_to_blacklist e ex r3))))"
    if "\<not> whitelisted (fst r) m" for n ex
  proof -
    have "fst (snd (send_log e n ?r2)) = fst ?r2" by simp
    with r2 [OF that] show ?thesis
      by (cases "send_log e n ?r2")
         (auto split: sum.splits option.splits intro: bl_ok_add_executor_to_blacklist)
  qed
  then show ?thesis
    unfolding on_member_add_def Let_def by (auto split: option.splits)
qed

lemma bl_ok_handle_event: "bl_ok e (event_extra (fst r) ev) (fst r) (fst (handle_event e ev r))"
proof (cases ev)
  case (RoleDeleted rid)
  have "bl_ok e {} (fst r) (fst (on_role_delete_snapshot e rid r))"
    by (rule bl_ok_on_role_delete_snapshot)
  moreover have "bl_ok e {} (fst (on_role_delete_snapshot e rid r))
                   (fst (on_role_delete_blacklist e rid (on_role_delete_snapshot e rid r)))"
    by (simp add: on_role_delete_blacklist_def bl_ok_on_deletion)
  ultimately show ?thesis using RoleDeleted by (auto intro: bl_ok_trans)
qed (simp_all add: bl_ok_on_guild_ban_add on_channel_delete_def bl_ok_on_deletion
       bl_ok_on_role_create bl_ok_on_role_update bl_ok_on_member_remove bl_ok_on_member_add)

text \<open>
  C1. No watcher adds a whitelisted identifier to the blacklist, and none adds the
  guild owner or the bot itself, except the bot-add watcher adding the joining bot's own id.
\<close>

theorem watcher_blacklist_additions:
  assumes "blacklisted (fst (handle_event e ev r)) x" and "\<not> blacklisted (fst r) x"
  shows "\<not> whitelisted (fst r) x \<and> (is_protected_id e x \<longrightarrow> (\<exists>b. ev = MemberAdded x b))"
proof -
  have "bl_ok e (event_extra (fst r) ev) (fst r) (fst (handle_event e ev r))"
    by (rule bl_ok_handle_event)
  with assms have "x \<in> event_extra (fst r) ev \<or> (\<not> is_protected_id e x \<and> \<not> whitelisted (fst r) x)"
    by (auto simp: bl_ok_def)
  then show ?thesis by (cases ev) auto
qed

lemma watcher_blacklist_additions_witness:
  "blacklisted (fst (handle_event demo_env (ChannelDeleted ''444444'') (demo_state, []))) ''333333'' \<and>
   \<not> blacklisted demo_state ''333333'' \<and>
   \<not> whitelisted demo_state ''333333'' \<and> \<not> is_protected_id demo_env ''333333''"
proof -
  have a: "blacklisted (fst (handle_event demo_env (ChannelDeleted ''444444'') (demo_state, []))) ''333333''"
    by (simp add: on_channel_delete_def on_deletion_def watcher_eval store_eval send_log_def
        add_executor_to_blacklist_def blacklisted_blacklist_add)
  have b: "\<not> blacklisted (fst (demo_state, [] :: action list)) ''333333''"
    by (simp add: blacklisted_def read_set_def)
  show ?thesis using watcher_blacklist_additions [OF a b] a b by simp
qed

section \<open>Feature gates\<close>

lemma handle_event_gated:
  "event_feature ev = Some k \<Longrightarrow> \<not> feature_on (features (fst r)) k \<Longrightarrow> handle_event e ev r = r"
  by (cases ev) (simp_all add: on_guild_ban_add_def on_channel_delete_def on_deletion_def
      on_role_update_def on_member_remove_def on_member_add_def)

text \<open>
  C8. With a watcher's feature disabled, any sequence of its events (ten or any other
  number, under any platform answers) leaves the state and the calls made unchanged.
\<close>

theorem feature_gate_disabled:
  assumes "list_all (\<lambda>(e, ev). event_feature ev = Some k) evs"
    and "\<not> feature_on (features (fst r)) k"
  shows "fold (\<lambda>(e, ev). handle_event e ev) evs r = r"
  using assms by (induction evs) (auto simp: handle_event_gated)

lemma feature_gate_disabled_witness:
  "fold (\<lambda>(e, ev). handle_event e ev) (replicate 10 (demo_env, BanAdded ''444444''))
     (demo_state\<lparr>features := obj_set default_features ''ban'' (JBool False)\<rparr>, []) =
   (demo_state\<lparr>features := obj_set default_features ''ban'' (JBool False)\<rparr>, [])"
proof -
  let ?st = "demo_state\<lparr>features := obj_set default_features ''ban'' (JBool False)\<rparr>"
  have l: "list_all (\<lambda>(e, ev). event_feature ev = Some ''ban'') (replicate 10 (demo_env, BanAdded ''444444''))"
    by (simp add: list_all_iff)
  have d: "\<not> feature_on (features (fst (?st, [] :: action list))) ''ban''"
    by (simp add: feature_on_def map_of_obj_set)
  show ?thesis by (rule feature_gate_disabled [OF l d])
qed



section \<open>Release of the reverting set\<close>

lemma reverting_handle_event:
  "set (reverting (fst (handle_event e ev r))) \<subseteq> set (reverting (fst r))"
proof (cases ev)
  case (RoleUpdated ro)
  then show ?thesis
    by (auto simp: on_role_update_def Let_def reverting_revert_role split: option.splits)
qed (simp_all add: on_channel_delete_def on_role_delete_blacklist_def on_role_create_def
       on_role_delete_snapshot_def)

section \<open>Well-formed ids\<close>

lemma new_ids_valid_blacklist_add:
  "new_ids_valid f st0 st \<Longrightarrow> new_ids_valid f st0 (blacklist_add i st)"
  by (cases "f = blacklist_file")
     (auto simp: new_ids_valid_def blacklist_add_def add_ids_set)

lemma new_ids_valid_refl: "new_ids_valid f s s"
  by (simp add: new_ids_valid_def)

lemma new_ids_valid_store: "store s = store st0 \<Longrightarrow> new_ids_valid f st0 s"
  by (simp add: new_ids_valid_def)

lemma new_ids_valid_handle_event: "new_ids_valid f (fst r) (fst (handle_event e ev r))"
proof -
  have refl: "new_ids_valid f (fst r) (fst r)" by (simp add: new_ids_valid_def)
  have bl: "\<And>x s. new_ids_valid f (fst r) s \<Longrightarrow> new_ids_valid f (fst r) (blacklist_add x s)"
    by (rule new_ids_valid_blacklist_add)
  have rev: "new_ids_valid f (fst r) (fst (revert_role e new orig ex r))" for new orig ex
    apply (rule preserve_revert_role [where P = "new_ids_valid f (fst r)"])
       apply (simp add: new_ids_valid_def)
      apply (erule bl)
     apply (simp add: new_ids_valid_def)
    by (rule refl)
  have upd: "new_ids_valid f (fst r) (fst (on_role_update e ro r))" for ro
    unfolding on_role_update_def Let_def
    by (auto split: option.splits simp: new_ids_valid_store rev)
  have del: "new_ids_valid f (fst r) (fst (on_deletion k ty e t r))" for k ty t
    by (rule preserve_on_deletion [where P = "new_ids_valid f (fst r)", OF bl refl])
  have del2: "new_ids_valid f (fst r) (fst (on_deletion k ty e t (on_role_delete_snapshot e rid r)))" for k ty t rid
  proof -
    have "new_ids_valid f (fst (on_role_delete_snapshot e rid r)) (fst (on_deletion k ty e t (on_role_delete_snapshot e rid r)))"
      by (rule preserve_on_deletion [where P = "new_ids_valid f (fst (on_role_delete_snapshot e rid r))",
            OF new_ids_valid_blacklist_add new_ids_valid_refl])
    then show ?thesis by (simp add: new_ids_valid_def on_role_delete_snapshot_def)
  qed
  show ?thesis
  proof (cases ev)
    case (BanAdded u)
    then show ?thesis by (simp add: preserve_on_guild_ban_add [where P = "new_ids_valid f (fst r)", OF bl refl])
  next
    case (MemberRemoved u)
    then show ?thesis by (simp add: preserve_on_member_remove [where P = "new_ids_valid f (fst r)", OF bl refl])
  next
    case (MemberAdded u b)
    then show ?thesis by (simp add: preserve_on_member_add [where P = "new_ids_valid f (fst r)", OF bl refl])
  qed (simp_all add: upd del del2 on_channel_delete_def on_role_delete_blacklist_def on_role_create_def
         new_ids_valid_store)
qed

end
