(* ===== verification/Watchers.thy ===== *)
theory Watchers
  imports Enforcement
begin

text \<open>
  The decision table of the ban watcher (\<open>client.on('guildBanAdd')\<close>,
  \<open>src/index.js\<close> lines 435--499) and of the kick watcher
  (\<open>client.on('guildMemberRemove')\<close>, lines 659--705), the deletion watchers
  (lines 502--535) and the bot-add watcher (lines 709--763): a ban by the bot itself is
  ignored, a ban by an unprotected, non-whitelisted executor is reversed and the
  executor blacklisted, and the two paths where the code's behaviour departs from its
  stated intent (a failed log message after a successful unban; a kick by the bot or a
  whitelisted member still announced as a blacklisting).
\<close>

text \<open>\<open>entry.executor?.id\<close> of the ban watcher's \<open>fetchEntry\<close> with its retry.\<close>

definition ban_executor :: "env \<Rightarrow> snowflake \<Rightarrow> snowflake option" where
  "ban_executor e u =
     (case resolve_ban_entry (audit e) (now e) (audit_retry e) (now_retry e) u of
        None \<Rightarrow> None | Some en \<Rightarrow> exec_id en)"

lemma on_guild_ban_add_attributed:
  assumes "feature_on (features (fst r)) ''ban''" and "me_perms e = Some p"
    and "perm_has p flag_view_audit_log" and "ban_executor e u = Some x"
  shows "on_guild_ban_add e u r =
           (if x = bot_id e \<or> whitelisted (fst r) x then r
            else if \<not> perm_has p flag_ban_members
            then snd (send_log e (NoteBanCannotReverse x) r)
            else (case andthen (call e (Unban (guild_id e) u) r) (send_log e (NoteUnbanned u)) of
                    (Inl _, r1) \<Rightarrow> snd (send_log e (NoteUnbanFailed u) r1)
                  | (Inr _, r1) \<Rightarrow> snd (add_executor_to_blacklist e (Some x) r1)))"
  using assms by (auto simp: on_guild_ban_add_def ban_executor_def split: option.splits)

text \<open>
  C3. No self-feedback: a ban whose audit entry names the bot as executor (the deny-list
  sweep's own bans) leaves the state and the calls made unchanged.
\<close>

theorem ban_self_ignored:
  assumes "ban_executor e u = Some (bot_id e)"
  shows "on_guild_ban_add e u r = r"
  using assms by (auto simp: on_guild_ban_add_def ban_executor_def split: option.splits)

lemma ban_self_ignored_witness:
  "ban_executor (demo_env\<lparr>bot_id := ''333333''\<rparr>) ''444444'' = Some ''333333'' \<and>
   on_guild_ban_add (demo_env\<lparr>bot_id := ''333333''\<rparr>) ''444444'' (demo_state, []) = (demo_state, [])"
proof -
  have h: "ban_executor (demo_env\<lparr>bot_id := ''333333''\<rparr>) ''444444'' = Some (bot_id (demo_env\<lparr>bot_id := ''333333''\<rparr>))"
    by (simp add: ban_executor_def watcher_eval)
  show ?thesis using ban_self_ignored [OF h, of "(demo_state, [])"] h by simp
qed

text \<open>
  C4. A ban by an executor that is neither the bot nor whitelisted, seen while the bot
  holds View Audit Log and Ban Members and the platform calls succeed, is reversed:
  the bot unbans the target, reports it, and blacklists the executor unless it is the
  owner (whose ban is reversed, but who is never blacklisted).
\<close>

theorem ban_reversed:
  assumes "feature_on (features (fst r)) ''ban''" and "me_perms e = Some p"
    and "perm_has p flag_view_audit_log" and "perm_has p flag_ban_members"
    and "ban_executor e u = Some x" and "x \<noteq> bot_id e" and "\<not> whitelisted (fst r) x"
    and "call_ok e (Unban (guild_id e) u)" and "call_ok e (SendLog (NoteUnbanned u))"
  shows "snd (on_guild_ban_add e u r) =
           snd r @ [Unban (guild_id e) u] @ log_calls e [NoteUnbanned u] @
           (if is_protected_id e x then [] else log_calls e [NoteBlacklisted x]) \<and>
         (\<forall>y. blacklisted (fst (on_guild_ban_add e u r)) y \<longleftrightarrow>
               blacklisted (fst r) y \<or> (y = x \<and> \<not> is_protected_id e x \<and> valid_id x))"
  using assms
  by (auto simp: on_guild_ban_add_attributed [OF assms(1,2,3,5)] call_def send_log_def ok_def
      log_calls_def add_executor_to_blacklist_def blacklisted_blacklist_add upd_state_def
      split: prod.splits)

lemma ban_reversed_witness:
  "ban_executor demo_env ''444444'' = Some ''333333'' \<and> \<not> whitelisted demo_state ''333333'' \<and>
   snd (on_guild_ban_add demo_env ''444444'' (demo_state, [])) =
     [Unban ''500000'' ''444444'', SendLog (NoteUnbanned ''444444''), SendLog (NoteBlacklisted ''333333'')] \<and>
   blacklisted (fst (on_guild_ban_add demo_env ''444444'' (demo_state, []))) ''333333''"
proof -
  have f: "feature_on (features (fst (demo_state, [] :: action list))) ''ban''"
    and v: "perm_has 132 flag_view_audit_log" and b: "perm_has 132 flag_ban_members"
    and x: "ban_executor demo_env ''444444'' = Some ''333333''"
    and w: "\<not> whitelisted (fst (demo_state, [] :: action list)) ''333333''"
    and i: "valid_id ''333333''" and np: "\<not> is_protected_id demo_env ''333333''"
    by (simp_all add: ban_executor_def watcher_eval store_eval)
  show ?thesis
    using ban_reversed [OF f _ v b x _ w] x w i np by (simp add: log_calls_def)
qed

text \<open>
  C38. When the unban succeeds but posting "Auto-Unbanned" throws, the watcher's
  \<open>catch\<close> reports "Failed to Unban" for a ban that was reversed and the executor
  is not blacklisted.
\<close>

theorem ban_log_failure:
  assumes "feature_on (features (fst r)) ''ban''" and "me_perms e = Some p"
    and "perm_has p flag_view_audit_log" and "perm_has p flag_ban_members"
    and "ban_executor e u = Some x" and "x \<noteq> bot_id e" and "\<not> whitelisted (fst r) x"
    and "log_channel e" and "call_ok e (Unban (guild_id e) u)"
    and "\<not> call_ok e (SendLog (NoteUnbanned u))"
  shows "on_guild_ban_add e u r =
           (fst r, snd r @ [Unban (guild_id e) u, SendLog (NoteUnbanned u), SendLog (NoteUnbanFailed u)])"
  using assms
  by (auto simp: on_guild_ban_add_attributed [OF assms(1,2,3,5)] call_def send_log_def split: prod.splits)

lemma ban_log_failure_witness:
  "on_guild_ban_add (demo_env\<lparr>call_ok := (\<lambda>a. a \<noteq> SendLog (NoteUnbanned ''444444''))\<rparr>) ''444444'' (demo_state, []) =
     (demo_state, [Unban ''500000'' ''444444'', SendLog (NoteUnbanned ''444444''), SendLog (NoteUnbanFailed ''444444'')])"
proof -
  let ?e = "demo_env\<lparr>call_ok := (\<lambda>a. a \<noteq> SendLog (NoteUnbanned ''444444''))\<rparr>"
  have f: "feature_on (features (fst (demo_state, [] :: action list))) ''ban''"
    and v: "perm_has 132 flag_view_audit_log" and b: "perm_has 132 flag_ban_members"
    and x: "ban_executor ?e ''444444'' = Some ''333333''"
    and w: "\<not> whitelisted (fst (demo_state, [] :: action list)) ''333333''"
    by (simp_all add: ban_executor_def watcher_eval store_eval)
  show ?thesis using ban_log_failure [OF f _ v b x _ w] by simp
qed

text \<open>
  C39. A kick whose executor is protected or whitelisted blacklists nobody, yet the kicked
  member gets the re-invite DM and the log reads "Kick Detected, Kicker Blacklisted".
\<close>

theorem kick_notifies_without_blacklisting:
  assumes "feature_on (features (fst r)) ''kick''" and "has_view_audit e" and "audit e = Some l"
    and "find_recent (now e) 15000 m (fetch_audit_logs l MemberKick) = Some en"
    and "exec_id (Some en) = Some x" and "is_protected_id e x \<or> whitelisted (fst r) x"
  shows "on_member_remove e m r = (fst r, snd r @ SendDM m # log_calls e [NoteKickDetected m (Some x)])"
  using assms
  by (cases r) (auto simp: on_member_remove_def add_executor_to_blacklist_def call_def send_log_def
      ok_def log_calls_def)

lemma kick_notifies_without_blacklisting_witness:
  "on_member_remove (demo_env\<lparr>audit := Some
       [\<lparr>a_type = MemberKick, a_target = Some ''444444'', a_executor = Some ''222222'', a_created = 1000\<rparr>]\<rparr>)
     ''444444'' (demo_state, []) =
   (demo_state, [SendDM ''444444'', SendLog (NoteKickDetected ''444444'' (Some ''222222''))])"
proof -
  let ?l = "[\<lparr>a_type = MemberKick, a_target = Some ''444444'', a_executor = Some ''222222'', a_created = 1000\<rparr>]"
  let ?e = "demo_env\<lparr>audit := Some ?l\<rparr>"
  have f: "feature_on (features (fst (demo_state, [] :: action list))) ''kick''"
    and v: "has_view_audit ?e" and a: "audit ?e = Some ?l"
    and n: "find_recent (now ?e) 15000 ''444444'' (fetch_audit_logs ?l MemberKick) = Some (hd ?l)"
    and x: "exec_id (Some (hd ?l)) = Some ''222222''"
    and w: "is_protected_id ?e ''222222'' \<or> whitelisted (fst (demo_state, [] :: action list)) ''222222''"
    by (simp_all add: watcher_eval store_eval)
  show ?thesis using kick_notifies_without_blacklisting [OF f v a n x w] by (simp add: log_calls_def)
qed

text \<open>
  C16. The channel and role deletion watchers blacklist the executor of a recent
  deletion unless it is protected or whitelisted, and report it; nothing is reversed.
\<close>

theorem deletion_blacklists_executor:
  assumes "feature_on (features (fst r)) k" and "has_view_audit e" and "audit e = Some l"
    and "find_then_check (now e) 15000 t (fetch_audit_logs l ty) = Some en"
    and "exec_id (Some en) = Some x" and "\<not> is_protected_id e x" and "\<not> whitelisted (fst r) x"
  shows "snd (on_deletion k ty e t r) = snd r @ log_calls e [NoteBlacklisted x] \<and>
         (\<forall>y. blacklisted (fst (on_deletion k ty e t r)) y \<longleftrightarrow>
               blacklisted (fst r) y \<or> (y = x \<and> valid_id x))"
  using assms
  by (auto simp: on_deletion_def add_executor_trace add_executor_blacklisted)

lemma deletion_blacklists_executor_witness:
  "snd (on_deletion ''channel'' ChannelDelete demo_env ''444444'' (demo_state, [])) =
     [SendLog (NoteBlacklisted ''333333'')] \<and>
   blacklisted (fst (on_deletion ''channel'' ChannelDelete demo_env ''444444'' (demo_state, []))) ''333333''"
proof -
  let ?l = "the (audit demo_env)"
  have f: "feature_on (features (fst (demo_state, [] :: action list))) ''channel''"
    and v: "has_view_audit demo_env" and a: "audit demo_env = Some ?l"
    and n: "find_then_check (now demo_env) 15000 ''444444'' (fetch_audit_logs ?l ChannelDelete) =
              Some (?l ! 1)"
    and x: "exec_id (Some (?l ! 1)) = Some ''333333''"
    and np: "\<not> is_protected_id demo_env ''333333''"
    and w: "\<not> whitelisted (fst (demo_state, [] :: action list)) ''333333''"
    and i: "valid_id ''333333''"
    by (simp_all add: watcher_eval store_eval)
  show ?thesis using deletion_blacklists_executor [OF f v a n x np w] i by (simp add: log_calls_def)
qed

text \<open>
  A bot added by someone is kicked (unless it is protected), its id is blacklisted and
  reported, and the adding executor is blacklisted unless protected or whitelisted.
\<close>

theorem bot_add_kicked_and_blacklisted:
  assumes "feature_on (features (fst r)) ''botadd''" and "me_perms e = Some p"
    and "perm_has p flag_view_audit_log" and "\<not> whitelisted (fst r) m" and "audit e = Some l"
    and "exec_id (find_recent (now e) 15000 m (fetch_audit_logs l BotAdd)) = ex"
    and "\<not> is_protected_id e m" and "\<forall>a. call_ok e a"
  shows "snd (on_member_add e m True r) = snd r @ [KickMember (guild_id e) m] @
           log_calls e [NoteBotAdded m ex] @
           (case ex of Some x \<Rightarrow> if is_protected_id e x \<or> whitelisted (fst r) x then []
                                else log_calls e [NoteBlacklisted x] | None \<Rightarrow> []) \<and>
         (\<forall>y. blacklisted (fst (on_member_add e m True r)) y \<longleftrightarrow>
               blacklisted (fst r) y \<or> (y = m \<and> valid_id m) \<or>
               (ex = Some y \<and> \<not> is_protected_id e y \<and> \<not> whitelisted (fst r) y \<and> valid_id y))"
proof -
  let ?r2 = "upd_state (blacklist_add m) (snd (call e (KickMember (guild_id e) m) r))"
  have s: "send_log e (NoteBotAdded m ex) ?r2 =
             (Inr (), fst ?r2, snd ?r2 @ log_calls e [NoteBotAdded m ex])"
    using assms(8) by (cases r) (simp add: send_log_def call_def ok_def log_calls_def upd_state_def)
  let ?r3 = "(blacklist_add m (fst r), snd r @ KickMember (guild_id e) m # log_calls e [NoteBotAdded m ex])"
  have eq: "on_member_add e m True r =
      (case ex of None \<Rightarrow> ?r3
       | Some x \<Rightarrow> if is_protected_id e x then ?r3 else snd (add_executor_to_blacklist e ex ?r3))"
    using assms(1-7) s by (simp add: on_member_add_def Let_def)
  show ?thesis
    unfolding eq using assms(7)
    by (auto simp: add_executor_trace add_executor_blacklisted blacklisted_blacklist_add
        split: option.splits)
qed

lemma bot_add_kicked_and_blacklisted_witness:
  "snd (on_member_add (demo_env\<lparr>audit := Some
       [\<lparr>a_type = BotAdd, a_target = Some ''777777'', a_executor = Some ''333333'', a_created = 1000\<rparr>]\<rparr>)
       ''777777'' True (demo_state, [])) =
     [KickMember ''500000'' ''777777'', SendLog (NoteBotAdded ''777777'' (Some ''333333'')),
      SendLog (NoteBlacklisted ''333333'')] \<and>
   blacklisted (fst (on_member_add (demo_env\<lparr>audit := Some
       [\<lparr>a_type = BotAdd, a_target = Some ''777777'', a_executor = Some ''333333'', a_created = 1000\<rparr>]\<rparr>)
       ''777777'' True (demo_state, []))) ''777777''"
proof -
  let ?l = "[\<lparr>a_type = BotAdd, a_target = Some ''777777'', a_executor = Some ''333333'', a_created = 1000\<rparr>]"
  let ?e = "demo_env\<lparr>audit := Some ?l\<rparr>"
  have f: "feature_on (features (fst (demo_state, [] :: action list))) ''botadd''"
    and p: "me_perms ?e = Some 132" and v: "perm_has 132 flag_view_audit_log"
    and w: "\<not> whitelisted (fst (demo_state, [] :: action list)) ''777777''"
    and a: "audit ?e = Some ?l"
    and x: "exec_id (find_recent (now ?e) 15000 ''777777'' (fetch_audit_logs ?l BotAdd)) = Some ''333333''"
    and np: "\<not> is_protected_id ?e ''777777''" and k: "\<forall>act. call_ok ?e act"
    and np2: "\<not> is_protected_id ?e ''333333''"
    and w2: "\<not> whitelisted (fst (demo_state, [] :: action list)) ''333333''"
    and i: "valid_id ''777777''"
    by (simp_all add: watcher_eval store_eval)
  show ?thesis using bot_add_kicked_and_blacklisted [OF f p v w a x np k] np2 w2 i
    by (simp add: log_calls_def)
qed

end
