(* ===== verification/RoleWatch.thy ===== *)
theory RoleWatch
  imports Enforcement
begin

text \<open>
  The role watcher (\<open>client.on('roleUpdate')\<close>, \<open>src/index.js\<close> lines
  567--654) and its three branches: a change by a whitelisted executor is accepted and
  becomes the baseline; a role without a baseline is adopted on first observation; any
  other change against the baseline is reverted, the executor blacklisted and the
  baseline reset. \<open>revert_role_ok\<close> computes the revert path when every call
  succeeds; the last theorems show the three places where the code departs from the
  stated design: the baseline reset races the gateway update, a failed permission write
  abandons the rest of the revert, and a change made by the bot itself is reverted.
\<close>

lemma revert_role_ok:
  assumes "\<forall>a. call_ok e a"
  shows "revert_role e new orig ex r =
    upd_state (set_baseline e (role_at_reset e new orig))
      (snd (add_executor_to_blacklist e ex
        ((fst r)\<lparr>reverting := js_set_delete (js_set_add (reverting (fst r)) (role_id new)) (role_id new)\<rparr>,
         snd r @
           (if role_perms new \<noteq> permissions orig
            then [SetPermissions (guild_id e) (role_id new) (permissions orig)] else []) @
           (if role_position new \<noteq> position orig
            then [SetPosition (guild_id e) (role_id new) (position orig)] else []) @
           log_calls e [NoteRoleReverted (role_id new) (role_perms new \<noteq> permissions orig)
                          (role_position new \<noteq> position orig) ex])))"
  using assms
  by (cases r) (simp add: revert_role_def Let_def call_def ok_def send_log_def log_calls_def
      upd_state_def case_res_Inr add_executor_ok)

lemma on_role_update_compare:
  assumes "feature_on (features (fst r)) ''roleUpdate''" and "has_view_audit e"
    and "role_update_exec e new = ex" and "case ex of None \<Rightarrow> True | Some x \<Rightarrow> \<not> whitelisted (fst r) x"
    and "get_original_role_state (role_base (fst r)) (guild_id e) (role_id new) = Some orig"
    and "\<not> (role_perms new = permissions orig \<and> role_position new = position orig)"
  shows "on_role_update e new r = revert_role e new orig ex r"
  using assms by (auto simp: on_role_update_def split: option.splits)

lemma snap_of_role_at_reset:
  "role_patched e \<Longrightarrow> snap_of (role_at_reset e new orig) = orig"
  by (simp add: snap_of_def role_at_reset_def)

text \<open>
  C5. Revert: a change against the baseline by an executor that is not whitelisted (or
  unknown) is undone field by field (only the fields that changed are written), reported,
  the executor blacklisted unless protected, and the baseline equals the reverted state
  when the gateway update has reached the cached role.
\<close>

theorem role_update_revert:
  assumes "feature_on (features (fst r)) ''roleUpdate''" and "has_view_audit e"
    and "role_update_exec e new = ex" and "case ex of None \<Rightarrow> True | Some x \<Rightarrow> \<not> whitelisted (fst r) x"
    and "get_original_role_state (role_base (fst r)) (guild_id e) (role_id new) = Some orig"
    and "\<not> (role_perms new = permissions orig \<and> role_position new = position orig)"
    and "\<forall>a. call_ok e a" and "role_patched e"
  shows "snd (on_role_update e new r) = snd r @
           (if role_perms new \<noteq> permissions orig
            then [SetPermissions (guild_id e) (role_id new) (permissions orig)] else []) @
           (if role_position new \<noteq> position orig
            then [SetPosition (guild_id e) (role_id new) (position orig)] else []) @
           log_calls e [NoteRoleReverted (role_id new) (role_perms new \<noteq> permissions orig)
                          (role_position new \<noteq> position orig) ex] @
           (case ex of Some x \<Rightarrow> if is_protected_id e x then [] else log_calls e [NoteBlacklisted x]
                     | None \<Rightarrow> []) \<and>
         get_original_role_state (role_base (fst (on_role_update e new r))) (guild_id e) (role_id new) = Some orig \<and>
         (\<forall>y. blacklisted (fst (on_role_update e new r)) y \<longleftrightarrow>
               blacklisted (fst r) y \<or> (ex = Some y \<and> \<not> is_protected_id e y \<and> valid_id y))"
proof -
  let ?st1 = "(fst r)\<lparr>reverting := js_set_delete (js_set_add (reverting (fst r)) (role_id new)) (role_id new)\<rparr>"
  have eq: "on_role_update e new r = revert_role e new orig ex r"
    by (rule on_role_update_compare [OF assms(1-6)])
  have w: "whitelisted ?st1 y = whitelisted (fst r) y" for y by (simp add: whitelisted_def)
  have b: "blacklisted ?st1 y = blacklisted (fst r) y" for y by (simp add: blacklisted_def)
  have nw: "ex = Some y \<Longrightarrow> \<not> whitelisted (fst r) y" for y using assms(4) by simp
  show ?thesis
    apply (intro conjI allI)
    subgoal unfolding eq revert_role_ok [OF assms(7)]
      by (simp add: add_executor_trace w nw split: option.splits)
    subgoal unfolding eq revert_role_ok [OF assms(7)]
      by (simp add: set_baseline_def snap_of_role_at_reset [OF assms(8)])
    subgoal for y unfolding eq revert_role_ok [OF assms(7)]
      using nw [of y] by (auto simp: add_executor_blacklisted w b)
    done
qed

lemma role_update_revert_witness:
  "snd (on_role_update role_env \<lparr>role_id = ''600000'', role_position = 5, role_perms = 14\<rparr> (role_state, [])) =
     [SetPermissions ''500000'' ''600000'' 6, SendLog (NoteRoleReverted ''600000'' True False (Some ''333333'')),
      SendLog (NoteBlacklisted ''333333'')] \<and>
   get_original_role_state (role_base (fst (on_role_update role_env
       \<lparr>role_id = ''600000'', role_position = 5, role_perms = 14\<rparr> (role_state, [])))) ''500000'' ''600000'' =
     Some \<lparr>position = 5, permissions = 6\<rparr> \<and>
   blacklisted (fst (on_role_update role_env \<lparr>role_id = ''600000'', role_position = 5, role_perms = 14\<rparr>
       (role_state, []))) ''333333''"
proof -
  let ?new = "\<lparr>role_id = ''600000'', role_position = 5, role_perms = 14 :: perm\<rparr>"
  let ?r = "(role_state, [] :: action list)"
  have f: "feature_on (features (fst ?r)) ''roleUpdate''" and v: "has_view_audit role_env"
    and x: "role_update_exec role_env ?new = Some ''333333''"
    and w: "case Some ''333333'' of None \<Rightarrow> True | Some x \<Rightarrow> \<not> whitelisted (fst ?r) x"
    and g: "get_original_role_state (role_base (fst ?r)) (guild_id role_env) (role_id ?new) =
              Some \<lparr>position = 5, permissions = 6\<rparr>"
    and c: "\<not> (role_perms ?new = permissions \<lparr>position = 5, permissions = 6 :: perm\<rparr> \<and>
               role_position ?new = position \<lparr>position = 5, permissions = 6 :: perm\<rparr>)"
    and i: "valid_id ''333333''" and np: "\<not> is_protected_id role_env ''333333''"
    by (simp_all add: role_update_exec_def get_original_role_state_def watcher_eval store_eval)
  show ?thesis using role_update_revert [OF f v x w g c] i np by (simp add: log_calls_def)
qed

text \<open>
  C6. Acceptance: a change by a whitelisted executor is never reverted; the watcher posts
  the acceptance note, leaves the set files alone and adopts the new state as baseline.
\<close>

theorem role_update_accept:
  assumes "feature_on (features (fst r)) ''roleUpdate''" and "has_view_audit e"
    and "role_update_exec e new = Some x" and "whitelisted (fst r) x"
  shows "snd (on_role_update e new r) = snd r @ log_calls e [NoteRoleAccepted (role_id new) x] \<and>
         store (fst (on_role_update e new r)) = store (fst r) \<and>
         role_base (fst (on_role_update e new r)) = set_original_role_state (role_base (fst r)) (guild_id e) new"
  using assms by (simp add: on_role_update_def log_calls_def set_baseline_def)

lemma role_update_accept_witness:
  "snd (on_role_update (role_env\<lparr>audit := Some
       [\<lparr>a_type = RoleUpdate, a_target = Some ''600000'', a_executor = Some ''222222'', a_created = 1000\<rparr>]\<rparr>)
       \<lparr>role_id = ''600000'', role_position = 5, role_perms = 14\<rparr> (role_state, [])) =
     [SendLog (NoteRoleAccepted ''600000'' ''222222'')] \<and>
   get_original_role_state (role_base (fst (on_role_update (role_env\<lparr>audit := Some
       [\<lparr>a_type = RoleUpdate, a_target = Some ''600000'', a_executor = Some ''222222'', a_created = 1000\<rparr>]\<rparr>)
       \<lparr>role_id = ''600000'', role_position = 5, role_perms = 14\<rparr> (role_state, [])))) ''500000'' ''600000'' =
     Some \<lparr>position = 5, permissions = 14\<rparr>"
proof -
  let ?e = "role_env\<lparr>audit := Some
       [\<lparr>a_type = RoleUpdate, a_target = Some ''600000'', a_executor = Some ''222222'', a_created = 1000\<rparr>]\<rparr>"
  let ?new = "\<lparr>role_id = ''600000'', role_position = 5, role_perms = 14 :: perm\<rparr>"
  let ?r = "(role_state, [] :: action list)"
  have f: "feature_on (features (fst ?r)) ''roleUpdate''" and v: "has_view_audit ?e"
    and x: "role_update_exec ?e ?new = Some ''222222''"
    and w: "whitelisted (fst ?r) ''222222''"
    by (simp_all add: role_update_exec_def watcher_eval store_eval)
  show ?thesis using role_update_accept [OF f v x w]
    by (simp add: log_calls_def snap_of_def)
qed

text \<open>
  C7. First observation: a role without a baseline entry never causes a revert or a
  blacklisting; the watcher only records its current state as baseline.
\<close>

theorem role_update_first_observation:
  assumes "get_original_role_state (role_base (fst r)) (guild_id e) (role_id new) = None"
  shows "store (fst (on_role_update e new r)) = store (fst r) \<and>
         (snd (on_role_update e new r) = snd r \<or>
          snd (on_role_update e new r) = snd r @ [SendLog (NoteRoleAccepted (role_id new) (the (role_update_exec e new)))]) \<and>
         get_original_role_state (role_base (fst (on_role_update e new r))) (guild_id e) (role_id new) =
           (if feature_on (features (fst r)) ''roleUpdate'' \<and> has_view_audit e
            then Some (snap_of new) else None)"
  using assms by (auto simp: on_role_update_def Let_def set_baseline_def split: option.splits)

lemma role_update_first_observation_witness:
  "get_original_role_state (role_base demo_state) ''500000'' ''600000'' = None \<and>
   store (fst (on_role_update role_env \<lparr>role_id = ''600000'', role_position = 5, role_perms = 14\<rparr> (demo_state, []))) =
     store demo_state \<and>
   get_original_role_state (role_base (fst (on_role_update role_env
       \<lparr>role_id = ''600000'', role_position = 5, role_perms = 14\<rparr> (demo_state, [])))) ''500000'' ''600000'' =
     Some \<lparr>position = 5, permissions = 14\<rparr>"
proof -
  let ?new = "\<lparr>role_id = ''600000'', role_position = 5, role_perms = 14 :: perm\<rparr>"
  have g: "get_original_role_state (role_base (fst (demo_state, [] :: action list))) (guild_id role_env) (role_id ?new) = None"
    by (simp add: get_original_role_state_def)
  show ?thesis
    using role_update_first_observation [OF g] g by (simp add: watcher_eval snap_of_def)
qed



text \<open>
  C36. Partial revert failure: when the permission write throws, the position write is
  not attempted, nothing is reported, the executor is not blacklisted and the baseline is
  unchanged; the role is still released from \<open>REVERTING_ROLES\<close>.
\<close>

theorem role_update_partial_failure:
  assumes "feature_on (features (fst r)) ''roleUpdate''" and "has_view_audit e"
    and "role_update_exec e new = ex" and "case ex of None \<Rightarrow> True | Some x \<Rightarrow> \<not> whitelisted (fst r) x"
    and "get_original_role_state (role_base (fst r)) (guild_id e) (role_id new) = Some orig"
    and "role_perms new \<noteq> permissions orig"
    and "\<not> call_ok e (SetPermissions (guild_id e) (role_id new) (permissions orig))"
    and "role_id new \<notin> set (reverting (fst r))"
  shows "on_role_update e new r = (fst r, snd r @ [SetPermissions (guild_id e) (role_id new) (permissions orig)])"
proof -
  have c: "\<not> (role_perms new = permissions orig \<and> role_position new = position orig)"
    using assms(6) by simp
  show ?thesis
    unfolding on_role_update_compare [OF assms(1-5) c]
    using assms(6-8)
    by (cases r) (simp add: revert_role_def Let_def call_def upd_state_def js_set_delete_add_absent)
qed

lemma role_update_partial_failure_witness:
  "on_role_update (role_env\<lparr>call_ok := (\<lambda>a. a \<noteq> SetPermissions ''500000'' ''600000'' 6)\<rparr>)
       \<lparr>role_id = ''600000'', role_position = 7, role_perms = 14\<rparr> (role_state, []) =
     (role_state, [SetPermissions ''500000'' ''600000'' 6])"
proof -
  let ?e = "role_env\<lparr>call_ok := (\<lambda>a. a \<noteq> SetPermissions ''500000'' ''600000'' 6)\<rparr>"
  let ?new = "\<lparr>role_id = ''600000'', role_position = 7, role_perms = 14 :: perm\<rparr>"
  let ?r = "(role_state, [] :: action list)"
  have f: "feature_on (features (fst ?r)) ''roleUpdate''" and v: "has_view_audit ?e"
    and x: "role_update_exec ?e ?new = Some ''333333''"
    and w: "case Some ''333333'' of None \<Rightarrow> True | Some x \<Rightarrow> \<not> whitelisted (fst ?r) x"
    and g: "get_original_role_state (role_base (fst ?r)) (guild_id ?e) (role_id ?new) =
              Some \<lparr>position = 5, permissions = 6\<rparr>"
    and c: "role_perms ?new \<noteq> permissions \<lparr>position = 5, permissions = 6 :: perm\<rparr>"
    and k: "\<not> call_ok ?e (SetPermissions (guild_id ?e) (role_id ?new) (permissions \<lparr>position = 5, permissions = 6 :: perm\<rparr>))"
    and n: "role_id ?new \<notin> set (reverting (fst ?r))"
    by (simp_all add: role_update_exec_def get_original_role_state_def watcher_eval store_eval)
  show ?thesis using role_update_partial_failure [OF f v x w g c k n] by simp
qed


end
