(* ===== verification/Enforcer.thy ===== *)
theory Enforcer
  imports Engine
begin

text \<open>
  The deny-list sweep of \<open>src/index.js\<close> (\<open>enforce\<close>, lines 362--405, run by
  \<open>setInterval(enforce, 1000)\<close>): read the blacklist and the whitelist, then for each
  guild and each blacklisted id that is neither whitelisted nor protected (owner or bot)
  and is a member, ban it and post "Auto-Banned". A guild is its id, owner and member
  list (what \<open>members.cache.get\<close> and \<open>members.fetch\<close> find); a ban that succeeds
  removes the member. \<open>s_ban_ok\<close> says which bans the platform accepts; a refused
  ban is swallowed. A failed log message is swallowed after the ban and changes nothing
  but the calls made. The theory proves that the sweep only bans present, blacklisted,
  non-whitelisted, unprotected members, that each such member is gone after the first
  tick whose ban is accepted, that a second tick after successful bans does nothing, and
  the specification's scenario.
\<close>

record guild =
  g_id :: snowflake
  g_owner :: snowflake
  g_members :: "snowflake list"

record sweep_env =
  s_bot :: snowflake
  s_log :: bool
  s_ban_ok :: "snowflake \<Rightarrow> snowflake \<Rightarrow> bool"

text \<open>\<open>isProtectedId(guild, id)\<close> inside the sweep.\<close>

definition sweep_protected :: "sweep_env \<Rightarrow> guild \<Rightarrow> snowflake \<Rightarrow> bool" where
  "sweep_protected se g i \<longleftrightarrow> i = g_owner g \<or> i = s_bot se"

text \<open>One iteration of \<open>for (const id of black)\<close>.\<close>

definition enforce_id ::
  "sweep_env \<Rightarrow> snowflake list \<Rightarrow> snowflake \<Rightarrow> guild \<times> action list \<Rightarrow> guild \<times> action list" where
  "enforce_id se white i gt =
     (case gt of (g, tr) \<Rightarrow>
       if i \<in> set white then (g, tr)
       else if sweep_protected se g i then (g, tr)
       else if i \<notin> set (g_members g) then (g, tr)
       else if s_ban_ok se (g_id g) i
       then (g\<lparr>g_members := removeAll i (g_members g)\<rparr>,
             tr @ [BanMember (g_id g) i] @ (if s_log se then [SendLog (NoteAutoBanned i)] else []))
       else (g, tr @ [BanMember (g_id g) i]))"

definition enforce_guild ::
  "sweep_env \<Rightarrow> snowflake list \<Rightarrow> snowflake list \<Rightarrow> guild \<Rightarrow> action list \<Rightarrow> guild \<times> action list" where
  "enforce_guild se black white g tr = fold (enforce_id se white) black (g, tr)"

text \<open>\<open>for (const [, guild] of client.guilds.cache)\<close>.\<close>

fun enforce_guilds ::
  "sweep_env \<Rightarrow> snowflake list \<Rightarrow> snowflake list \<Rightarrow> guild list \<Rightarrow> action list \<Rightarrow> guild list \<times> action list" where
  "enforce_guilds se black white [] tr = ([], tr)"
| "enforce_guilds se black white (g # gs) tr =
     (case enforce_guild se black white g tr of
        (g', tr') \<Rightarrow> (case enforce_guilds se black white gs tr' of (gs', tr'') \<Rightarrow> (g' # gs', tr'')))"

text \<open>One tick: \<open>Promise.all([readSet(BLACKLIST_FILE), readSet(WHITELIST_FILE)])\<close>, then every guild.\<close>

definition enforce :: "sweep_env \<Rightarrow> fstore \<Rightarrow> guild list \<Rightarrow> guild list \<times> action list" where
  "enforce se fs gs = enforce_guilds se (read_set fs blacklist_file) (read_set fs whitelist_file) gs []"


section \<open>One guild\<close>

lemma enforce_id_frame [simp]:
  "g_id (fst (enforce_id se white i gt)) = g_id (fst gt)"
  "g_owner (fst (enforce_id se white i gt)) = g_owner (fst gt)"
  by (cases gt; simp add: enforce_id_def)+

lemma enforce_id_protected [simp]:
  "sweep_protected se (fst (enforce_id se white i gt)) u = sweep_protected se (fst gt) u"
  by (simp add: sweep_protected_def)

lemma enforce_id_members: "set (g_members (fst (enforce_id se white i gt))) \<subseteq> set (g_members (fst gt))"
  by (cases gt) (auto simp: enforce_id_def)

lemma enforce_id_prefix: "\<exists>new. snd (enforce_id se white i gt) = snd gt @ new"
  by (cases gt) (simp add: enforce_id_def)

lemma enforce_guild_Cons:
  "enforce_guild se (i # black) white g tr =
     (case enforce_id se white i (g, tr) of (g', tr') \<Rightarrow> enforce_guild se black white g' tr')"
  by (simp add: enforce_guild_def split: prod.splits)

lemma enforce_guild_Nil [simp]: "enforce_guild se [] white g tr = (g, tr)"
  by (simp add: enforce_guild_def)

lemma enforce_guilds_Cons_split:
  "enforce_guilds se black white (g # gs) tr =
     (fst (enforce_guild se black white g tr) #
        fst (enforce_guilds se black white gs (snd (enforce_guild se black white g tr))),
      snd (enforce_guilds se black white gs (snd (enforce_guild se black white g tr))))"
  by (simp split: prod.splits)

lemma enforce_id_actions:
  assumes "a \<in> set (snd (enforce_id se white i (g, tr)))"
  shows "a \<in> set tr \<or>
         ((a = BanMember (g_id g) i \<or> a = SendLog (NoteAutoBanned i)) \<and>
          i \<notin> set white \<and> \<not> sweep_protected se g i \<and> i \<in> set (g_members g))"
  using assms by (auto simp: enforce_id_def split: if_splits)

lemma enforce_guild_invariant:
  assumes "\<And>i gt. P (fst gt) \<Longrightarrow> P (fst (enforce_id se white i gt))" and "P g"
  shows "P (fst (enforce_guild se black white g tr))"
  using assms(2) unfolding enforce_guild_def
proof (induction black arbitrary: g tr)
  case (Cons i black)
  obtain g' tr' where e: "enforce_id se white i (g, tr) = (g', tr')" by fastforce
  with assms(1) [of "(g, tr)" i] Cons.prems have "P g'" by simp
  with Cons.IH [of g' tr'] e show ?case by simp
qed simp

lemma enforce_guild_members:
  "set (g_members (fst (enforce_guild se black white g tr))) \<subseteq> set (g_members g)"
  by (rule enforce_guild_invariant [where P = "\<lambda>g'. set (g_members g') \<subseteq> set (g_members g)"])
     (auto dest: subsetD [OF enforce_id_members])

lemma enforce_guild_frame [simp]:
  "g_id (fst (enforce_guild se black white g tr)) = g_id g"
  "g_owner (fst (enforce_guild se black white g tr)) = g_owner g"
  by (rule enforce_guild_invariant [where P = "\<lambda>g'. g_id g' = g_id g"]; simp)
     (rule enforce_guild_invariant [where P = "\<lambda>g'. g_owner g' = g_owner g"]; simp)

lemma enforce_guild_actions:
  assumes "a \<in> set (snd (enforce_guild se black white g tr))"
  shows "a \<in> set tr \<or>
         (\<exists>u \<in> set black. (a = BanMember (g_id g) u \<or> a = SendLog (NoteAutoBanned u)) \<and>
            u \<notin> set white \<and> \<not> sweep_protected se g u \<and> u \<in> set (g_members g))"
  using assms
proof (induction black arbitrary: g tr)
  case (Cons i black)
  obtain g' tr' where e: "enforce_id se white i (g, tr) = (g', tr')" by fastforce
  have fr: "g_id g' = g_id g" "sweep_protected se g' = sweep_protected se g"
           "set (g_members g') \<subseteq> set (g_members g)"
    using enforce_id_frame [of se white i "(g, tr)"] enforce_id_members [of se white i "(g, tr)"] e
    by (auto simp: sweep_protected_def)
  from Cons.prems e have "a \<in> set (snd (enforce_guild se black white g' tr'))"
    by (simp add: enforce_guild_Cons)
  with Cons.IH consider (old) "a \<in> set tr'"
    | (new) "\<exists>u \<in> set black. (a = BanMember (g_id g') u \<or> a = SendLog (NoteAutoBanned u)) \<and>
               u \<notin> set white \<and> \<not> sweep_protected se g' u \<and> u \<in> set (g_members g')"
    by blast
  then show ?case
  proof cases
    case old
    then show ?thesis using enforce_id_actions [of a se white i g tr] e by auto
  next
    case new
    then show ?thesis using fr by auto
  qed
qed (simp add: enforce_guild_def)

lemma enforce_guilds_actions:
  assumes "a \<in> set (snd (enforce_guilds se black white gs tr))"
  shows "a \<in> set tr \<or>
         (\<exists>g \<in> set gs. \<exists>u \<in> set black. (a = BanMember (g_id g) u \<or> a = SendLog (NoteAutoBanned u)) \<and>
            u \<notin> set white \<and> \<not> sweep_protected se g u \<and> u \<in> set (g_members g))"
  using assms
proof (induction gs arbitrary: tr)
  case (Cons g gs)
  obtain g' tr' where e: "enforce_guild se black white g tr = (g', tr')" by fastforce
  from Cons.prems e have "a \<in> set (snd (enforce_guilds se black white gs tr'))"
    by (simp split: prod.splits)
  from Cons.IH [OF this] show ?case
  proof
    assume "a \<in> set tr'"
    then show ?thesis using enforce_guild_actions [of a se black white g tr] e by auto
  qed auto
qed simp

lemma enforce_guild_noop:
  assumes "\<forall>u \<in> set black. u \<in> set white \<or> sweep_protected se g u \<or> u \<notin> set (g_members g)"
  shows "enforce_guild se black white g tr = (g, tr)"
  using assms by (induction black) (auto simp: enforce_guild_Cons enforce_id_def)

lemma enforce_guild_clears:
  assumes "\<forall>gid v. s_ban_ok se gid v" and "u \<in> set black" and "u \<notin> set white"
    and "\<not> sweep_protected se g u"
  shows "u \<notin> set (g_members (fst (enforce_guild se black white g tr)))"
  using assms(2,4)
proof (induction black arbitrary: g tr)
  case (Cons i black)
  obtain g' tr' where e: "enforce_id se white i (g, tr) = (g', tr')" by fastforce
  have p: "\<not> sweep_protected se g' u"
    using Cons.prems(2) enforce_id_protected [of se white i "(g, tr)" u] e by simp
  show ?case
  proof (cases "u = i")
    case True
    have "u \<notin> set (g_members g')"
      using e assms(1,3) Cons.prems(2) True by (auto simp: enforce_id_def split: if_splits)
    then show ?thesis
      using enforce_guild_members [of se black white g' tr'] e by (auto simp: enforce_guild_Cons)
  next
    case False
    with Cons.prems(1) have "u \<in> set black" by simp
    from Cons.IH [OF this p] e show ?thesis by (simp add: enforce_guild_Cons)
  qed
qed simp

lemma enforce_guild_clears_one:
  assumes "s_ban_ok se (g_id g) u" and "u \<in> set black" and "u \<notin> set white"
    and "\<not> sweep_protected se g u"
  shows "u \<notin> set (g_members (fst (enforce_guild se black white g tr)))"
  using assms(1,2,4)
proof (induction black arbitrary: g tr)
  case (Cons i black)
  obtain g' tr' where e: "enforce_id se white i (g, tr) = (g', tr')" by fastforce
  have p: "\<not> sweep_protected se g' u"
    using Cons.prems(3) enforce_id_protected [of se white i "(g, tr)" u] e by simp
  have b: "s_ban_ok se (g_id g') u"
    using Cons.prems(1) enforce_id_frame(1) [of se white i "(g, tr)"] e by simp
  show ?case
  proof (cases "u = i")
    case True
    have "u \<notin> set (g_members g')"
      using e Cons.prems(1,3) assms(3) True by (auto simp: enforce_id_def split: if_splits)
    then show ?thesis
      using enforce_guild_members [of se black white g' tr'] e by (auto simp: enforce_guild_Cons)
  next
    case False
    with Cons.prems(2) have "u \<in> set black" by simp
    from Cons.IH [OF b this p] e show ?thesis by (simp add: enforce_guild_Cons)
  qed
qed simp

lemma enforce_guilds_length: "length (fst (enforce_guilds se black white gs tr)) = length gs"
  by (induction gs arbitrary: tr) (simp_all add: enforce_guilds_Cons_split del: enforce_guilds.simps(2))

lemma enforce_guilds_nth:
  "i < length gs \<Longrightarrow>
     length (fst (enforce_guilds se black white gs tr)) = length gs \<and>
     (\<exists>tr'. fst (enforce_guilds se black white gs tr) ! i = fst (enforce_guild se black white (gs ! i) tr'))"
proof (induction gs arbitrary: i tr)
  case (Cons g gs)
  show ?case
  proof (cases i)
    case 0
    then show ?thesis by (auto simp: enforce_guilds_Cons_split enforce_guilds_length simp del: enforce_guilds.simps)
  next
    case (Suc j)
    with Cons.prems Cons.IH [of j "snd (enforce_guild se black white g tr)"] show ?thesis
      by (auto simp: enforce_guilds_Cons_split simp del: enforce_guilds.simps)
  qed
qed simp

lemma enforce_guilds_fixpoint:
  assumes "\<forall>gid v. s_ban_ok se gid v"
  shows "enforce_guilds se black white (fst (enforce_guilds se black white gs tr)) tr2 =
           (fst (enforce_guilds se black white gs tr), tr2)"
proof (induction gs arbitrary: tr tr2)
  case (Cons g gs)
  obtain g' tr' where e: "enforce_guild se black white g tr = (g', tr')" by fastforce
  have p: "sweep_protected se g' = sweep_protected se g"
    using e enforce_guild_frame [of se black white g tr] by (auto simp: sweep_protected_def)
  have "\<forall>u \<in> set black. u \<in> set white \<or> sweep_protected se g' u \<or> u \<notin> set (g_members g')"
    using enforce_guild_clears [OF assms, of _ black white g tr] e p by auto
  then have "enforce_guild se black white g' tr2 = (g', tr2)" by (rule enforce_guild_noop)
  with Cons.IH [of tr' tr2] e show ?case
    by (simp del: enforce_guilds.simps add: enforce_guilds_Cons_split)
qed simp

text \<open>
  C2. Allow-list precedence and protection in the sweep: every ban a tick issues is of a
  member of that guild who is in the blacklist file, not in the whitelist file, and
  neither the guild's owner nor the bot, whatever the file holds.
\<close>

theorem sweep_bans_only_targets:
  assumes "BanMember gid u \<in> set (snd (enforce se fs gs))"
  shows "u \<in> set (read_set fs blacklist_file) \<and> u \<notin> set (read_set fs whitelist_file) \<and>
         (\<exists>g \<in> set gs. g_id g = gid \<and> u \<noteq> g_owner g \<and> u \<noteq> s_bot se \<and> u \<in> set (g_members g))"
  using enforce_guilds_actions [OF assms [unfolded enforce_def]]
  by (auto simp: sweep_protected_def)

lemma sweep_bans_only_targets_witness:
  "BanMember ''500000'' ''111'' \<in> set (snd (enforce \<lparr>s_bot = ''900000'', s_log = True, s_ban_ok = (\<lambda>_ _. True)\<rparr>
      [blacklist_file \<mapsto> ''111'' @ [nl]] [\<lparr>g_id = ''500000'', g_owner = ''100000'', g_members = [''111'', ''222'']\<rparr>])) \<and>
   ''111'' \<notin> set (read_set [blacklist_file \<mapsto> ''111'' @ [nl]] whitelist_file)"
proof -
  let ?se = "\<lparr>s_bot = ''900000'', s_log = True, s_ban_ok = (\<lambda>_ _. True)\<rparr>"
  let ?fs = "[blacklist_file \<mapsto> ''111'' @ [nl]]"
  let ?gs = "[\<lparr>g_id = ''500000'', g_owner = ''100000'', g_members = [''111'', ''222'']\<rparr>]"
  have b: "BanMember ''500000'' ''111'' \<in> set (snd (enforce ?se ?fs ?gs))"
    by (simp add: enforce_def enforce_guild_def enforce_id_def sweep_protected_def read_set_def
        split_lines_def js_set_of_def js_set_add_def js_trim_def js_ws_def nl_def cr_def drop_cr_def)
  show ?thesis using sweep_bans_only_targets [OF b] b by simp
qed

text \<open>
  Idempotence: when the platform accepts the bans, a second tick with no change in
  membership or files makes no call and changes no guild.
\<close>

theorem sweep_idempotent:
  assumes "\<forall>gid u. s_ban_ok se gid u"
  shows "enforce se fs (fst (enforce se fs gs)) = (fst (enforce se fs gs), [])"
  unfolding enforce_def by (rule enforce_guilds_fixpoint [OF assms])

lemma sweep_idempotent_witness:
  "enforce \<lparr>s_bot = ''900000'', s_log = True, s_ban_ok = (\<lambda>_ _. True)\<rparr> [blacklist_file \<mapsto> ''111'' @ [nl]]
     (fst (enforce \<lparr>s_bot = ''900000'', s_log = True, s_ban_ok = (\<lambda>_ _. True)\<rparr> [blacklist_file \<mapsto> ''111'' @ [nl]]
       [\<lparr>g_id = ''500000'', g_owner = ''100000'', g_members = [''111'', ''222'']\<rparr>])) =
   (fst (enforce \<lparr>s_bot = ''900000'', s_log = True, s_ban_ok = (\<lambda>_ _. True)\<rparr> [blacklist_file \<mapsto> ''111'' @ [nl]]
       [\<lparr>g_id = ''500000'', g_owner = ''100000'', g_members = [''111'', ''222'']\<rparr>]), [])"
  by (rule sweep_idempotent) simp

text \<open>
  C10. Progress of the sweep: a member of a guild who is blacklisted, not whitelisted and
  neither the owner nor the bot is no longer a member after the first tick at which the
  platform accepts their ban; refused bans are retried every tick until one is accepted.
\<close>

theorem sweep_progress:
  assumes "u \<in> set (read_set fs blacklist_file)" and "u \<notin> set (read_set fs whitelist_file)"
    and "i < length gs" and "\<not> sweep_protected se (gs ! i) u" and "s_ban_ok se (g_id (gs ! i)) u"
  shows "u \<notin> set (g_members (fst (enforce se fs gs) ! i))"
proof -
  obtain tr' where "fst (enforce se fs gs) ! i =
      fst (enforce_guild se (read_set fs blacklist_file) (read_set fs whitelist_file) (gs ! i) tr')"
    using enforce_guilds_nth [OF assms(3), of se "read_set fs blacklist_file" "read_set fs whitelist_file" "[]"]
    unfolding enforce_def by blast
  then show ?thesis using enforce_guild_clears_one [OF assms(5) assms(1) assms(2) assms(4)] by simp
qed

lemma sweep_progress_witness:
  "''444444'' \<in> set (read_set [blacklist_file \<mapsto> ''444444'' @ [nl]] blacklist_file) \<and>
   ''444444'' \<notin> set (read_set [blacklist_file \<mapsto> ''444444'' @ [nl]] whitelist_file) \<and>
   ''444444'' \<notin> set (g_members (fst (enforce \<lparr>s_bot = ''900000'', s_log = True, s_ban_ok = (\<lambda>gid v. v = ''444444'')\<rparr>
      [blacklist_file \<mapsto> ''444444'' @ [nl]]
      [\<lparr>g_id = ''500000'', g_owner = ''100000'', g_members = [''444444'', ''222222'']\<rparr>]) ! 0))"
proof -
  have b: "''444444'' \<in> set (read_set [blacklist_file \<mapsto> ''444444'' @ [nl]] blacklist_file)"
    and w: "''444444'' \<notin> set (read_set [blacklist_file \<mapsto> ''444444'' @ [nl]] whitelist_file)"
    by (simp_all add: read_set_def split_lines_def js_set_of_def js_set_add_def js_trim_def js_ws_def nl_def
        cr_def drop_cr_def)
  have p: "\<not> sweep_protected \<lparr>s_bot = ''900000'', s_log = True, s_ban_ok = (\<lambda>gid v. v = ''444444'')\<rparr>
      ([\<lparr>g_id = ''500000'', g_owner = ''100000'', g_members = [''444444'', ''222222'']\<rparr>] ! 0) ''444444''"
    by (simp add: sweep_protected_def)
  show ?thesis using sweep_progress [OF b w _ p] b w by simp
qed

text \<open>
  The specification's scenario: blacklist \<open>["111"]\<close>, empty whitelist, \<open>111\<close> a
  member. One tick bans \<open>111\<close> and posts exactly one message; the next tick does
  nothing because \<open>111\<close> is no longer a member.
\<close>

theorem sweep_scenario:
  "enforce \<lparr>s_bot = ''900000'', s_log = True, s_ban_ok = (\<lambda>_ _. True)\<rparr> [blacklist_file \<mapsto> ''111'' @ [nl]]
     [\<lparr>g_id = ''500000'', g_owner = ''100000'', g_members = [''111'', ''222'']\<rparr>] =
     ([\<lparr>g_id = ''500000'', g_owner = ''100000'', g_members = [''222'']\<rparr>],
      [BanMember ''500000'' ''111'', SendLog (NoteAutoBanned ''111'')]) \<and>
   enforce \<lparr>s_bot = ''900000'', s_log = True, s_ban_ok = (\<lambda>_ _. True)\<rparr> [blacklist_file \<mapsto> ''111'' @ [nl]]
     [\<lparr>g_id = ''500000'', g_owner = ''100000'', g_members = [''222'']\<rparr>] =
     ([\<lparr>g_id = ''500000'', g_owner = ''100000'', g_members = [''222'']\<rparr>], [])"
  by (simp add: enforce_def enforce_guild_def enforce_id_def sweep_protected_def read_set_def
      split_lines_def js_set_of_def js_set_add_def js_trim_def js_ws_def nl_def cr_def drop_cr_def)

end
