(* ===== verification/Commands.thy ===== *)
theory Commands
  imports Engine "HOL-Library.While_Combinator"
begin

text \<open>
  The moderation commands of the second \<open>client.on('messageCreate')\<close> listener of
  \<open>src/index.js\<close> (lines 1343--1712): a message from a human in a guild whose author
  is in \<open>allowedUsers.txt\<close> is trimmed and dispatched on its lower-cased prefix to
  \<open>+help\<close>, \<open>+settings\<close>, \<open>+view whitelist|blacklist\<close> (the set in chunks of
  50), \<open>+enable\<close>/\<open>+disable\<close> (\<open>Features.feature_command\<close>) and
  \<open>+whitelist\<close>/\<open>+unwhitelist\<close>/\<open>+blacklist\<close>/\<open>+unblacklist\<close>
  (\<open>addIds\<close>/\<open>removeIds\<close> on the two list files). The replies are values of
  \<open>cmd_reply\<close>; where they are sent (log channel or the message's channel) is not
  modelled. The other commands of the listener (\<open>+recover\<close>, \<open>+invall\<close>,
  \<open>+promo\<close>, \<open>+demo\<close>, \<open>+save\<close>) manage roles and invites, not the enforcement
  state; \<open>on_command\<close> returns \<open>None\<close> for them.
\<close>

record message =
  m_author :: snowflake
  m_author_bot :: bool
  m_in_guild :: bool
  m_content :: string

datatype cmd_reply =
    RHelp
  | RSettings "(string \<times> bool) list"
  | RViewUsage
  | RViewEmpty string
  | RViewChunks string "snowflake list list"
  | RFeature bool feat_reply
  | RListUsage
  | RNeedPerms
  | RWhitelisted snowflake
  | RUnwhitelisted snowflake
  | RBlacklisted snowflake
  | RUnblacklisted snowflake

text \<open>
  The chunks of \<open>n\<close> consecutive elements, the reference the loop below is compared with.
\<close>

function chunks :: "nat \<Rightarrow> 'a list \<Rightarrow> 'a list list" where
  "chunks n [] = []"
| "chunks n (x # xs) = (if n = 0 then [] else take n (x # xs) # chunks n (drop n (x # xs)))"
  by pat_completeness auto
termination
  by (relation "measure (\<lambda>(n, xs). length xs)") auto

text \<open>
  \<open>for (let i = 0; i < ids.length; i += chunkSize) chunks.push(ids.slice(i, i + chunkSize))\<close>
  (line 1429) as the loop it is: the state is \<open>(i, chunks)\<close>; \<open>None\<close> when it never stops.
\<close>

definition chunk_loop :: "nat \<Rightarrow> 'a list \<Rightarrow> 'a list list option" where
  "chunk_loop chunk_size ids =
     map_option snd (while_option (\<lambda>(i, acc). i < length ids)
                      (\<lambda>(i, acc). (i + chunk_size, acc @ [take chunk_size (drop i ids)])) (0, []))"

text \<open>\<open>+view whitelist|blacklist\<close>, lines 1412--1455.\<close>

definition view_reply :: "fstore \<Rightarrow> string \<Rightarrow> cmd_reply" where
  "view_reply fs content =
     (let which = js_lower (js_trim (drop 6 content)) in
      if which \<notin> set [''whitelist'', ''blacklist''] then RViewUsage
      else let ids = read_set fs (if which = ''whitelist'' then whitelist_file else blacklist_file) in
           if ids = [] then RViewEmpty which else RViewChunks which (the (chunk_loop 50 ids)))"

text \<open>
  \<open>content.split(/\s+/)\<close> of the trimmed, non-empty content: the runs of non-blank
  characters.
\<close>

definition ws_parts :: "string \<Rightarrow> string list" where
  "ws_parts s = filter (\<lambda>t. t \<noteq> []) (split_on js_ws s)"

definition list_commands :: "string list" where
  "list_commands = [''+whitelist'', ''+unwhitelist'', ''+blacklist'', ''+unblacklist'']"

text \<open>The list commands, lines 1667--1710, with the bot member's permissions \<open>p\<close>.\<close>

definition list_command :: "perm \<Rightarrow> string \<Rightarrow> bot_state \<Rightarrow> bot_state \<times> cmd_reply list" where
  "list_command p content st =
     (let parts = ws_parts content;
          cmd = js_lower (hd parts);
          arg = (if length parts < 2 then None else Some (parts ! 1))
      in case parse_user_id arg of
           None \<Rightarrow> (st, [RListUsage])
         | Some i \<Rightarrow>
             if \<not> (perm_has p flag_ban_members \<and> perm_has p flag_view_audit_log) then (st, [RNeedPerms])
             else if cmd = ''+whitelist''
             then (st\<lparr>store := fst (add_ids (store st) whitelist_file [i])\<rparr>, [RWhitelisted i])
             else if cmd = ''+unwhitelist''
             then (st\<lparr>store := fst (remove_ids (store st) whitelist_file [i])\<rparr>, [RUnwhitelisted i])
             else if cmd = ''+blacklist''
             then (st\<lparr>store := fst (add_ids (store st) blacklist_file [i])\<rparr>, [RBlacklisted i])
             else if cmd = ''+unblacklist''
             then (st\<lparr>store := fst (remove_ids (store st) blacklist_file [i])\<rparr>, [RUnblacklisted i])
             else (st, []))"

text \<open>The file each list command edits, and whether it adds (lines 1689--1708).\<close>

definition list_file :: "string \<Rightarrow> string" where
  "list_file c = (if c \<in> set [''+whitelist'', ''+unwhitelist''] then whitelist_file else blacklist_file)"

definition list_adds :: "string \<Rightarrow> bool" where
  "list_adds c \<longleftrightarrow> c \<in> set [''+whitelist'', ''+blacklist'']"

text \<open>
  The listener's dispatch (lines 1343--1712): \<open>None\<close> for the commands this
  development does not model, otherwise the new state and the replies.
\<close>

definition on_command :: "perm \<Rightarrow> message \<Rightarrow> bot_state \<Rightarrow> (bot_state \<times> cmd_reply list) option" where
  "on_command p m st =
     (let content = js_trim (m_content m); lower = js_lower content in
      if m_author_bot m \<or> \<not> m_in_guild m then Some (st, [])
      else if \<not> is_allowed_user (store st) (m_author m) then Some (st, [])
      else if lower = ''+help'' then Some (st, [RHelp])
      else if lower = ''+settings'' then Some (st, [RSettings (list_features_pretty (features st))])
      else if starts_with lower ''+view '' then Some (st, [view_reply (store st) content])
      else case feature_command content (features st) of
        Some (f, rep) \<Rightarrow> Some (st\<lparr>features := f\<rparr>, [RFeature (toggle_enabling content) rep])
      | None \<Rightarrow>
          if starts_with lower ''+recover'' \<or> starts_with lower ''+invall'' then None
          else if list_ex (starts_with lower) list_commands then Some (list_command p content st)
          else if starts_with lower ''+promo'' \<or> starts_with lower ''+demo'' \<or> starts_with lower ''+save''
          then None
          else Some (st, []))"

section \<open>Parsing the command line\<close>

lemma split_on_acc_no_sep: "\<forall>c \<in> set cs. \<not> P c \<Longrightarrow> split_on_acc P acc cs = [rev acc @ cs]"
  by (induction cs arbitrary: acc) auto

lemma split_on_acc_sep:
  "\<forall>c \<in> set a. \<not> P c \<Longrightarrow> P x \<Longrightarrow> split_on_acc P acc (a @ x # b) = (rev acc @ a) # split_on_acc P [] b"
  by (induction a arbitrary: acc) auto

lemma ws_parts_two:
  assumes "a \<noteq> []" "b \<noteq> []" "\<forall>c \<in> set a. \<not> js_ws c" "\<forall>c \<in> set b. \<not> js_ws c"
  shows "ws_parts (a @ CHR '' '' # b) = [a, b]"
proof -
  have "js_ws (CHR '' '')" by (simp add: js_ws_def)
  then have "split_on js_ws (a @ CHR '' '' # b) = [a, b]"
    using assms(3,4) by (simp add: split_on_def split_on_acc_sep split_on_acc_no_sep)
  then show ?thesis using assms(1,2) by (simp add: ws_parts_def)
qed

lemma js_lower_append [simp]: "js_lower (a @ b) = js_lower a @ js_lower b"
  by (simp add: js_lower_def)

lemma js_lower_space [simp]: "js_lower (CHR '' '' # s) = CHR '' '' # js_lower s"
  by (simp add: js_lower_def js_lower_char_def)

lemma list_command_content:
  assumes "c \<in> set list_commands" and "\<forall>ch \<in> set arg. \<not> js_ws ch" and "arg \<noteq> []"
  shows "js_trim (c @ CHR '' '' # arg) = c @ CHR '' '' # arg"
    and "ws_parts (c @ CHR '' '' # arg) = [c, arg]"
    and "js_lower c = c"
proof -
  have c: "c \<noteq> []" "\<forall>ch \<in> set c. \<not> js_ws ch" "\<not> js_ws (hd c)"
    using assms(1) by (auto simp: list_commands_def js_ws_def)
  show "js_trim (c @ CHR '' '' # arg) = c @ CHR '' '' # arg"
    using c assms(2,3) by (intro js_trim_no_ws) simp
  show "ws_parts (c @ CHR '' '' # arg) = [c, arg]"
    using c assms(2,3) by (intro ws_parts_two) auto
  show "js_lower c = c"
    using assms(1) by (auto simp: list_commands_def js_lower_def js_lower_char_def)
qed

lemma on_command_list:
  assumes "\<not> m_author_bot m" and "m_in_guild m" and "is_allowed_user (store st) (m_author m)"
    and "js_lower (js_trim (m_content m)) = lower"
    and "lower \<noteq> ''+help''" and "lower \<noteq> ''+settings''" and "\<not> starts_with lower ''+view ''"
    and "\<not> starts_with lower ''+enable ''" and "\<not> starts_with lower ''+disable''"
    and "\<not> starts_with lower ''+recover''" and "\<not> starts_with lower ''+invall''"
    and "list_ex (starts_with lower) list_commands"
  shows "on_command p m st = Some (list_command p (js_trim (m_content m)) st)"
proof -
  have "feature_command (js_trim (m_content m)) (features st) = None"
    using assms(4,8,9) by (simp add: feature_command_def)
  with assms show ?thesis by (simp add: on_command_def Let_def)
qed

lemma list_commands_cases:
  "c \<in> set list_commands \<Longrightarrow>
   c = ''+whitelist'' \<or> c = ''+unwhitelist'' \<or> c = ''+blacklist'' \<or> c = ''+unblacklist''"
  by (simp add: list_commands_def)

lemma list_command_frame:
  "reverting (fst (list_command p content st)) = reverting st \<and>
   features (fst (list_command p content st)) = features st \<and>
   role_base (fst (list_command p content st)) = role_base st"
  by (simp add: list_command_def Let_def split: option.splits)

lemma on_command_frame:
  assumes "on_command p m st = Some (st', rs)"
  shows "reverting st' = reverting st \<and> role_base st' = role_base st \<and>
         (features st' = features st \<or>
          (\<exists>rep. feature_command (js_trim (m_content m)) (features st) = Some (features st', rep)))"
  using assms list_command_frame [of p "js_trim (m_content m)" st]
  by (auto simp: on_command_def Let_def split: if_splits option.splits)

section \<open>The list commands\<close>

text \<open>
  C28. An allowed human's \<open>+whitelist\<close>, \<open>+unwhitelist\<close>, \<open>+blacklist\<close> or
  \<open>+unblacklist\<close> followed by a mention of a valid id, with the bot holding Ban Members
  and View Audit Log, adds the id to (or removes it from) exactly the file the command
  names (in particular \<open>+unblacklist\<close> edits the blacklist, not the whitelist), leaves
  every other file and the rest of the state unchanged, and answers once.
\<close>

theorem list_command_effect:
  assumes "\<not> m_author_bot m" and "m_in_guild m" and "is_allowed_user (store st) (m_author m)"
    and "m_content m = c @ CHR '' '' # arg" and "c \<in> set list_commands"
    and "\<forall>ch \<in> set arg. \<not> js_ws ch" and "parse_user_id (Some arg) = Some i"
    and "perm_has p flag_ban_members" and "perm_has p flag_view_audit_log"
  shows "\<exists>st' r. on_command p m st = Some (st', [r]) \<and>
           set (read_set (store st') (list_file c)) =
             (if list_adds c then insert i (set (read_set (store st) (list_file c)))
              else set (read_set (store st) (list_file c)) - {i}) \<and>
           (\<forall>f. f \<noteq> list_file c \<longrightarrow> read_set (store st') f = read_set (store st) f) \<and>
           features st' = features st \<and> role_base st' = role_base st"
proof -
  have ne: "arg \<noteq> []" using assms(7) by (auto simp: parse_user_id_def)
  note cc = list_command_content [OF assms(5,6) ne]
  have v: "valid_id i" using assms(7) by (rule parse_user_id_valid)
  let ?lower = "c @ CHR '' '' # js_lower arg"
  have low: "js_lower (js_trim (m_content m)) = ?lower"
    using assms(4) cc by simp
  have "?lower \<noteq> ''+help'' \<and> ?lower \<noteq> ''+settings'' \<and> \<not> starts_with ?lower ''+view '' \<and>
        \<not> starts_with ?lower ''+enable '' \<and> \<not> starts_with ?lower ''+disable'' \<and>
        \<not> starts_with ?lower ''+recover'' \<and> \<not> starts_with ?lower ''+invall'' \<and>
        list_ex (starts_with ?lower) list_commands"
    using list_commands_cases [OF assms(5)]
    by (elim disjE) (simp_all add: starts_with_def list_commands_def)
  then have "on_command p m st = Some (list_command p (c @ CHR '' '' # arg) st)"
    using on_command_list [OF assms(1-3) low] cc(1) assms(4) by simp
  moreover have "list_command p (c @ CHR '' '' # arg) st =
      (st\<lparr>store := fst ((if list_adds c then add_ids else remove_ids) (store st) (list_file c) [i])\<rparr>,
       [if c = ''+whitelist'' then RWhitelisted i else if c = ''+unwhitelist'' then RUnwhitelisted i
        else if c = ''+blacklist'' then RBlacklisted i else RUnblacklisted i])"
    using list_commands_cases [OF assms(5)] assms(7,8,9) cc(2,3)
    by (elim disjE) (simp_all add: list_command_def list_file_def list_adds_def)
  ultimately show ?thesis
    using v by (auto simp: add_ids_set remove_ids_set)
qed

lemma list_command_effect_witness:
  "\<exists>st' r. on_command 132 \<lparr>m_author = ''100001'', m_author_bot = False, m_in_guild = True,
                             m_content = ''+unblacklist <@123456>''\<rparr>
          \<lparr>store = [allowed_file \<mapsto> ''100001'' @ [nl], blacklist_file \<mapsto> ''123456'' @ [nl]],
           features = default_features, role_base = Map.empty, reverting = []\<rparr> = Some (st', [r]) \<and>
     set (read_set (store st') blacklist_file) = {} \<and>
     read_set (store st') whitelist_file = [] \<and> features st' = default_features"
proof -
  let ?m = "\<lparr>m_author = ''100001'', m_author_bot = False, m_in_guild = True,
              m_content = ''+unblacklist'' @ CHR '' '' # ''<@123456>''\<rparr>"
  let ?st = "\<lparr>store = [allowed_file \<mapsto> ''100001'' @ [nl], blacklist_file \<mapsto> ''123456'' @ [nl]],
              features = default_features, role_base = Map.empty, reverting = []\<rparr>"
  have a: "is_allowed_user (store ?st) (m_author ?m)"
    by (simp add: is_allowed_user_def is_allowed_user_def read_set_def split_lines_def js_set_of_def js_set_add_def js_trim_def js_ws_def nl_def cr_def drop_cr_def)
  have c: "''+unblacklist'' \<in> set list_commands" by (simp add: list_commands_def)
  have w: "\<forall>ch \<in> set ''<@123456>''. \<not> js_ws ch" by (simp add: js_ws_def)
  have i: "parse_user_id (Some ''<@123456>'') = Some ''123456''"
    by (simp add: parse_user_id_def valid_id_def is_digit_def)
  have p: "perm_has 132 flag_ban_members" "perm_has 132 flag_view_audit_log"
    by (simp_all add: perm_has_def bits_has_def flag_values)
  have b: "read_set (store ?st) blacklist_file = [''123456'']" "read_set (store ?st) whitelist_file = []"
    by (simp_all add: is_allowed_user_def read_set_def split_lines_def js_set_of_def js_set_add_def js_trim_def js_ws_def nl_def cr_def drop_cr_def)
  obtain st' r where o: "on_command 132 ?m ?st = Some (st', [r])"
    and s: "set (read_set (store st') blacklist_file) = set (read_set (store ?st) blacklist_file) - {''123456''}"
    and f: "\<forall>f. f \<noteq> blacklist_file \<longrightarrow> read_set (store st') f = read_set (store ?st) f"
    and ft: "features st' = default_features"
    using list_command_effect [OF _ _ a _ c w i p] by (auto simp: list_file_def list_adds_def)
  have "read_set (store st') whitelist_file = []" using f b(2) by simp
  with o s ft b(1) show ?thesis by auto
qed

section \<open>Viewing a list\<close>

lemma chunks_drop_step:
  "0 < n \<Longrightarrow> i < length xs \<Longrightarrow> chunks n (drop i xs) = take n (drop i xs) # chunks n (drop (i + n) xs)"
proof -
  assume n: "0 < n" and i: "i < length xs"
  obtain a rest where d: "drop i xs = a # rest" using i by (cases "drop i xs") auto
  have "chunks n (drop i xs) = take n (drop i xs) # chunks n (drop n (drop i xs))"
    using d n by simp
  then show ?thesis by (simp add: add.commute)
qed

lemma chunk_loop_Some:
  assumes "0 < n"
  shows "chunk_loop n xs = Some (chunks n xs)"
proof -
  let ?b = "\<lambda>(i, acc). i < length xs" and ?c = "\<lambda>(i, acc). (i + n, acc @ [take n (drop i xs)])"
  let ?P = "\<lambda>(i, acc). acc @ chunks n (drop i xs) = chunks n xs"
  obtain t where t: "while_option ?b ?c (0, []) = Some t"
    using measure_while_option_Some [of ?P ?b ?c "\<lambda>(i, acc). length xs - i" "(0, [])"] assms
    by (force simp: chunks_drop_step)
  obtain i acc where ia: "t = (i, acc)" by fastforce
  have "?P t" by (rule while_option_rule [OF _ t]) (auto simp: chunks_drop_step assms)
  moreover have "\<not> ?b t" using while_option_stop [OF t] .
  ultimately have "acc = chunks n xs" using ia by simp
  then show ?thesis using t ia by (simp add: chunk_loop_def)
qed

lemma chunk_loop_zero:
  assumes "xs \<noteq> []"
  shows "chunk_loop 0 xs = None"
proof -
  let ?b = "\<lambda>(i, acc). i < length xs" and ?c = "\<lambda>(i, acc). (i + 0, acc @ [take 0 (drop i xs)])"
  have "fst ((?c ^^ k) (0, [])) = 0" for k by (induction k) (auto split: prod.splits)
  then have "\<forall>k. ?b ((?c ^^ k) (0, []))" using assms by (simp add: case_prod_beta)
  then show ?thesis by (simp add: chunk_loop_def while_option_def)
qed

lemma chunks_concat: "0 < n \<Longrightarrow> concat (chunks n xs) = xs"
  by (induction n xs rule: chunks.induct) simp_all

lemma chunks_bound: "c \<in> set (chunks n xs) \<Longrightarrow> c \<noteq> [] \<and> length c \<le> n"
  by (induction n xs rule: chunks.induct) (auto split: if_splits)

text \<open>
  C29. Termination of the \<open>+view\<close> chunk loop: \<open>for (let i = 0; i < ids.length;
  i += chunkSize)\<close> stops exactly when \<open>chunkSize > 0\<close> or the list is empty, and then
  yields the reference chunks; with \<open>chunkSize = 0\<close> and a non-empty list it never
  stops (the code fixes \<open>chunkSize = 50\<close>).
\<close>

theorem chunk_loop_terminates:
  "(chunk_loop n xs \<noteq> None \<longleftrightarrow> 0 < n \<or> xs = []) \<and> (0 < n \<longrightarrow> chunk_loop n xs = Some (chunks n xs))"
proof (cases "0 < n")
  case True
  then show ?thesis by (simp add: chunk_loop_Some)
next
  case False
  then have "n = 0" by simp
  moreover have "chunk_loop 0 [] = Some []"
    by (simp add: chunk_loop_def while_option_unfold [of _ _ "(0, [])"])
  ultimately show ?thesis by (cases "xs = []") (auto simp: chunk_loop_zero)
qed

lemma chunk_loop_terminates_witness:
  "chunk_loop 2 [1, 2, 3 :: nat] = Some [[1, 2], [3]] \<and> chunk_loop 0 [1 :: nat] = None"
  using chunk_loop_terminates [of 2 "[1, 2, 3 :: nat]"] chunk_loop_terminates [of 0 "[1 :: nat]"]
  by (simp add: numeral_eq_Suc)

text \<open>
  \<open>+view\<close> shows the whole set read from the file, in order, in non-empty chunks of
  at most 50 ids.
\<close>

theorem view_reply_lists:
  assumes "view_reply fs content = RViewChunks which cs"
  shows "concat cs = read_set fs (if which = ''whitelist'' then whitelist_file else blacklist_file) \<and>
         cs \<noteq> [] \<and> (\<forall>c \<in> set cs. c \<noteq> [] \<and> length c \<le> 50)"
proof -
  let ?ids = "read_set fs (if which = ''whitelist'' then whitelist_file else blacklist_file)"
  from assms have cs: "cs = chunks 50 ?ids" and ne: "?ids \<noteq> []"
    by (auto simp: view_reply_def Let_def chunk_loop_Some split: if_splits)
  have "chunks 50 ?ids \<noteq> []" using ne by (cases ?ids) simp_all
  with cs show ?thesis by (auto simp: chunks_concat dest: chunks_bound)
qed

lemma view_reply_lists_witness:
  "view_reply [blacklist_file \<mapsto> ''123456'' @ [nl]] ''+view blacklist'' = RViewChunks ''blacklist'' [[''123456'']] \<and>
   concat [[''123456'']] = read_set [blacklist_file \<mapsto> ''123456'' @ [nl]] blacklist_file"
proof -
  have v: "view_reply [blacklist_file \<mapsto> ''123456'' @ [nl]] ''+view blacklist'' = RViewChunks ''blacklist'' [[''123456'']]"
    by (simp add: view_reply_def chunk_loop_Some js_lower_def js_lower_char_def read_set_def split_lines_def
        js_set_of_def js_set_add_def js_trim_def js_ws_def nl_def cr_def drop_cr_def)
  show ?thesis using view_reply_lists [OF v] v by simp
qed

end
