(* ===== verification/StoreRaces.thy ===== *)
theory StoreRaces
  imports IdStore
begin

text \<open>
  \<open>addIds(file, ids)\<close> (\<open>src/index.js\<close> lines 90--95) awaits twice: once in
  \<open>readSet\<close> and once in \<open>writeSet\<close>. Between the two, the event loop may run another
  handler, for instance a second watcher blacklisting a different executor. Each call is
  therefore two atomic steps, a read of the file into the call's local set and a write of
  that set with the new ids added; a schedule says which of two pending calls steps next.
  The theory shows that the steps of one call run back to back are exactly
  \<open>add_ids\<close>, that the two calls' additions both survive exactly when one call's write
  comes before the other's read, and that otherwise the later write discards the
  earlier one's addition.
\<close>

text \<open>A pending \<open>addIds\<close> call: its file, its ids and the set it has read, if any.\<close>

record add_call =
  c_file :: string
  c_ids :: "string list"
  c_read :: "snowflake list option"
  c_done :: bool

definition add_call_of :: "string \<Rightarrow> string list \<Rightarrow> add_call" where
  "add_call_of file ids = \<lparr>c_file = file, c_ids = ids, c_read = None, c_done = False\<rparr>"

text \<open>One atomic step of a call: \<open>await readSet(file)\<close>, then the loop and \<open>await writeSet(file, s)\<close>.\<close>

definition add_step :: "fstore \<Rightarrow> add_call \<Rightarrow> fstore \<times> add_call" where
  "add_step fs c =
     (if c_done c then (fs, c)
      else case c_read c of
        None \<Rightarrow> (fs, c\<lparr>c_read := Some (read_set fs (c_file c))\<rparr>)
      | Some s \<Rightarrow>
          (write_set fs (c_file c) (fold (\<lambda>i s. if valid_id i then js_set_add s i else s) (c_ids c) s),
           c\<lparr>c_done := True\<rparr>))"

text \<open>A schedule of two calls: \<open>True\<close> steps the first, \<open>False\<close> the second.\<close>

fun run_sched :: "fstore \<Rightarrow> add_call \<Rightarrow> add_call \<Rightarrow> bool list \<Rightarrow> fstore" where
  "run_sched fs c1 c2 [] = fs"
| "run_sched fs c1 c2 (True # sch) = (case add_step fs c1 of (fs', c1') \<Rightarrow> run_sched fs' c1' c2 sch)"
| "run_sched fs c1 c2 (False # sch) = (case add_step fs c2 of (fs', c2') \<Rightarrow> run_sched fs' c1 c2' sch)"

text \<open>The six orders of the two reads and two writes.\<close>

definition two_call_schedules :: "bool list list" where
  "two_call_schedules =
     [[True, True, False, False], [False, False, True, True],
      [True, False, True, False], [True, False, False, True],
      [False, True, True, False], [False, True, False, True]]"

definition serial :: "bool list \<Rightarrow> bool" where
  "serial sch \<longleftrightarrow> sch = [True, True, False, False] \<or> sch = [False, False, True, True]"

lemma add_call_serial:
  "run_sched fs (add_call_of file ids) c2 [True, True] = fst (add_ids fs file ids)"
  by (simp add: add_step_def add_call_of_def add_ids_def Let_def)

lemma read_set_write_set_same: "read_set (write_set fs file s) file = read_set (write_set fs' file s) file"
  by (simp add: read_set_def write_set_def)

lemma read_after_write_of_read:
  "set (read_set (write_set fs file (fold (\<lambda>i s. if valid_id i then js_set_add s i else s) ids
      (read_set fs0 file))) file) = set (read_set fs0 file) \<union> {i \<in> set ids. valid_id i}"
proof -
  have "read_set (write_set fs file (fold (\<lambda>i s. if valid_id i then js_set_add s i else s) ids (read_set fs0 file))) file =
        read_set (fst (add_ids fs0 file ids)) file"
    by (simp add: add_ids_def Let_def read_set_write_set_same [of fs _ _ fs0])
  then show ?thesis by (simp add: add_ids_set)
qed

lemma read_after_write_add1:
  "valid_id x \<Longrightarrow>
   set (read_set (write_set fs file (js_set_add (read_set fs0 file) x)) file) = insert x (set (read_set fs0 file))"
  using read_after_write_of_read [of fs "file" "[x]" fs0] by auto

text \<open>
  C14. Two \<open>addIds\<close> calls on one file, each adding one valid id, under each of the six
  orders of their reads and writes: both ids end up in the set exactly when the order is
  serial; otherwise the set read back holds only the id of the call that wrote last, so
  the other call's addition (for instance a blacklisting) is lost.
\<close>

theorem interleaved_add_ids:
  assumes "valid_id x" and "valid_id y" and "sch \<in> set two_call_schedules"
  shows "set (read_set (run_sched fs (add_call_of file [x]) (add_call_of file [y]) sch) file) =
           (if serial sch then set (read_set fs file) \<union> {x, y}
            else set (read_set fs file) \<union> {if last sch then x else y})"
proof -
  have "sch = [True, True, False, False] \<or> sch = [False, False, True, True] \<or>
        sch = [True, False, True, False] \<or> sch = [True, False, False, True] \<or>
        sch = [False, True, True, False] \<or> sch = [False, True, False, True]"
    using assms(3) by (simp add: two_call_schedules_def)
  then show ?thesis
    by (elim disjE; simp add: serial_def add_step_def add_call_of_def read_after_write_add1 assms(1,2)
        insert_commute)
qed

lemma interleaved_add_ids_witness:
  "set (read_set (run_sched [blacklist_file \<mapsto> ''123456'' @ [nl]] (add_call_of blacklist_file [''111111''])
      (add_call_of blacklist_file [''222222'']) [True, False, True, False]) blacklist_file) = {''222222'', ''123456''}"
proof -
  have v: "valid_id ''111111''" "valid_id ''222222''" by (simp_all add: valid_id_def is_digit_def)
  have s: "[True, False, True, False] \<in> set two_call_schedules" by (simp add: two_call_schedules_def)
  have r: "set (read_set [blacklist_file \<mapsto> ''123456'' @ [nl]] blacklist_file) = {''123456''}"
    by (simp add: read_set_def split_lines_def js_set_of_def js_set_add_def js_trim_def js_ws_def
        nl_def cr_def drop_cr_def)
  show ?thesis using interleaved_add_ids [OF v s, of "[blacklist_file \<mapsto> ''123456'' @ [nl]]" blacklist_file] r
    by (simp add: serial_def)
qed

end
