(* ===== verification/Reverting.thy ===== *)
theory Reverting
  imports Engine
begin

text \<open>
  \<open>REVERTING_ROLES\<close> (line 148) is filled by the role watcher before it reverts a role
  and emptied in its \<open>finally\<close> (lines 620--648), but no handler ever reads it. This
  theory shows it: \<open>forget_rev\<close> erases the field from a run, every watcher commutes
  with it, and the role watcher's result does not depend on it either; so whatever the
  set holds, every gateway event leads to the same files, registry, baseline and platform
  calls.
\<close>

text \<open>A run with \<open>REVERTING_ROLES\<close> erased.\<close>

definition forget_rev :: "run \<Rightarrow> run" where
  "forget_rev r = (fst r\<lparr>reverting := []\<rparr>, snd r)"

section \<open>Commuting the combinators with \<open>forget_rev\<close>\<close>

lemma forget_rev_fields [simp]:
  "store (fst (forget_rev r)) = store (fst r)"
  "features (fst (forget_rev r)) = features (fst r)"
  "role_base (fst (forget_rev r)) = role_base (fst r)"
  "whitelisted (fst (forget_rev r)) = whitelisted (fst r)"
  by (simp_all add: forget_rev_def whitelisted_def fun_eq_iff)

lemma forget_rev_idem [simp]: "forget_rev (forget_rev r) = forget_rev r"
  by (simp add: forget_rev_def)

lemma call_forget_rev: "call e a (forget_rev r) = apsnd forget_rev (call e a r)"
  by (cases r) (simp add: call_def forget_rev_def)

lemma ok_forget_rev: "ok (forget_rev r) = apsnd forget_rev (ok r)"
  by (simp add: ok_def)

lemma send_log_forget_rev: "send_log e n (forget_rev r) = apsnd forget_rev (send_log e n r)"
  by (simp add: send_log_def call_forget_rev ok_forget_rev)

lemma upd_state_forget_rev:
  "(\<And>st. (f st)\<lparr>reverting := []\<rparr> = f (st\<lparr>reverting := []\<rparr>)) \<Longrightarrow>
   upd_state f (forget_rev r) = forget_rev (upd_state f r)"
  by (simp add: upd_state_def forget_rev_def)

lemma case_res_apsnd:
  "(case apsnd f m of (Inl x, r) \<Rightarrow> A x r | (Inr y, r) \<Rightarrow> B y r) =
   (case m of (Inl x, r) \<Rightarrow> A x (f r) | (Inr y, r) \<Rightarrow> B y (f r))"
  by (cases m) (simp split: sum.split)

lemma andthen_forget_rev:
  "(\<And>r. k (forget_rev r) = apsnd forget_rev (k r)) \<Longrightarrow>
   andthen (apsnd forget_rev m) k = apsnd forget_rev (andthen m k)"
  by (cases m) (simp add: andthen_def split: sum.split)

lemma andthen_pair_forget_rev:
  "(\<And>r. k (forget_rev r) = apsnd forget_rev (k r)) \<Longrightarrow>
   andthen (x, forget_rev r) k = apsnd forget_rev (andthen (x, r) k)"
  using andthen_forget_rev [of k "(x, r)"] by simp

lemma case_res_forget_rev:
  "(case m of (Inl x, r) \<Rightarrow> forget_rev (A x r) | (Inr y, r) \<Rightarrow> forget_rev (B y r)) =
   forget_rev (case m of (Inl x, r) \<Rightarrow> A x r | (Inr y, r) \<Rightarrow> B y r)"
  by (cases m) (simp split: sum.split)

lemma blacklist_add_forget [simp]: "(blacklist_add x st)\<lparr>reverting := []\<rparr> = blacklist_add x (st\<lparr>reverting := []\<rparr>)"
  by (simp add: blacklist_add_def)

lemma set_baseline_forget [simp]: "(set_baseline e ro st)\<lparr>reverting := []\<rparr> = set_baseline e ro (st\<lparr>reverting := []\<rparr>)"
  by (simp add: set_baseline_def)

lemma if_forget_rev: "(if c then forget_rev a else forget_rev b) = forget_rev (if c then a else b)"
  by simp

lemma case_option_forget_rev:
  "(case v of None \<Rightarrow> forget_rev a | Some x \<Rightarrow> forget_rev (f x)) = forget_rev (case v of None \<Rightarrow> a | Some x \<Rightarrow> f x)"
  by (cases v) simp_all

lemmas forget_rev_commute = if_forget_rev case_option_forget_rev call_forget_rev ok_forget_rev
  send_log_forget_rev case_res_apsnd andthen_forget_rev andthen_pair_forget_rev case_res_forget_rev

section \<open>The watchers commute with \<open>forget_rev\<close>\<close>

lemma add_executor_forget_rev:
  "add_executor_to_blacklist e ex (forget_rev r) = apsnd forget_rev (add_executor_to_blacklist e ex r)"
  by (simp add: add_executor_to_blacklist_def forget_rev_commute upd_state_forget_rev split: option.split)

lemma on_guild_ban_add_forget_rev: "on_guild_ban_add e u (forget_rev r) = forget_rev (on_guild_ban_add e u r)"
  unfolding on_guild_ban_add_def
  by (simp add: forget_rev_commute add_executor_forget_rev cong: prod.case_cong sum.case_cong split: option.split)

lemma on_deletion_forget_rev: "on_deletion k ty e u (forget_rev r) = forget_rev (on_deletion k ty e u r)"
  unfolding on_deletion_def
  by (simp add: add_executor_forget_rev split: option.split)

lemma on_role_delete_snapshot_forget_rev:
  "on_role_delete_snapshot e rid (forget_rev r) = forget_rev (on_role_delete_snapshot e rid r)"
  by (simp add: on_role_delete_snapshot_def upd_state_def forget_rev_def)

lemma on_role_create_forget_rev: "on_role_create e ro (forget_rev r) = forget_rev (on_role_create e ro r)"
  by (simp add: on_role_create_def upd_state_forget_rev send_log_forget_rev)

lemma on_member_remove_forget_rev: "on_member_remove e u (forget_rev r) = forget_rev (on_member_remove e u r)"
  unfolding on_member_remove_def Let_def
  by (simp add: forget_rev_commute add_executor_forget_rev cong: prod.case_cong sum.case_cong split: option.split)

lemma on_member_add_forget_rev: "on_member_add e u b (forget_rev r) = forget_rev (on_member_add e u b r)"
  unfolding on_member_add_def Let_def
  by (simp add: forget_rev_commute add_executor_forget_rev upd_state_forget_rev
      cong: prod.case_cong sum.case_cong option.case_cong if_cong split: option.split)

lemma upd_reverting_forget_rev [simp]: "forget_rev (upd_state (\<lambda>st. st\<lparr>reverting := f st\<rparr>) r) = forget_rev r"
  by (simp add: upd_state_def forget_rev_def)

lemma revert_role_forget_rev:
  "forget_rev (revert_role e new orig ex (forget_rev r)) = forget_rev (revert_role e new orig ex r)"
proof -
  let ?rid = "role_id new" and ?pc = "role_perms new \<noteq> permissions orig"
    and ?pp = "role_position new \<noteq> position orig"
  define M where "M = (\<lambda>r1. andthen (if ?pc then call e (SetPermissions (guild_id e) ?rid (permissions orig)) r1 else ok r1)
                (\<lambda>r. andthen (if ?pp then call e (SetPosition (guild_id e) ?rid (position orig)) r else ok r)
                       (send_log e (NoteRoleReverted ?rid ?pc ?pp ex))))"
  define H where "H = (\<lambda>m. case andthen m (add_executor_to_blacklist e ex) of
           (Inl _, r2) \<Rightarrow> r2
         | (Inr _, r2) \<Rightarrow> upd_state (set_baseline e (role_at_reset e new orig)) r2)"
  define add where "add = upd_state (\<lambda>st. st\<lparr>reverting := js_set_add (reverting st) ?rid\<rparr>)"
  define del where "del = upd_state (\<lambda>st. st\<lparr>reverting := js_set_delete (reverting st) ?rid\<rparr>)"
  have rr: "\<And>r. revert_role e new orig ex r = H (fst (M (add r)), del (snd (M (add r))))"
    by (simp add: revert_role_def M_def H_def add_def del_def Let_def)
  have m: "\<And>r1. M (forget_rev r1) = apsnd forget_rev (M r1)"
    unfolding M_def by (simp add: forget_rev_commute cong: if_cong)
  have h: "\<And>x r. H (x, forget_rev r) = forget_rev (H (x, r))"
    unfolding H_def
    by (simp add: forget_rev_commute add_executor_forget_rev upd_state_forget_rev
        cong: prod.case_cong sum.case_cong)
  have d2: "\<And>x. forget_rev (del x) = forget_rev x" and a: "\<And>x. forget_rev (add x) = forget_rev x"
    by (simp_all add: del_def add_def)
  have "\<And>r. forget_rev (revert_role e new orig ex r) = H (fst (M (forget_rev r)), snd (M (forget_rev r)))"
  proof -
    fix r
    have "forget_rev (revert_role e new orig ex r) = forget_rev (H (fst (M (add r)), del (snd (M (add r)))))"
      by (simp add: rr)
    also have "\<dots> = H (fst (M (add r)), forget_rev (snd (M (add r))))"
      by (simp add: h [symmetric] d2)
    also have "\<dots> = H (fst (M (forget_rev (add r))), snd (M (forget_rev (add r))))"
      by (simp add: m)
    finally show "forget_rev (revert_role e new orig ex r) = H (fst (M (forget_rev r)), snd (M (forget_rev r)))"
      by (simp add: a)
  qed
  then show ?thesis by simp
qed

lemma on_role_update_forget_rev:
  "forget_rev (on_role_update e new (forget_rev r)) = forget_rev (on_role_update e new r)"
  unfolding on_role_update_def Let_def
  by (simp add: send_log_forget_rev upd_state_forget_rev revert_role_forget_rev split: option.split)

lemma handle_event_forget_rev:
  "forget_rev (handle_event e ev (forget_rev r)) = forget_rev (handle_event e ev r)"
  by (cases ev) (simp_all add: on_guild_ban_add_forget_rev on_deletion_forget_rev on_channel_delete_def
      on_role_delete_blacklist_def on_role_delete_snapshot_forget_rev on_role_create_forget_rev
      on_role_update_forget_rev on_member_remove_forget_rev on_member_add_forget_rev)

section \<open>Nothing reads \<open>REVERTING_ROLES\<close>\<close>

text \<open>
  C15. \<open>REVERTING_ROLES\<close> is never read: running any gateway event on a state whose
  \<open>REVERTING_ROLES\<close> holds an arbitrary set gives the same set files, feature registry,
  role baseline and platform calls as running it on the same state with any other
  value of the set.
\<close>

theorem reverting_never_read:
  "forget_rev (handle_event e ev (st\<lparr>reverting := R\<rparr>, tr)) = forget_rev (handle_event e ev (st, tr))"
proof -
  have "forget_rev (st\<lparr>reverting := R\<rparr>, tr) = forget_rev (st, tr)"
    by (simp add: forget_rev_def)
  then show ?thesis by (metis handle_event_forget_rev)
qed

end
