(* ===== verification/Startup.thy ===== *)
theory Startup
  imports Engine
begin

text \<open>
  Start-up, \<open>client.once('ready')\<close> (\<open>src/index.js\<close> lines 320--356): the handler
  caches a log channel (\<open>LOG_CHAN_OBJ\<close>) from the first guild that can see it, snapshots
  the roles of every cached guild into \<open>ORIGINAL_ROLE_STATE\<close>, loads the feature flags
  and posts them to the log channel of the first guild. The vouch ticker it starts and
  the enforcer timer it installs are modelled elsewhere (the sweep is \<open>Enforcer\<close>; the
  ticker does not touch the enforcement state). The state before the handler runs is
  \<open>boot_state\<close>: the files on disk, \<open>FEATURES = {...DEFAULT_FEATURES}\<close>, no baseline
  and nothing being reverted.
\<close>

text \<open>A cached guild as the handler sees it: its id, the result of \<open>roles.fetch()\<close>
  (\<open>None\<close> when it throws) and whether \<open>channels.fetch(LOG_CHANNEL_ID)\<close> succeeds.\<close>

record ready_guild =
  rg_id :: snowflake
  rg_roles :: "role list option"
  rg_log_fetch :: bool

text \<open>The platform at start-up: the guild cache in iteration order, whether
  \<open>LOG_CHANNEL_ID\<close> is set, and the parsed \<open>features.json\<close> (\<open>None\<close> when missing or
  unparsable).\<close>

record ready_env =
  rd_guilds :: "ready_guild list"
  rd_log_id :: bool
  rd_features :: "jsobj option"

text \<open>\<open>getLogChannel(guild, fallback)\<close>, lines 127--136; a channel is named by the guild
  whose fetch returned it.\<close>

definition get_log_channel :: "bool \<Rightarrow> ready_guild \<Rightarrow> snowflake option \<Rightarrow> snowflake option" where
  "get_log_channel has_id g fallback =
     (if has_id \<and> rg_log_fetch g then Some (rg_id g) else fallback)"

text \<open>Lines 324--329: \<open>LOG_CHAN_OBJ = await getLogChannel(g, null); if (LOG_CHAN_OBJ) break;\<close>\<close>

fun cache_log_channel :: "bool \<Rightarrow> ready_guild list \<Rightarrow> snowflake option" where
  "cache_log_channel has_id [] = None"
| "cache_log_channel has_id (g # gs) =
     (case get_log_channel has_id g None of
        Some c \<Rightarrow> Some c
      | None \<Rightarrow> cache_log_channel has_id gs)"

text \<open>Lines 332--338: \<open>snapshotGuildRoles\<close> for every guild; it catches its own errors,
  so the loop always reaches every guild.\<close>

definition snapshot_all :: "baseline \<Rightarrow> ready_guild list \<Rightarrow> baseline" where
  "snapshot_all b gs = fold (\<lambda>g b. snapshot_guild_roles b (rg_id g) (rg_roles g)) gs b"

text \<open>Lines 146--148 and 198: the state the handlers start from.\<close>

definition boot_state :: "fstore \<Rightarrow> bot_state" where
  "boot_state fs = \<lparr>store = fs, features = obj_assign [] default_features, role_base = Map.empty,
                     reverting = []\<rparr>"

text \<open>\<open>DISCORD_TOKEN = ''.trim()\<close>, line 24.\<close>

definition discord_token :: string where
  "discord_token = js_trim []"

text \<open>The guard of lines 39--42: \<open>if (!DISCORD_TOKEN || !DISCORD_TOKEN.includes('.'))\<close>.\<close>

definition token_ok :: "string \<Rightarrow> bool" where
  "token_ok tok \<longleftrightarrow> tok \<noteq> [] \<and> CHR ''.'' \<in> set tok"

text \<open>Starting the program: \<open>process.exit(1)\<close> (\<open>None\<close>) before any listener is
  registered when the token fails the guard, else the state the handlers start from;
  \<open>client.login\<close> (line 1998) then leads to the ready handler.\<close>

definition start_program :: "string \<Rightarrow> fstore \<Rightarrow> bot_state option" where
  "start_program tok fs = (if token_ok tok then Some (boot_state fs) else None)"

text \<open>
  The ready handler: the new state, \<open>LOG_CHAN_OBJ\<close>, and the channel the
  ``Feature Flags Loaded'' message is posted to, if any (lines 340--352:
  \<open>getLogChannel(client.guilds.cache.first(), LOG_CHAN_OBJ)\<close>).
\<close>

definition on_ready :: "ready_env \<Rightarrow> bot_state \<Rightarrow> bot_state \<times> snowflake option \<times> snowflake option" where
  "on_ready re st =
     (let lc = cache_log_channel (rd_log_id re) (rd_guilds re);
          b = snapshot_all (role_base st) (rd_guilds re);
          f = fst (load_features (rd_features re));
          post = (case rd_guilds re of [] \<Rightarrow> None | g # _ \<Rightarrow> get_log_channel (rd_log_id re) g lc)
      in (st\<lparr>role_base := b, features := f\<rparr>, lc, post))"

section \<open>Lemmas\<close>

lemma snapshot_guild_roles_other:
  "gid' \<noteq> gid \<Longrightarrow> snapshot_guild_roles b gid x gid' = b gid'"
  by (simp add: snapshot_guild_roles_def split: option.split)

lemma snapshot_all_other:
  "gid \<notin> rg_id ` set gs \<Longrightarrow> snapshot_all b gs gid = b gid"
  by (induction gs arbitrary: b) (auto simp: snapshot_all_def snapshot_guild_roles_other)

lemma snapshot_all_at:
  assumes "distinct (map rg_id gs)" and "g \<in> set gs" and "rg_roles g = Some roles"
  shows "snapshot_all b gs (rg_id g) = snapshot_guild_roles b (rg_id g) (Some roles) (rg_id g)"
  using assms
proof (induction gs arbitrary: b)
  case Nil
  then show ?case by simp
next
  case (Cons h gs)
  show ?case
  proof (cases "h = g")
    case True
    with Cons.prems have "rg_id g \<notin> rg_id ` set gs" by auto
    then have "snapshot_all (snapshot_guild_roles b (rg_id g) (Some roles)) gs (rg_id g) =
                 snapshot_guild_roles b (rg_id g) (Some roles) (rg_id g)"
      by (rule snapshot_all_other)
    with True Cons.prems(3) show ?thesis
      by (simp add: snapshot_all_def)
  next
    case False
    with Cons.prems have "g \<in> set gs" and "rg_id h \<noteq> rg_id g" by auto
    with Cons.IH [of "snapshot_guild_roles b (rg_id h) (rg_roles h)"] Cons.prems(1,3) show ?thesis
      by (simp add: snapshot_all_def snapshot_guild_roles_def)
  qed
qed

lemma cache_log_channel_Some:
  "cache_log_channel has_id gs \<noteq> None \<longleftrightarrow> has_id \<and> (\<exists>g \<in> set gs. rg_log_fetch g)"
  by (induction gs) (auto simp: get_log_channel_def)

text \<open>As committed, the token is empty: the program exits before it registers a listener.\<close>

lemma committed_token_exits: "start_program discord_token fs = None"
  by (simp add: start_program_def token_ok_def discord_token_def js_trim_def)

section \<open>What the ready handler establishes\<close>

text \<open>
  C17. Start-up snapshot: after the ready handler, for every cached guild whose
  \<open>roles.fetch()\<close> succeeded (guild ids and role ids distinct, as in the cache), the
  baseline of each of its roles is that role's current position and permissions, and no
  other role of that guild has a baseline.
\<close>

theorem ready_snapshot:
  assumes "distinct (map rg_id (rd_guilds re))" and "g \<in> set (rd_guilds re)"
    and "rg_roles g = Some roles" and "distinct (map role_id roles)"
  shows "get_original_role_state (role_base (fst (on_ready re st))) (rg_id g) rid =
           (case find (\<lambda>r. role_id r = rid) roles of None \<Rightarrow> None | Some r \<Rightarrow> Some (snap_of r))"
proof -
  have "role_base (fst (on_ready re st)) (rg_id g) =
          snapshot_guild_roles (role_base st) (rg_id g) (Some roles) (rg_id g)"
    using snapshot_all_at [OF assms(1-3)] by (simp add: on_ready_def Let_def)
  then show ?thesis
    using get_snapshot_guild_roles [OF assms(4), of "role_base st" "rg_id g" rid]
    by (simp add: get_original_role_state_def)
qed

lemma ready_snapshot_witness:
  "distinct (map rg_id [\<lparr>rg_id = ''500000'', rg_roles = Some [\<lparr>role_id = ''600000'', role_position = 5, role_perms = 6\<rparr>],
                         rg_log_fetch = True\<rparr>]) \<and>
   get_original_role_state
     (role_base (fst (on_ready \<lparr>rd_guilds = [\<lparr>rg_id = ''500000'',
                         rg_roles = Some [\<lparr>role_id = ''600000'', role_position = 5, role_perms = 6\<rparr>],
                         rg_log_fetch = True\<rparr>], rd_log_id = True, rd_features = None\<rparr> (boot_state Map.empty))))
     ''500000'' ''600000'' = Some \<lparr>position = 5, permissions = 6\<rparr>"
  using ready_snapshot [of "\<lparr>rd_guilds = [\<lparr>rg_id = ''500000'',
                         rg_roles = Some [\<lparr>role_id = ''600000'', role_position = 5, role_perms = 6\<rparr>],
                         rg_log_fetch = True\<rparr>], rd_log_id = True, rd_features = None\<rparr>"
      "\<lparr>rg_id = ''500000'', rg_roles = Some [\<lparr>role_id = ''600000'', role_position = 5, role_perms = 6\<rparr>],
        rg_log_fetch = True\<rparr>" "[\<lparr>role_id = ''600000'', role_position = 5, role_perms = 6\<rparr>]"
      "boot_state Map.empty" "''600000''"]
  by (simp add: snap_of_def)

text \<open>
  Start-up log: the ``Feature Flags Loaded'' message is posted exactly when there is a
  guild, \<open>LOG_CHANNEL_ID\<close> is set and some guild can fetch the log channel (when the
  first guild cannot, it goes to the channel cached from the first guild that can).
\<close>

theorem ready_post:
  "snd (snd (on_ready re st)) \<noteq> None \<longleftrightarrow>
     rd_guilds re \<noteq> [] \<and> rd_log_id re \<and> (\<exists>g \<in> set (rd_guilds re). rg_log_fetch g)"
proof (cases "rd_guilds re")
  case Nil
  then show ?thesis by (simp add: on_ready_def Let_def)
next
  case (Cons g gs)
  then show ?thesis
    using cache_log_channel_Some [of "rd_log_id re" gs]
    by (auto simp: on_ready_def Let_def get_log_channel_def)
qed

lemma ready_post_witness:
  "snd (snd (on_ready \<lparr>rd_guilds = [\<lparr>rg_id = ''500000'', rg_roles = None, rg_log_fetch = False\<rparr>,
                                   \<lparr>rg_id = ''510000'', rg_roles = None, rg_log_fetch = True\<rparr>],
                      rd_log_id = True, rd_features = None\<rparr> (boot_state Map.empty))) = Some ''510000'' \<and>
   (\<exists>g \<in> set [\<lparr>rg_id = ''500000'', rg_roles = None, rg_log_fetch = False\<rparr>,
               \<lparr>rg_id = ''510000'', rg_roles = None, rg_log_fetch = True\<rparr>]. rg_log_fetch g)"
proof -
  have "snd (snd (on_ready \<lparr>rd_guilds = [\<lparr>rg_id = ''500000'', rg_roles = None, rg_log_fetch = False\<rparr>,
                                   \<lparr>rg_id = ''510000'', rg_roles = None, rg_log_fetch = True\<rparr>],
                      rd_log_id = True, rd_features = None\<rparr> (boot_state Map.empty))) \<noteq> None"
    using ready_post by simp
  then show ?thesis by (simp add: on_ready_def Let_def get_log_channel_def)
qed

end
