(* ===== verification/Vouch.thy ===== *)
theory Vouch
  imports Prelude
begin

text \<open>
  The vouch ticker (\<open>src/index.js\<close> lines 239--311 and the helper commands, lines
  1133--1157). \<open>startVouchTicker\<close> clears the previous interval timer, resolves the
  vouch channel, posts once and installs a new \<open>setInterval\<close>; \<open>stopVouchTicker\<close>
  clears it; \<open>+vouch start\<close>, \<open>+vouch stop\<close> and \<open>+vouchinterval\<close> drive them.
  The state is the module's globals plus the runtime's table of live interval timers
  (\<open>v_active\<close>: handle and period of each timer installed and not cleared).
  \<open>startVouchTicker\<close> awaits twice before installing its timer, so it is modelled as
  three atomic steps (\<open>start_a\<close>, \<open>start_b\<close>, \<open>start_c\<close>); run back to back they
  are \<open>start_vouch_ticker\<close>. What a tick posts (a random member and a random id of
  \<open>user_ids.txt\<close>) does not change this state and is not modelled.
\<close>

record vouch_state =
  v_timer :: "nat option"
  v_running :: bool
  v_ms :: rat
  v_chan :: bool
  v_active :: "(nat \<times> rat) list"
  v_next :: nat

text \<open>\<open>Math.round\<close> on a finite number: the nearest integer, halves rounded up.\<close>

definition js_round :: "rat \<Rightarrow> int" where
  "js_round x = \<lfloor>x + 1 / 2\<rfloor>"

text \<open>Lines 32 and 244--246: \<open>VOUCH_INTERVAL_MS = 20\<close>, read as seconds when below 1000.\<close>

definition vouch_interval_ms :: rat where
  "vouch_interval_ms = 20"

definition vouch_ms_init :: rat where
  "vouch_ms_init =
     (if vouch_interval_ms \<ge> 1000 then vouch_interval_ms else of_int (js_round (vouch_interval_ms * 1000)))"

definition vouch_init :: vouch_state where
  "vouch_init = \<lparr>v_timer = None, v_running = False, v_ms = vouch_ms_init, v_chan = False,
                 v_active = [], v_next = 0\<rparr>"

text \<open>\<open>if (VOUCH_TIMER) { clearInterval(VOUCH_TIMER); VOUCH_TIMER = null; }\<close>\<close>

definition clear_vouch_timer :: "vouch_state \<Rightarrow> vouch_state" where
  "clear_vouch_timer st =
     (case v_timer st of
        None \<Rightarrow> st
      | Some h \<Rightarrow> st\<lparr>v_active := filter (\<lambda>t. fst t \<noteq> h) (v_active st), v_timer := None\<rparr>)"

text \<open>The outcome of \<open>clientInst.channels.fetch(VOUCH_CHANNEL_ID)\<close>.\<close>

datatype fetch_result = FetchThrows | FetchNull | FetchOk

text \<open>Lines 251--255, up to the first \<open>await\<close>.\<close>

definition start_a :: "vouch_state \<Rightarrow> vouch_state" where
  "start_a st = (clear_vouch_timer st)\<lparr>v_running := False\<rparr>"

text \<open>Lines 258--264: resumed with the fetch outcome; \<open>False\<close> when the call returns.\<close>

definition start_b :: "fetch_result \<Rightarrow> vouch_state \<Rightarrow> vouch_state \<times> bool" where
  "start_b f st =
     (case f of
        FetchThrows \<Rightarrow> (st, False)
      | FetchNull \<Rightarrow> (st\<lparr>v_chan := False\<rparr>, False)
      | FetchOk \<Rightarrow> (st\<lparr>v_chan := True\<rparr>, True))"

text \<open>Lines 299--301, after \<open>await postOnce()\<close> (which catches its own errors).\<close>

definition start_c :: "vouch_state \<Rightarrow> vouch_state" where
  "start_c st = st\<lparr>v_timer := Some (v_next st), v_active := v_active st @ [(v_next st, v_ms st)],
                   v_next := Suc (v_next st), v_running := True\<rparr>"

definition start_vouch_ticker :: "fetch_result \<Rightarrow> vouch_state \<Rightarrow> vouch_state" where
  "start_vouch_ticker f st =
     (case start_b f (start_a st) of (st1, go) \<Rightarrow> if go then start_c st1 else st1)"

text \<open>\<open>stopVouchTicker()\<close>, lines 304--310.\<close>

definition stop_vouch_ticker :: "vouch_state \<Rightarrow> vouch_state" where
  "stop_vouch_ticker st = (clear_vouch_timer st)\<lparr>v_running := False\<rparr>"

text \<open>
  The helper commands. The argument of \<open>+vouchinterval\<close> is the value of
  \<open>Number(secStr)\<close>: \<open>None\<close> when it is not finite.
\<close>

datatype vouch_cmd = VouchStart | VouchStop | VouchInterval "rat option"

datatype vouch_reply = VStarted int | VStopped | VUsage | VIntervalSet rat

definition vouch_command ::
  "bool \<Rightarrow> vouch_cmd \<Rightarrow> fetch_result \<Rightarrow> vouch_state \<Rightarrow> vouch_state \<times> vouch_reply option" where
  "vouch_command allowed c f st =
     (if \<not> allowed then (st, None)
      else case c of
        VouchStart \<Rightarrow>
          (let st1 = start_vouch_ticker f st in (st1, Some (VStarted (js_round (v_ms st1 / 1000)))))
      | VouchStop \<Rightarrow> (stop_vouch_ticker st, Some VStopped)
      | VouchInterval None \<Rightarrow> (st, Some VUsage)
      | VouchInterval (Some secs) \<Rightarrow>
          if secs \<le> 0 then (st, Some VUsage)
          else
            (let st1 = st\<lparr>v_ms := of_int (js_round (secs * 1000))\<rparr>
             in (if v_running st1 then start_vouch_ticker f (stop_vouch_ticker st1) else st1,
                 Some (VIntervalSet secs))))"

section \<open>Two start calls interleaved at their awaits\<close>

text \<open>A pending \<open>startVouchTicker\<close> call: how far it has run (0 to 3) and its fetch outcome.\<close>

record vcall =
  vc_pc :: nat
  vc_fetch :: fetch_result

definition vstep :: "vouch_state \<Rightarrow> vcall \<Rightarrow> vouch_state \<times> vcall" where
  "vstep st c =
     (case vc_pc c of
        0 \<Rightarrow> (start_a st, c\<lparr>vc_pc := 1\<rparr>)
      | Suc 0 \<Rightarrow> (case start_b (vc_fetch c) st of
                   (st1, go) \<Rightarrow> (st1, c\<lparr>vc_pc := if go then 2 else 3\<rparr>))
      | Suc (Suc 0) \<Rightarrow> (start_c st, c\<lparr>vc_pc := 3\<rparr>)
      | _ \<Rightarrow> (st, c))"

fun run_vsched :: "vouch_state \<Rightarrow> vcall \<Rightarrow> vcall \<Rightarrow> bool list \<Rightarrow> vouch_state" where
  "run_vsched st c1 c2 [] = st"
| "run_vsched st c1 c2 (True # sch) = (case vstep st c1 of (st', c1') \<Rightarrow> run_vsched st' c1' c2 sch)"
| "run_vsched st c1 c2 (False # sch) = (case vstep st c2 of (st', c2') \<Rightarrow> run_vsched st' c1 c2' sch)"

text \<open>All interleavings of \<open>m\<close> steps of the first call with \<open>n\<close> of the second.\<close>

fun interleavings :: "nat \<Rightarrow> nat \<Rightarrow> bool list list" where
  "interleavings 0 n = [replicate n False]"
| "interleavings m 0 = [replicate m True]"
| "interleavings (Suc m) (Suc n) =
     map (Cons True) (interleavings m (Suc n)) @ map (Cons False) (interleavings (Suc m) n)"

section \<open>The ticker run one command at a time\<close>

text \<open>
  Well-formedness: the live timers are exactly the one \<open>VOUCH_TIMER\<close> holds, and
  \<open>VOUCH_RUNNING\<close> says whether there is one. An orphan is a live timer that
  \<open>VOUCH_TIMER\<close> does not hold, so that no \<open>clearInterval\<close> of the code can reach it.
\<close>

definition vouch_wf :: "vouch_state \<Rightarrow> bool" where
  "vouch_wf st \<longleftrightarrow>
     map fst (v_active st) = (case v_timer st of None \<Rightarrow> [] | Some h \<Rightarrow> [h]) \<and>
     v_running st = (v_timer st \<noteq> None)"

definition orphan :: "nat \<Rightarrow> vouch_state \<Rightarrow> bool" where
  "orphan h st \<longleftrightarrow> h \<in> fst ` set (v_active st) \<and> h < v_next st \<and> v_timer st \<noteq> Some h"

text \<open>The states reached when start-up and the helper commands each run to their end.\<close>

inductive vreach :: "vouch_state \<Rightarrow> bool" where
  init: "vreach vouch_init"
| ready: "vreach st \<Longrightarrow> vreach (start_vouch_ticker f st)"
| command: "vreach st \<Longrightarrow> vreach (fst (vouch_command a c f st))"

section \<open>Lemmas\<close>

lemma filter_all_eq: "map fst xs = [h] \<Longrightarrow> filter (\<lambda>t. fst t \<noteq> h) xs = []"
  by (cases xs) auto

lemma start_a_wf:
  "vouch_wf st \<Longrightarrow> start_a st = st\<lparr>v_timer := None, v_running := False, v_active := []\<rparr>"
  by (cases "v_timer st") (auto simp: vouch_wf_def start_a_def clear_vouch_timer_def filter_all_eq)

lemma stop_wf:
  "vouch_wf st \<Longrightarrow> stop_vouch_ticker st = st\<lparr>v_timer := None, v_running := False, v_active := []\<rparr>"
  by (cases "v_timer st") (auto simp: vouch_wf_def stop_vouch_ticker_def clear_vouch_timer_def filter_all_eq)

lemma vouch_wf_ms [simp]: "vouch_wf (st\<lparr>v_ms := x\<rparr>) = vouch_wf st"
  by (simp add: vouch_wf_def)

lemma orphan_ms [simp]: "orphan h (st\<lparr>v_ms := x\<rparr>) = orphan h st"
  by (simp add: orphan_def)

lemma vouch_wf_start: "vouch_wf st \<Longrightarrow> vouch_wf (start_vouch_ticker f st)"
  by (cases f) (simp_all add: start_vouch_ticker_def start_a_wf start_b_def start_c_def vouch_wf_def)

lemma vouch_wf_stop: "vouch_wf st \<Longrightarrow> vouch_wf (stop_vouch_ticker st)"
  by (simp add: stop_wf vouch_wf_def)

lemma vouch_wf_command: "vouch_wf st \<Longrightarrow> vouch_wf (fst (vouch_command a c f st))"
  by (cases c) (simp_all add: vouch_command_def Let_def vouch_wf_start vouch_wf_stop split: option.split)

lemma orphan_start_a: "orphan h st \<Longrightarrow> orphan h (start_a st)"
  by (auto simp: orphan_def start_a_def clear_vouch_timer_def image_iff split: option.split)

lemma orphan_start: "orphan h st \<Longrightarrow> orphan h (start_vouch_ticker f st)"
  using orphan_start_a [of h st]
  by (cases f) (auto simp: start_vouch_ticker_def start_b_def start_c_def orphan_def)

lemma orphan_stop: "orphan h st \<Longrightarrow> orphan h (stop_vouch_ticker st)"
  using orphan_start_a by (simp add: stop_vouch_ticker_def start_a_def)

lemma orphan_command: "orphan h st \<Longrightarrow> orphan h (fst (vouch_command a c f st))"
  by (cases c) (simp_all add: vouch_command_def Let_def orphan_start orphan_stop split: option.split)

lemma interleavings_3_3:
  "set (interleavings 3 3) =
    {[True, True, True, False, False, False], [True, True, False, True, False, False],
     [True, True, False, False, True, False], [True, True, False, False, False, True],
     [True, False, True, True, False, False], [True, False, True, False, True, False],
     [True, False, True, False, False, True], [True, False, False, True, True, False],
     [True, False, False, True, False, True], [True, False, False, False, True, True],
     [False, True, True, True, False, False], [False, True, True, False, True, False],
     [False, True, True, False, False, True], [False, True, False, True, True, False],
     [False, True, False, True, False, True], [False, True, False, False, True, True],
     [False, False, True, True, True, False], [False, False, True, True, False, True],
     [False, False, True, False, True, True], [False, False, False, True, True, True]}"
  by (simp add: numeral_eq_Suc insert_commute)

lemma run_vsched_first_clear:
  assumes "vouch_wf st" and "vc_pc c = 0"
  shows "run_vsched st c c (x # sch) =
           run_vsched (st\<lparr>v_timer := None, v_running := False, v_active := []\<rparr>) c c (x # sch)"
proof -
  have "start_a (st\<lparr>v_timer := None, v_running := False, v_active := []\<rparr>) =
          st\<lparr>v_timer := None, v_running := False, v_active := []\<rparr>"
    by (simp add: start_a_def clear_vouch_timer_def)
  then show ?thesis using assms by (cases x) (simp_all add: vstep_def start_a_wf)
qed

lemma v_ms_start [simp]: "v_ms (start_vouch_ticker f st) = v_ms st"
  by (cases f) (simp_all add: start_vouch_ticker_def start_a_def start_b_def start_c_def clear_vouch_timer_def
      split: option.split)

lemma v_ms_stop [simp]: "v_ms (stop_vouch_ticker st) = v_ms st"
  by (simp add: stop_vouch_ticker_def clear_vouch_timer_def split: option.split)

lemma js_round_zero_iff: "js_round x = 0 \<longleftrightarrow> - 1 / 2 \<le> x \<and> x < 1 / 2"
  by (auto simp: js_round_def floor_eq_iff)

section \<open>Properties of the ticker\<close>

text \<open>
  C23. Run one at a time, start-up and the helper commands keep at most one live vouch
  timer, the one \<open>VOUCH_TIMER\<close> holds, and \<open>VOUCH_RUNNING\<close> is true exactly when
  there is one.
\<close>

theorem vreach_wf: "vreach st \<Longrightarrow> vouch_wf st"
  by (induction rule: vreach.induct)
     (simp_all add: vouch_wf_start vouch_wf_command, simp add: vouch_wf_def vouch_init_def)

lemma vreach_wf_witness:
  "vreach (start_vouch_ticker FetchOk vouch_init) \<and> vouch_wf (start_vouch_ticker FetchOk vouch_init)"
proof -
  have r: "vreach (start_vouch_ticker FetchOk vouch_init)"
    by (rule vreach.ready, rule vreach.init)
  show ?thesis using vreach_wf [OF r] r by simp
qed

text \<open>
  C24. Two \<open>startVouchTicker\<close> calls that interleave at their awaits (start-up and
  \<open>+vouch start\<close>, or two \<open>+vouch start\<close> messages) leave two live timers under
  every schedule except the two serial ones: each call clears the timer before its
  awaits and installs its own after them.
\<close>

theorem vouch_start_race:
  assumes "vouch_wf st" and "sch \<in> set (interleavings 3 3)"
  shows "length (v_active (run_vsched st \<lparr>vc_pc = 0, vc_fetch = FetchOk\<rparr> \<lparr>vc_pc = 0, vc_fetch = FetchOk\<rparr> sch)) =
           (if sch = [True, True, True, False, False, False] \<or> sch = [False, False, False, True, True, True]
            then 1 else 2)"
proof -
  from assms(2) obtain x sch' where sch: "sch = x # sch'"
    unfolding interleavings_3_3 by auto
  show ?thesis
    using assms(2)
    unfolding sch run_vsched_first_clear [OF assms(1), of "\<lparr>vc_pc = 0, vc_fetch = FetchOk\<rparr>", simplified]
      interleavings_3_3
    by (auto simp: vstep_def start_a_def start_b_def start_c_def clear_vouch_timer_def)
qed

lemma vouch_start_race_witness:
  "vouch_wf vouch_init \<and> [True, False, True, False, True, False] \<in> set (interleavings 3 3) \<and>
   length (v_active (run_vsched vouch_init \<lparr>vc_pc = 0, vc_fetch = FetchOk\<rparr> \<lparr>vc_pc = 0, vc_fetch = FetchOk\<rparr>
     [True, False, True, False, True, False])) = 2"
proof -
  have w: "vouch_wf vouch_init" by (simp add: vouch_wf_def vouch_init_def)
  have i: "[True, False, True, False, True, False] \<in> set (interleavings 3 3)"
    by (simp add: numeral_eq_Suc)
  show ?thesis using vouch_start_race [OF w i] w i by simp
qed

text \<open>
  A timer that \<open>VOUCH_TIMER\<close> no longer holds stays live forever: no sequence of
  \<open>+vouch start\<close>, \<open>+vouch stop\<close> or \<open>+vouchinterval\<close> commands clears it.
\<close>

theorem orphan_persists:
  "orphan h st \<Longrightarrow> orphan h (fold (\<lambda>(a, c, f) st. fst (vouch_command a c f st)) cmds st)"
  by (induction cmds arbitrary: st) (auto simp: orphan_command)

lemma orphan_persists_witness:
  "orphan 0 (run_vsched vouch_init \<lparr>vc_pc = 0, vc_fetch = FetchOk\<rparr> \<lparr>vc_pc = 0, vc_fetch = FetchOk\<rparr>
     [True, False, True, False, True, False]) \<and>
   orphan 0 (fold (\<lambda>(a, c, f) st. fst (vouch_command a c f st)) [(True, VouchStop, FetchOk)]
     (run_vsched vouch_init \<lparr>vc_pc = 0, vc_fetch = FetchOk\<rparr> \<lparr>vc_pc = 0, vc_fetch = FetchOk\<rparr>
       [True, False, True, False, True, False]))"
proof -
  have o: "orphan 0 (run_vsched vouch_init \<lparr>vc_pc = 0, vc_fetch = FetchOk\<rparr> \<lparr>vc_pc = 0, vc_fetch = FetchOk\<rparr>
     [True, False, True, False, True, False])"
    by (simp add: orphan_def vouch_init_def vstep_def start_a_def start_b_def start_c_def clear_vouch_timer_def)
  show ?thesis using orphan_persists [OF o, of "[(True, VouchStop, FetchOk)]"] o by simp
qed



end
