(* ===== verification/RoleCommands.thy ===== *)
theory RoleCommands
  imports Commands
begin

text \<open>
  The role and invite commands of the owner-command listener (\<open>src/index.js\<close>
  lines 1496--1663 and 1714--1973): \<open>+recover\<close> gives a role to every id of
  \<open>user_ids.txt\<close>, \<open>+invall\<close> unbans and DMs them, and \<open>+save\<close> gives the target
  role to the holders of the source role and merges their ids into \<open>user_ids.txt\<close>.
  They reach the listener after its guards (\<open>on_command\<close> returns \<open>None\<close> for them);
  they touch member roles, bans and DMs on the platform and \<open>user_ids.txt\<close>, not the
  enforcement files. The platform's answers are the record \<open>guild_env\<close>; each command
  returns the new file store, the platform calls it attempted and the messages it posted.
\<close>

definition user_ids_file :: string where
  "user_ids_file = ''user_ids.txt''"

text \<open>\<open>SOURCE_ROLE_ID\<close> and \<open>TARGET_ROLE_ID\<close>, lines 25--26.\<close>

definition source_role_id :: snowflake where
  "source_role_id = ''1433193580809289915''"

definition target_role_id :: snowflake where
  "target_role_id = ''1433205845814153298''"

text \<open>\<open>fs.readFile('user_ids.txt')\<close>, split at \<open>/\r?\n/\<close>, trimmed, empty lines
  dropped; \<open>None\<close> when the read throws.\<close>

definition read_user_ids :: "fstore \<Rightarrow> string list option" where
  "read_user_ids fs =
     (case fs user_ids_file of
        None \<Rightarrow> None
      | Some raw \<Rightarrow> Some (filter (\<lambda>s. s \<noteq> []) (map js_trim (split_lines raw))))"

text \<open>\<open>[...new Set(ids)].filter(id => /^\d{5,}$/.test(id))\<close>\<close>

definition unique_ids :: "string list \<Rightarrow> snowflake list" where
  "unique_ids ids = filter valid_id (js_set_of ids)"

text \<open>\<open>arg.replace(/[<@&>]/g, '')\<close>\<close>

definition role_arg :: "string \<Rightarrow> snowflake" where
  "role_arg s = filter (\<lambda>c. c \<notin> set ''<@&>'') s"

text \<open>\<open>content.split(/\s+/)[1]\<close> on the trimmed content.\<close>

definition second_word :: "string \<Rightarrow> string option" where
  "second_word content = (case ws_parts content of _ # a # _ \<Rightarrow> Some a | _ \<Rightarrow> None)"

text \<open>A discord.js \<open>Role\<close> as these commands read it.\<close>

record grole =
  gr_id :: snowflake
  gr_pos :: int
  gr_managed :: bool

text \<open>\<open>BigInt(id)\<close> of a snowflake.\<close>

definition snowflake_value :: "snowflake \<Rightarrow> int" where
  "snowflake_value s = foldl (\<lambda>n c. 10 * n + (int (of_char c) - 48)) 0 s"

text \<open>discord.js \<open>Role.comparePositions(role1, role2)\<close>, the sign of
  \<open>role1.comparePositionTo(role2)\<close>: by position, ties broken in favour of the older
  (smaller) id.\<close>

definition compare_positions :: "grole \<Rightarrow> grole \<Rightarrow> int" where
  "compare_positions a b =
     (if gr_pos a = gr_pos b then snowflake_value (gr_id b) - snowflake_value (gr_id a)
      else gr_pos a - gr_pos b)"

text \<open>
  What the platform answers: the bot's Manage Roles and Ban Members permissions, the
  guild id (the id of \<open>@everyone\<close>), \<open>guild.roles.cache\<close> in order, the bot's
  highest role, whether \<open>members.fetch(id)\<close> finds a member and its roles, which role
  additions and removals, unbans and invite DMs succeed, whether the full member fetch
  of \<open>+save\<close> succeeds, the holders of the source role, the \<open>CHANNEL_TO_CHECK\<close>
  channel and who can view it, and whether writing \<open>user_ids.txt\<close> succeeds.
\<close>

datatype unban_result = Unbanned | NotBanned | UnbanError

record guild_env =
  ge_manage_roles :: bool
  ge_ban_members :: bool
  ge_guild_id :: snowflake
  ge_roles :: "grole list"
  ge_me_top :: grole
  ge_member :: "snowflake \<Rightarrow> bool"
  ge_member_roles :: "snowflake \<Rightarrow> grole list"
  ge_add_ok :: "snowflake \<Rightarrow> snowflake \<Rightarrow> bool"
  ge_remove_ok :: "snowflake \<Rightarrow> snowflake \<Rightarrow> bool"
  ge_unban :: "snowflake \<Rightarrow> unban_result"
  ge_dm_ok :: "snowflake \<Rightarrow> bool"
  ge_fetch_all :: bool
  ge_holders :: "snowflake list"
  ge_view_chan :: bool
  ge_can_view :: "snowflake \<Rightarrow> bool"
  ge_write_ok :: bool

text \<open>\<open>guild.roles.cache.get(id)\<close>\<close>

definition role_of :: "guild_env \<Rightarrow> snowflake \<Rightarrow> grole option" where
  "role_of ge rid = find (\<lambda>r. gr_id r = rid) (ge_roles ge)"

definition ge_role :: "guild_env \<Rightarrow> snowflake \<Rightarrow> bool" where
  "ge_role ge rid \<longleftrightarrow> role_of ge rid \<noteq> None"

text \<open>\<open>me.roles.highest.comparePositionTo(role) > 0\<close>\<close>

definition bot_above :: "guild_env \<Rightarrow> grole \<Rightarrow> bool" where
  "bot_above ge r \<longleftrightarrow> 0 < compare_positions (ge_me_top ge) r"

definition ge_above :: "guild_env \<Rightarrow> snowflake \<Rightarrow> bool" where
  "ge_above ge rid = (case role_of ge rid of None \<Rightarrow> False | Some r \<Rightarrow> bot_above ge r)"

text \<open>\<open>member.roles.cache.has(roleId)\<close>\<close>

definition ge_has_role :: "guild_env \<Rightarrow> snowflake \<Rightarrow> snowflake \<Rightarrow> bool" where
  "ge_has_role ge i rid \<longleftrightarrow> rid \<in> gr_id ` set (ge_member_roles ge i)"

text \<open>\<open>member.roles.highest\<close>: the first role of the cache that no later one is above.\<close>

definition member_highest :: "guild_env \<Rightarrow> snowflake \<Rightarrow> grole option" where
  "member_highest ge i =
     (case ge_member_roles ge i of
        [] \<Rightarrow> None
      | r # rs \<Rightarrow> Some (fold (\<lambda>r prev. if 0 < compare_positions r prev then r else prev) rs r))"

datatype role_call =
    AddRole snowflake snowflake | RemoveRole snowflake snowflake | UnbanUser snowflake | DMInvite snowflake

datatype role_note =
    NUsage string | NNeedManage | NNeedBan | NBadRole | NNotAbove | NNoFile | NNoIds
  | NRecoverStart nat | NCannotFetch snowflake | NAlready snowflake | NGave snowflake
  | NFailed snowflake | NRecoverDone nat nat nat
  | NInvallStart nat | NUnbanned snowflake | NNotBanned snowflake | NUnbanFailed snowflake
  | NNoDM snowflake | NInvallDone nat nat nat nat nat
  | NNoViewChannel | NSaveStart | NSaveGave snowflake | NSaveFailed snowflake
  | NSaveDone nat nat | NSaveWritten nat | NSaveWriteFailed | NSaveError
  | NCannotFetchMember | NPromoDone snowflake int int nat nat nat | NNothingAbove | NNoRemovable
  | NDemoDone snowflake int int nat nat

section \<open>\<open>+recover\<close>, lines 1496--1583\<close>

record recover_acc =
  ra_given :: nat
  ra_skipped :: nat
  ra_failed :: nat
  ra_calls :: "role_call list"
  ra_notes :: "role_note list"

text \<open>One iteration of \<open>for (const id of uniqueIds)\<close>, lines 1547--1577.\<close>

definition recover_one :: "guild_env \<Rightarrow> snowflake \<Rightarrow> snowflake \<Rightarrow> recover_acc \<Rightarrow> recover_acc" where
  "recover_one ge rid i acc =
     (if \<not> ge_member ge i
      then acc\<lparr>ra_failed := Suc (ra_failed acc), ra_notes := ra_notes acc @ [NCannotFetch i]\<rparr>
      else if ge_has_role ge i rid
      then acc\<lparr>ra_skipped := Suc (ra_skipped acc), ra_notes := ra_notes acc @ [NAlready i]\<rparr>
      else if ge_add_ok ge i rid
      then acc\<lparr>ra_given := Suc (ra_given acc), ra_calls := ra_calls acc @ [AddRole i rid],
               ra_notes := ra_notes acc @ [NGave i]\<rparr>
      else acc\<lparr>ra_failed := Suc (ra_failed acc), ra_calls := ra_calls acc @ [AddRole i rid],
               ra_notes := ra_notes acc @ [NFailed i]\<rparr>)"

definition recover_command ::
  "guild_env \<Rightarrow> fstore \<Rightarrow> string \<Rightarrow> role_call list \<times> role_note list" where
  "recover_command ge fs content =
     (case second_word content of
        None \<Rightarrow> ([], [NUsage ''+recover''])
      | Some arg \<Rightarrow>
          (let rid = role_arg arg in
           if \<not> ge_manage_roles ge then ([], [NNeedManage])
           else if \<not> ge_role ge rid then ([], [NBadRole])
           else if \<not> ge_above ge rid then ([], [NNotAbove])
           else case read_user_ids fs of
             None \<Rightarrow> ([], [NNoFile])
           | Some ids \<Rightarrow>
               (let u = unique_ids ids in
                if u = [] then ([], [NNoIds])
                else
                  (let acc = fold (recover_one ge rid) u
                               \<lparr>ra_given = 0, ra_skipped = 0, ra_failed = 0, ra_calls = [],
                                ra_notes = [NRecoverStart (length u)]\<rparr>
                   in (ra_calls acc,
                       ra_notes acc @ [NRecoverDone (ra_given acc) (ra_skipped acc) (ra_failed acc)])))))"

section \<open>\<open>+invall\<close>, lines 1587--1663\<close>

record invall_acc =
  ia_unbanned :: nat
  ia_not_banned :: nat
  ia_ban_fail :: nat
  ia_dm_sent :: nat
  ia_dm_fail :: nat
  ia_calls :: "role_call list"
  ia_notes :: "role_note list"

text \<open>One iteration, lines 1623--1657: the unban, then the invite DM whatever its result.\<close>

definition invall_one :: "guild_env \<Rightarrow> snowflake \<Rightarrow> invall_acc \<Rightarrow> invall_acc" where
  "invall_one ge i acc =
     (let acc1 =
        (case ge_unban ge i of
           Unbanned \<Rightarrow> acc\<lparr>ia_unbanned := Suc (ia_unbanned acc), ia_notes := ia_notes acc @ [NUnbanned i]\<rparr>
         | NotBanned \<Rightarrow> acc\<lparr>ia_not_banned := Suc (ia_not_banned acc), ia_notes := ia_notes acc @ [NNotBanned i]\<rparr>
         | UnbanError \<Rightarrow> acc\<lparr>ia_ban_fail := Suc (ia_ban_fail acc), ia_notes := ia_notes acc @ [NUnbanFailed i]\<rparr>);
          acc2 = acc1\<lparr>ia_calls := ia_calls acc @ [UnbanUser i, DMInvite i]\<rparr>
      in if ge_dm_ok ge i then acc2\<lparr>ia_dm_sent := Suc (ia_dm_sent acc2)\<rparr>
         else acc2\<lparr>ia_dm_fail := Suc (ia_dm_fail acc2), ia_notes := ia_notes acc2 @ [NNoDM i]\<rparr>)"

definition invall_command :: "guild_env \<Rightarrow> fstore \<Rightarrow> role_call list \<times> role_note list" where
  "invall_command ge fs =
     (if \<not> ge_ban_members ge then ([], [NNeedBan])
      else case read_user_ids fs of
        None \<Rightarrow> ([], [NNoFile])
      | Some ids \<Rightarrow>
          (let u = unique_ids ids in
           if u = [] then ([], [NNoIds])
           else
             (let acc = fold (invall_one ge) u
                          \<lparr>ia_unbanned = 0, ia_not_banned = 0, ia_ban_fail = 0, ia_dm_sent = 0,
                           ia_dm_fail = 0, ia_calls = [], ia_notes = [NInvallStart (length u)]\<rparr>
              in (ia_calls acc,
                  ia_notes acc @ [NInvallDone (ia_unbanned acc) (ia_not_banned acc) (ia_ban_fail acc)
                                    (ia_dm_sent acc) (ia_dm_fail acc)]))))"

section \<open>\<open>+save\<close>, lines 1868--1973\<close>

text \<open>One iteration of \<open>for (const [, member] of candidates)\<close>, lines 1918--1936.\<close>

definition save_one ::
  "guild_env \<Rightarrow> snowflake \<Rightarrow> snowflake \<Rightarrow> nat \<times> role_call list \<times> role_note list \<Rightarrow>
     nat \<times> role_call list \<times> role_note list" where
  "save_one ge target h acc =
     (case acc of (given, calls, notes) \<Rightarrow>
       if ge_has_role ge h target then acc
       else if ge_view_chan ge \<and> \<not> ge_can_view ge h then acc
       else if ge_add_ok ge h target
       then (Suc given, calls @ [AddRole h target], notes @ [NSaveGave h])
       else (given, calls @ [AddRole h target], notes @ [NSaveFailed h]))"

text \<open>
  The de-duplicated write, lines 1942--1964: the holders' ids, then the ids already in the
  file, written one per line with a final newline (also when there is none).
\<close>

definition save_ids :: "guild_env \<Rightarrow> fstore \<Rightarrow> snowflake list" where
  "save_ids ge fs =
     js_set_of (ge_holders ge @ (case read_user_ids fs of None \<Rightarrow> [] | Some ids \<Rightarrow> ids))"

text \<open>Lines 1872--1875: the role named by the argument, else \<open>TARGET_ROLE_ID\<close>.\<close>

definition save_target :: "string \<Rightarrow> snowflake" where
  "save_target content =
     (let parsed = (case second_word content of None \<Rightarrow> [] | Some arg \<Rightarrow> role_arg arg)
      in if parsed = [] then target_role_id else parsed)"

definition save_command ::
  "guild_env \<Rightarrow> fstore \<Rightarrow> string \<Rightarrow> fstore \<times> role_call list \<times> role_note list" where
  "save_command ge fs content =
     (let target = save_target content
      in if \<not> ge_manage_roles ge then (fs, [], [NNeedManage])
         else if \<not> ge_role ge source_role_id \<or> \<not> ge_role ge target then (fs, [], [NBadRole])
         else if \<not> ge_above ge target then (fs, [], [NNotAbove])
         else
           (let pre = (if ge_view_chan ge then [] else [NNoViewChannel]) @ [NSaveStart]
            in if \<not> ge_fetch_all ge then (fs, [], pre @ [NSaveError])
               else
                 (case fold (save_one ge target) (ge_holders ge) (0, [], pre) of
                    (given, calls, notes) \<Rightarrow>
                      (let notes1 = notes @ [NSaveDone given (length (ge_holders ge))];
                           ids = save_ids ge fs
                       in if ge_write_ok ge
                          then (fs(user_ids_file \<mapsto> join_lines ids @ [nl]), calls,
                                notes1 @ [NSaveWritten (length ids)])
                          else (fs, calls, notes1 @ [NSaveWriteFailed])))))"

section \<open>\<open>+promo\<close> and \<open>+demo\<close>, lines 1714--1865\<close>

text \<open>\<open>content.split(/\s+/)[2]\<close>\<close>

definition third_word :: "string \<Rightarrow> string option" where
  "third_word content = (case ws_parts content of _ # _ # a # _ \<Rightarrow> Some a | _ \<Rightarrow> None)"

text \<open>The roles \<open>+promo\<close> offers, lines 1756--1768: in the position band, not
  \<open>@everyone\<close>, not managed, below the bot, by ascending position.\<close>

definition promo_candidates :: "guild_env \<Rightarrow> int \<Rightarrow> int \<Rightarrow> grole list" where
  "promo_candidates ge lower upper =
     sort_key gr_pos (filter (\<lambda>r. lower \<le> gr_pos r \<and> gr_pos r \<le> upper \<and> gr_id r \<noteq> ge_guild_id ge \<and>
                                  \<not> gr_managed r \<and> bot_above ge r) (ge_roles ge))"

text \<open>One iteration of \<open>for (const [, role] of candidateRoles)\<close>, lines 1771--1780.\<close>

definition promo_one ::
  "guild_env \<Rightarrow> snowflake \<Rightarrow> grole \<Rightarrow> nat \<times> nat \<times> nat \<times> role_call list \<Rightarrow> nat \<times> nat \<times> nat \<times> role_call list" where
  "promo_one ge uid r acc =
     (case acc of (given, skipped, failed, calls) \<Rightarrow>
        if ge_has_role ge uid (gr_id r) then (given, Suc skipped, failed, calls)
        else if ge_add_ok ge uid (gr_id r) then (Suc given, skipped, failed, calls @ [AddRole uid (gr_id r)])
        else (given, skipped, Suc failed, calls @ [AddRole uid (gr_id r)]))"

definition promo_command :: "guild_env \<Rightarrow> string \<Rightarrow> role_call list \<times> role_note list" where
  "promo_command ge content =
     (let uid = parse_user_id (second_word content);
          rid = (case third_word content of None \<Rightarrow> [] | Some m \<Rightarrow> role_arg m)
      in case uid of
        None \<Rightarrow> ([], [NUsage ''+promo''])
      | Some u \<Rightarrow>
          if rid = [] then ([], [NUsage ''+promo''])
          else if \<not> ge_manage_roles ge then ([], [NNeedManage])
          else if \<not> ge_member ge u then ([], [NCannotFetchMember])
          else case (role_of ge source_role_id, role_of ge rid) of
            (Some src, Some tgt) \<Rightarrow>
              if \<not> bot_above ge tgt then ([], [NNotAbove])
              else
                (let lower = min (gr_pos src) (gr_pos tgt); upper = max (gr_pos src) (gr_pos tgt);
                     (given, skipped, failed, calls) =
                       fold (promo_one ge u) (promo_candidates ge lower upper) (0, 0, 0, [])
                 in (calls, [NPromoDone u lower upper given skipped failed]))
          | _ \<Rightarrow> ([], [NBadRole]))"

text \<open>The roles \<open>+demo\<close> removes, lines 1822--1838: the member's roles strictly above
  the source role and up to its highest, not the source role, not \<open>@everyone\<close>, not
  managed, below the bot, from the top down.\<close>

definition demo_removable :: "guild_env \<Rightarrow> snowflake \<Rightarrow> grole \<Rightarrow> grole \<Rightarrow> grole list" where
  "demo_removable ge uid src highest =
     sort_key (\<lambda>r. - gr_pos r)
       (filter (\<lambda>r. gr_pos src < gr_pos r \<and> gr_pos r \<le> gr_pos highest \<and> gr_id r \<noteq> source_role_id \<and>
                    gr_id r \<noteq> ge_guild_id ge \<and> \<not> gr_managed r \<and> bot_above ge r) (ge_member_roles ge uid))"

definition demo_one :: "guild_env \<Rightarrow> snowflake \<Rightarrow> grole \<Rightarrow> nat \<times> nat \<times> role_call list \<Rightarrow> nat \<times> nat \<times> role_call list" where
  "demo_one ge uid r acc =
     (case acc of (removed, failed, calls) \<Rightarrow>
        if ge_remove_ok ge uid (gr_id r) then (Suc removed, failed, calls @ [RemoveRole uid (gr_id r)])
        else (removed, Suc failed, calls @ [RemoveRole uid (gr_id r)]))"

definition demo_command :: "guild_env \<Rightarrow> string \<Rightarrow> role_call list \<times> role_note list" where
  "demo_command ge content =
     (case parse_user_id (second_word content) of
        None \<Rightarrow> ([], [NUsage ''+demo''])
      | Some u \<Rightarrow>
          if \<not> ge_manage_roles ge then ([], [NNeedManage])
          else if \<not> ge_member ge u then ([], [NCannotFetchMember])
          else case role_of ge source_role_id of
            None \<Rightarrow> ([], [NBadRole])
          | Some src \<Rightarrow>
              (case member_highest ge u of
                 None \<Rightarrow> ([], [NNothingAbove])
               | Some hi \<Rightarrow>
                   if gr_pos hi \<le> gr_pos src then ([], [NNothingAbove])
                   else
                     (let rs = demo_removable ge u src hi
                      in if rs = [] then ([], [NNoRemovable])
                         else
                           (let (removed, failed, calls) = fold (demo_one ge u) rs (0, 0, [])
                            in (calls, [NDemoDone u (gr_pos src + 1) (gr_pos hi) removed failed])))))"

text \<open>Dispatch, by the prefix of the lower-cased content (lines 1496, 1587, 1714, 1792, 1868).\<close>

definition role_command ::
  "guild_env \<Rightarrow> fstore \<Rightarrow> string \<Rightarrow> (fstore \<times> role_call list \<times> role_note list) option" where
  "role_command ge fs content =
     (let lower = js_lower content in
      if starts_with lower ''+recover'' then Some (case recover_command ge fs content of (c, n) \<Rightarrow> (fs, c, n))
      else if starts_with lower ''+invall'' then Some (case invall_command ge fs of (c, n) \<Rightarrow> (fs, c, n))
      else if starts_with lower ''+promo'' then Some (case promo_command ge content of (c, n) \<Rightarrow> (fs, c, n))
      else if starts_with lower ''+demo'' then Some (case demo_command ge content of (c, n) \<Rightarrow> (fs, c, n))
      else if starts_with lower ''+save'' then Some (save_command ge fs content)
      else None)"

text \<open>A guild on which the witnesses run the commands: every call succeeds, nobody holds
  the role being given, and \<open>333333\<close> holds the source role.\<close>

abbreviation demo_ge :: guild_env where
  "demo_ge \<equiv> \<lparr>ge_manage_roles = True, ge_ban_members = True, ge_guild_id = ''500000'',
     ge_roles = [\<lparr>gr_id = ''700000'', gr_pos = 3, gr_managed = False\<rparr>,
                 \<lparr>gr_id = source_role_id, gr_pos = 2, gr_managed = False\<rparr>,
                 \<lparr>gr_id = target_role_id, gr_pos = 4, gr_managed = False\<rparr>],
     ge_me_top = \<lparr>gr_id = ''990000'', gr_pos = 10, gr_managed = False\<rparr>,
     ge_member = (\<lambda>_. True), ge_member_roles = (\<lambda>_. []), ge_add_ok = (\<lambda>_ _. True),
     ge_remove_ok = (\<lambda>_ _. True), ge_unban = (\<lambda>_. Unbanned), ge_dm_ok = (\<lambda>_. True), ge_fetch_all = True,
     ge_holders = [''333333''], ge_view_chan = True, ge_can_view = (\<lambda>_. True), ge_write_ok = True\<rparr>"

lemmas role_eval = ge_role_def ge_above_def role_of_def bot_above_def compare_positions_def ge_has_role_def
  second_word_def ws_parts_def split_on_def js_ws_def role_arg_def read_user_ids_def
  user_ids_file_def split_lines_def drop_cr_def js_trim_def nl_def cr_def unique_ids_def valid_id_def
  is_digit_def js_set_of_def js_set_add_def

section \<open>Lemmas\<close>

lemma recover_fold_given:
  "ra_given (fold (recover_one ge rid) u acc) =
     ra_given acc + length (filter (\<lambda>i. ge_member ge i \<and> \<not> ge_has_role ge i rid \<and> ge_add_ok ge i rid) u)"
  by (induction u arbitrary: acc) (simp_all add: recover_one_def)

lemma recover_fold_skipped:
  "ra_skipped (fold (recover_one ge rid) u acc) =
     ra_skipped acc + length (filter (\<lambda>i. ge_member ge i \<and> ge_has_role ge i rid) u)"
  by (induction u arbitrary: acc) (simp_all add: recover_one_def)

lemma recover_fold_failed:
  "ra_failed (fold (recover_one ge rid) u acc) =
     ra_failed acc + length (filter (\<lambda>i. \<not> ge_member ge i \<or> (\<not> ge_has_role ge i rid \<and> \<not> ge_add_ok ge i rid)) u)"
  by (induction u arbitrary: acc) (simp_all add: recover_one_def)

lemma recover_fold_calls:
  "ra_calls (fold (recover_one ge rid) u acc) =
     ra_calls acc @ map (\<lambda>i. AddRole i rid) (filter (\<lambda>i. ge_member ge i \<and> \<not> ge_has_role ge i rid) u)"
  by (induction u arbitrary: acc) (simp_all add: recover_one_def)

lemmas recover_fold = recover_fold_given recover_fold_skipped recover_fold_failed recover_fold_calls

lemma length_filter_three:
  "length (filter (\<lambda>i. P i \<and> \<not> Q i \<and> R i) u) + length (filter (\<lambda>i. P i \<and> Q i) u) +
   length (filter (\<lambda>i. \<not> P i \<or> (\<not> Q i \<and> \<not> R i)) u) = length u"
  by (induction u) auto

lemma read_user_ids_clean: "read_user_ids fs = Some ids \<Longrightarrow> x \<in> set ids \<Longrightarrow> clean_id x"
  by (auto simp: read_user_ids_def split_lines_no_nl clean_js_trim split: option.splits)

lemma read_user_ids_written:
  assumes "\<forall>x \<in> set xs. clean_id x"
  shows "read_user_ids (fs(user_ids_file \<mapsto> join_lines xs @ [nl])) = Some xs"
proof (cases "xs = []")
  case True
  then show ?thesis by (simp add: read_user_ids_def split_lines_def drop_cr_def js_trim_def)
next
  case False
  have "map js_trim xs = xs" using assms by (induction xs) (auto simp: clean_trim_id)
  moreover have "filter (\<lambda>s. s \<noteq> []) xs = xs"
    using assms by (auto simp: clean_id_def filter_id_conv)
  moreover have "join_lines xs @ [nl] = concat (map (\<lambda>x. x @ [nl]) xs)"
    using write_set_content [of xs] False by simp
  ultimately show ?thesis using assms
    by (simp add: read_user_ids_def split_lines_def split_lines_encoded js_trim_def)
qed

lemma save_ids_clean:
  assumes "\<forall>h \<in> set (ge_holders ge). valid_id h"
  shows "\<forall>x \<in> set (save_ids ge fs). clean_id x"
  using assms by (auto simp: save_ids_def valid_id_clean split: option.splits dest: read_user_ids_clean [OF sym])

lemma save_command_store:
  assumes "ge_manage_roles ge" and "ge_role ge source_role_id" and "ge_role ge (save_target content)"
    and "ge_above ge (save_target content)" and "ge_fetch_all ge" and "ge_write_ok ge"
  shows "fst (save_command ge fs content) = fs(user_ids_file \<mapsto> join_lines (save_ids ge fs) @ [nl])"
  using assms by (simp add: save_command_def Let_def split: prod.split)

lemma promo_fold_calls:
  "set (snd (snd (snd (fold (promo_one ge u) rs acc)))) \<subseteq>
     set (snd (snd (snd acc))) \<union> (\<lambda>r. AddRole u (gr_id r)) ` set rs"
  by (induction rs arbitrary: acc) (fastforce simp: promo_one_def split: prod.splits if_splits)+

lemma demo_fold_calls:
  "set (snd (snd (fold (demo_one ge u) rs acc))) \<subseteq> set (snd (snd acc)) \<union> (\<lambda>r. RemoveRole u (gr_id r)) ` set rs"
  by (induction rs arbitrary: acc) (fastforce simp: demo_one_def split: prod.splits if_splits)+

lemma fst_case_prod4 [simp]: "fst (case p of (a, b, c, d) \<Rightarrow> (d, f a b c)) = snd (snd (snd p))"
  by (cases p) auto

lemma fst_case_prod3 [simp]: "fst (case p of (a, b, d) \<Rightarrow> (d, f a b)) = snd (snd p)"
  by (cases p) auto

lemma promo_command_calls:
  assumes "c \<in> set (fst (promo_command ge content))"
  shows "\<exists>u l h. c \<in> set (snd (snd (snd (fold (promo_one ge u) (promo_candidates ge l h) (0, 0, 0, [])))))"
  using assms unfolding promo_command_def Let_def
  by (auto split: option.splits if_splits)

lemma demo_command_calls:
  assumes "c \<in> set (fst (demo_command ge content))"
  shows "\<exists>u src hi. c \<in> set (snd (snd (fold (demo_one ge u) (demo_removable ge u src hi) (0, 0, []))))"
  using assms unfolding demo_command_def Let_def
  by (auto split: option.splits if_splits)

section \<open>What the commands do\<close>



text \<open>
  C32. \<open>+save\<close> then \<open>+recover\<close> or \<open>+invall\<close>: after a \<open>+save\<close> that reaches its
  write, \<open>user_ids.txt\<close> reads back as the source-role holders followed by the ids it
  held before, without duplicates, and the next \<open>+recover\<close> or \<open>+invall\<close> works on
  exactly the valid ones among them.
\<close>

theorem save_recover_roundtrip:
  assumes "ge_manage_roles ge" and "ge_role ge source_role_id" and "ge_role ge (save_target content)"
    and "ge_above ge (save_target content)" and "ge_fetch_all ge" and "ge_write_ok ge"
    and "\<forall>h \<in> set (ge_holders ge). valid_id h"
  shows "read_user_ids (fst (save_command ge fs content)) =
           Some (js_set_of (ge_holders ge @ (case read_user_ids fs of None \<Rightarrow> [] | Some ids \<Rightarrow> ids))) \<and>
         unique_ids (the (read_user_ids (fst (save_command ge fs content)))) =
           filter valid_id (js_set_of (ge_holders ge @ (case read_user_ids fs of None \<Rightarrow> [] | Some ids \<Rightarrow> ids)))"
proof -
  have r: "read_user_ids (fst (save_command ge fs content)) = Some (save_ids ge fs)"
    unfolding save_command_store [OF assms(1-6)]
    by (rule read_user_ids_written [OF save_ids_clean [OF assms(7)]])
  have "distinct (save_ids ge fs)" by (simp add: save_ids_def)
  then show ?thesis using r by (simp add: unique_ids_def js_set_of_distinct save_ids_def)
qed

lemma save_recover_roundtrip_witness:
  "read_user_ids (fst (save_command demo_ge [user_ids_file \<mapsto> ''123456'' @ [nl]] ''+save'')) =
     Some [''333333'', ''123456''] \<and>
   unique_ids (the (read_user_ids (fst (save_command demo_ge [user_ids_file \<mapsto> ''123456'' @ [nl]] ''+save'')))) =
     [''333333'', ''123456'']"
proof -
  have h: "\<forall>h \<in> set (ge_holders demo_ge). valid_id h" by (simp add: valid_id_def is_digit_def)
  have r: "read_user_ids [user_ids_file \<mapsto> ''123456'' @ [nl]] = Some [''123456'']" by (simp add: role_eval)
  have t: "save_target ''+save'' = target_role_id"
    by (simp add: save_target_def second_word_def ws_parts_def split_on_def js_ws_def)
  have g: "ge_role demo_ge source_role_id" "ge_role demo_ge (save_target ''+save'')"
    "ge_above demo_ge (save_target ''+save'')"
    unfolding t by (simp_all add: role_eval source_role_id_def target_role_id_def)
  show ?thesis
    using save_recover_roundtrip [of demo_ge "''+save''" "[user_ids_file \<mapsto> ''123456'' @ [nl]]"] h r g
    by (simp add: role_eval)
qed

text \<open>
  C31. \<open>+promo\<close> and \<open>+demo\<close> respect the role hierarchy: every role \<open>+promo\<close> asks
  to add is a role of the guild and every role \<open>+demo\<close> asks to remove is one of the
  member's, and each is below the bot's highest role (by discord.js position order),
  not managed by an integration and not \<open>@everyone\<close>; \<open>+demo\<close> never removes the
  source role.
\<close>

theorem role_commands_respect_hierarchy:
  "(AddRole u rid \<in> set (fst (promo_command ge content)) \<longrightarrow>
      (\<exists>r \<in> set (ge_roles ge). gr_id r = rid \<and> bot_above ge r \<and> \<not> gr_managed r \<and> rid \<noteq> ge_guild_id ge)) \<and>
   (RemoveRole u rid \<in> set (fst (demo_command ge content)) \<longrightarrow>
      (\<exists>r \<in> set (ge_member_roles ge u). gr_id r = rid \<and> bot_above ge r \<and> \<not> gr_managed r \<and>
         rid \<noteq> ge_guild_id ge \<and> rid \<noteq> source_role_id))"
proof (intro conjI impI)
  assume "AddRole u rid \<in> set (fst (promo_command ge content))"
  then obtain v l h where "AddRole u rid \<in> set (snd (snd (snd (fold (promo_one ge v) (promo_candidates ge l h) (0, 0, 0, [])))))"
    using promo_command_calls by blast
  then obtain r where "r \<in> set (promo_candidates ge l h)" and "AddRole u rid = AddRole v (gr_id r)"
    using promo_fold_calls [of ge v "promo_candidates ge l h" "(0, 0, 0, [])"] by auto
  then show "\<exists>r \<in> set (ge_roles ge). gr_id r = rid \<and> bot_above ge r \<and> \<not> gr_managed r \<and> rid \<noteq> ge_guild_id ge"
    by (auto simp: promo_candidates_def)
next
  assume "RemoveRole u rid \<in> set (fst (demo_command ge content))"
  then obtain v src hi where "RemoveRole u rid \<in> set (snd (snd (fold (demo_one ge v) (demo_removable ge v src hi) (0, 0, []))))"
    using demo_command_calls by blast
  then obtain r where "r \<in> set (demo_removable ge v src hi)" and "RemoveRole u rid = RemoveRole v (gr_id r)"
    using demo_fold_calls [of ge v "demo_removable ge v src hi" "(0, 0, [])"] by auto
  then show "\<exists>r \<in> set (ge_member_roles ge u). gr_id r = rid \<and> bot_above ge r \<and> \<not> gr_managed r \<and>
      rid \<noteq> ge_guild_id ge \<and> rid \<noteq> source_role_id"
    by (auto simp: demo_removable_def)
qed

lemma role_commands_respect_hierarchy_witness:
  "AddRole ''333333'' ''700000'' \<in> set (fst (promo_command demo_ge ''+promo <@333333> <@&700000>'')) \<and>
   (\<exists>r \<in> set (ge_roles demo_ge). gr_id r = ''700000'' \<and> bot_above demo_ge r \<and> \<not> gr_managed r \<and>
      ''700000'' \<noteq> ge_guild_id demo_ge)"
proof -
  have a: "AddRole ''333333'' ''700000'' \<in> set (fst (promo_command demo_ge ''+promo <@333333> <@&700000>''))"
    by (simp add: promo_command_def third_word_def parse_user_id_def promo_candidates_def promo_one_def
        source_role_id_def target_role_id_def snowflake_value_def role_eval)
  show ?thesis using role_commands_respect_hierarchy [of "''333333''" "''700000''" demo_ge] a by blast
qed

end
