(* ===== verification/Profit.thy ===== *)
theory Profit
  imports RoleCommands
begin

text \<open>
  The profit ledger of the middleman listener (\<open>src/index.js\<close> lines 779--830 and
  1044--1130). \<open>readProfitDB\<close> reads \<open>profit.txt\<close> (an empty object when it cannot);
  every command reads it afresh, changes the entry of one user and writes the whole object
  back with \<open>writeProfitDB\<close>. The ledger is modelled as the object the file holds
  (\<open>JSON.stringify\<close> then \<open>JSON.parse\<close> is taken as the identity on it). A JS
  \<open>Number\<close> is a type variable with the operations the code applies to it, so the
  lemmas hold for IEEE doubles as well as for any exact instance: \<open>+addprofit\<close> is the
  only command that computes.
\<close>

text \<open>The \<open>Number\<close> operations: \<open>0\<close>, \<open>+\<close>, truthiness (\<open>x || 0\<close>), \<open>Number(string)\<close>
  and \<open>Number.isFinite\<close>.\<close>

record 'n jsnum =
  jn_zero :: 'n
  jn_add :: "'n \<Rightarrow> 'n \<Rightarrow> 'n"
  jn_truthy :: "'n \<Rightarrow> bool"
  jn_of_string :: "string \<Rightarrow> 'n"
  jn_finite :: "'n \<Rightarrow> bool"

text \<open>A log line \<open>{ ts: nowStamp(), msg }\<close>; the message is kept as what it reports.\<close>

datatype 'n plog_msg = LProfitSet 'n | LTotalSet 'n | LProfileReset

record 'n profit =
  pr_current :: 'n
  pr_total :: 'n
  pr_logs :: "(string \<times> 'n plog_msg) list"

type_synonym 'n profit_db = "snowflake \<rightharpoonup> 'n profit"

text \<open>\<open>x || 0\<close> on a number.\<close>

definition or_zero :: "'n jsnum \<Rightarrow> 'n \<Rightarrow> 'n" where
  "or_zero N x = (if jn_truthy N x then x else jn_zero N)"

text \<open>\<open>parseMoney(s) = Number(String(s || '0').replace(/[$,]/g, ''))\<close>, line 1046.\<close>

definition parse_money :: "'n jsnum \<Rightarrow> string option \<Rightarrow> 'n" where
  "parse_money N s =
     jn_of_string N (filter (\<lambda>c. c \<noteq> CHR ''$'' \<and> c \<noteq> CHR '','')
                      (case s of None \<Rightarrow> ''0'' | Some t \<Rightarrow> if t = [] then ''0'' else t))"

text \<open>\<open>if (!db[uid]) db[uid] = { current: 0, total: 0, logs: [] }\<close>\<close>

definition get_or_init :: "'n jsnum \<Rightarrow> 'n profit_db \<Rightarrow> snowflake \<Rightarrow> 'n profit" where
  "get_or_init N db u =
     (case db u of None \<Rightarrow> \<lparr>pr_current = jn_zero N, pr_total = jn_zero N, pr_logs = []\<rparr> | Some p \<Rightarrow> p)"

text \<open>
  The entry update of \<open>+tprofit\<close>, lines 1060--1071: the old code sets the profit
  and logs it, then the ``non-destructive'' addition sets the total instead, puts the
  previous profit back and logs again. \<open>t1\<close> and \<open>t2\<close> are the two \<open>nowStamp()\<close>.
\<close>

definition tprofit_update :: "'n jsnum \<Rightarrow> string \<Rightarrow> string \<Rightarrow> 'n \<Rightarrow> 'n profit \<Rightarrow> 'n profit" where
  "tprofit_update N t1 t2 amt p =
     (let prev = or_zero N (pr_current p);
          p1 = p\<lparr>pr_current := amt, pr_logs := pr_logs p @ [(t1, LProfitSet amt)]\<rparr>
      in p1\<lparr>pr_total := amt, pr_current := prev, pr_logs := pr_logs p1 @ [(t2, LTotalSet amt)]\<rparr>)"

text \<open>The entry update of \<open>+addprofit\<close>, lines 1092--1093.\<close>

definition addprofit_update :: "'n jsnum \<Rightarrow> string \<Rightarrow> 'n \<Rightarrow> 'n profit \<Rightarrow> 'n profit" where
  "addprofit_update N t delta p =
     (let c = jn_add N (or_zero N (pr_current p)) delta
      in p\<lparr>pr_current := c, pr_logs := pr_logs p @ [(t, LProfitSet c)]\<rparr>)"

text \<open>The entry \<open>+reset\<close> writes, line 1126.\<close>

definition reset_profile :: "'n jsnum \<Rightarrow> string \<Rightarrow> 'n profit" where
  "reset_profile N t = \<lparr>pr_current = jn_zero N, pr_total = jn_zero N, pr_logs = [(t, LProfileReset)]\<rparr>"

datatype 'n profit_reply = PRUsage string | PRReport snowflake "'n profit" | PRReset snowflake

text \<open>
  The four profit commands in the order the listener tries them (lines 1048--1130).
  \<open>helper\<close> is \<open>hasRole(member, HELPER_ROLE_ID)\<close>, \<open>staff\<close> is
  \<open>hasRole(member, MM_STAFF_ROLE)\<close>, \<open>write_ok\<close> whether \<open>writeProfitDB\<close> succeeds
  (when it throws the handler ends without a reply and the file keeps the old ledger).
  \<open>None\<close>: the message is not a profit command the author may run, and the listener
  goes on to the next branch.
\<close>

definition profit_command ::
  "'n jsnum \<Rightarrow> string \<Rightarrow> string \<Rightarrow> bool \<Rightarrow> bool \<Rightarrow> bool \<Rightarrow> string \<Rightarrow> 'n profit_db
     \<Rightarrow> ('n profit_db \<times> 'n profit_reply option) option" where
  "profit_command N t1 t2 helper staff write_ok content db =
     (let lower = js_lower (js_trim content);
          uid = parse_user_id (second_word content);
          amt = parse_money N (third_word content);
          commit = (\<lambda>u p. if write_ok then (db(u \<mapsto> p), Some (PRReport u p)) else (db, None))
      in if helper \<and> starts_with lower ''+tprofit'' then Some
           (case uid of
              None \<Rightarrow> (db, Some (PRUsage ''+tprofit''))
            | Some u \<Rightarrow> if \<not> jn_finite N amt then (db, Some (PRUsage ''+tprofit''))
                        else commit u (tprofit_update N t1 t2 amt (get_or_init N db u)))
         else if helper \<and> starts_with lower ''+addprofit'' then Some
           (case uid of
              None \<Rightarrow> (db, Some (PRUsage ''+addprofit''))
            | Some u \<Rightarrow> if \<not> jn_finite N amt then (db, Some (PRUsage ''+addprofit''))
                        else commit u (addprofit_update N t1 amt (get_or_init N db u)))
         else if (helper \<or> staff) \<and> starts_with lower ''+search'' then Some
           (case uid of
              None \<Rightarrow> (db, Some (PRUsage ''+search''))
            | Some u \<Rightarrow> (db, Some (PRReport u (get_or_init N db u))))
         else if helper \<and> starts_with lower ''+reset'' then Some
           (case uid of
              None \<Rightarrow> (db, Some (PRUsage ''+reset''))
            | Some u \<Rightarrow> if write_ok then (db(u \<mapsto> reset_profile N t1), Some (PRReset u)) else (db, None))
         else None)"

text \<open>An exact instance for the examples: integer amounts written in decimal digits.\<close>

definition int_jsnum :: "int jsnum" where
  "int_jsnum = \<lparr>jn_zero = 0, jn_add = (+), jn_truthy = (\<lambda>x. x \<noteq> 0),
                jn_of_string = snowflake_value, jn_finite = (\<lambda>_. True)\<rparr>"

section \<open>Lemmas\<close>

lemmas profit_eval = role_eval third_word_def parse_user_id_def js_lower_def js_lower_char_def starts_with_def
  parse_money_def snowflake_value_def int_jsnum_def get_or_init_def or_zero_def

lemma profit_command_nonhelper:
  "profit_command N t1 t2 False staff w content db = Some (db', r) \<Longrightarrow> db' = db"
  by (auto simp: profit_command_def Let_def split: if_splits option.splits)

lemma profit_command_changes:
  "profit_command N t t' helper staff w content db = Some (db', r) \<Longrightarrow> db' v \<noteq> db v \<Longrightarrow>
     parse_user_id (second_word content) = Some v"
  by (auto simp: profit_command_def Let_def split: if_splits option.splits)

text \<open>
  C20. Only a holder of the helper role changes the profit ledger (staff may only run
  \<open>+search\<close>, and the profit controller's id grants nothing), and every profit command
  changes at most one user's entry.
\<close>

theorem ledger_changes_need_helper:
  assumes "profit_command N t1 t2 helper staff w content db = Some (db', r)"
  shows "(\<not> helper \<longrightarrow> db' = db) \<and> (\<exists>u. \<forall>v. v \<noteq> u \<longrightarrow> db' v = db v)"
  using assms by (auto simp: profit_command_def Let_def split: if_splits option.splits)

lemma ledger_changes_need_helper_witness:
  "profit_command int_jsnum ''t'' ''t'' False True True ''+search <@123456>'' Map.empty =
     Some (Map.empty, Some (PRReport ''123456'' \<lparr>pr_current = 0, pr_total = 0, pr_logs = []\<rparr>))"
proof -
  have e: "profit_command int_jsnum ''t'' ''t'' False True True ''+search <@123456>'' Map.empty =
     Some (Map.empty, Some (PRReport ''123456'' \<lparr>pr_current = 0, pr_total = 0, pr_logs = []\<rparr>))"
    by (simp add: profit_command_def profit_eval)
  show ?thesis using ledger_changes_need_helper [OF e] e by simp
qed

text \<open>
  C21. \<open>+tprofit @user amount\<close> by a helper with a finite amount sets the user's
  \<open>total\<close> to the amount and keeps the previous \<open>current\<close> (read as \<open>current || 0\<close>),
  yet appends two log lines, the first saying the profit was set to the amount.
\<close>

theorem tprofit_sets_total:
  assumes "helper" and "starts_with (js_lower (js_trim content)) ''+tprofit''"
    and "parse_user_id (second_word content) = Some u"
    and "amt = parse_money N (third_word content)" and "jn_finite N amt"
  shows "\<exists>p. profit_command N t t' helper staff True content db = Some (db(u \<mapsto> p), Some (PRReport u p)) \<and>
           pr_total p = amt \<and> pr_current p = or_zero N (pr_current (get_or_init N db u)) \<and>
           pr_logs p = pr_logs (get_or_init N db u) @ [(t, LProfitSet amt), (t', LTotalSet amt)]"
  using assms by (simp add: profit_command_def tprofit_update_def Let_def)

lemma tprofit_sets_total_witness:
  "profit_command int_jsnum ''t1'' ''t2'' True False True ''+tprofit <@123456> $1,200''
     [''123456'' \<mapsto> \<lparr>pr_current = 7, pr_total = 0, pr_logs = []\<rparr>] =
   Some ([''123456'' \<mapsto> \<lparr>pr_current = 7, pr_total = 1200,
                         pr_logs = [(''t1'', LProfitSet 1200), (''t2'', LTotalSet 1200)]\<rparr>],
         Some (PRReport ''123456'' \<lparr>pr_current = 7, pr_total = 1200,
                         pr_logs = [(''t1'', LProfitSet 1200), (''t2'', LTotalSet 1200)]\<rparr>))"
proof -
  have w: "parse_money int_jsnum (third_word ''+tprofit <@123456> $1,200'') = 1200"
    by (simp add: profit_eval)
  have u: "parse_user_id (second_word ''+tprofit <@123456> $1,200'') = Some ''123456''"
    by (simp add: profit_eval)
  have s: "starts_with (js_lower (js_trim ''+tprofit <@123456> $1,200'')) ''+tprofit''"
    by (simp add: profit_eval)
  obtain p where p: "profit_command int_jsnum ''t1'' ''t2'' True False True ''+tprofit <@123456> $1,200''
     [''123456'' \<mapsto> \<lparr>pr_current = 7, pr_total = 0, pr_logs = []\<rparr>] =
       Some ([''123456'' \<mapsto> \<lparr>pr_current = 7, pr_total = 0, pr_logs = []\<rparr>](''123456'' \<mapsto> p), Some (PRReport ''123456'' p))"
    and "pr_total p = 1200" and "pr_current p = 7"
    and "pr_logs p = [(''t1'', LProfitSet 1200), (''t2'', LTotalSet 1200)]"
    using tprofit_sets_total [where t = "''t1''" and t' = "''t2''" and staff = False
        and db = "[''123456'' \<mapsto> \<lparr>pr_current = 7, pr_total = 0, pr_logs = []\<rparr>]", OF TrueI s u w [symmetric]]
    by (auto simp: int_jsnum_def get_or_init_def or_zero_def)
  then have "p = \<lparr>pr_current = 7, pr_total = 1200, pr_logs = [(''t1'', LProfitSet 1200), (''t2'', LTotalSet 1200)]\<rparr>"
    by simp
  with p show ?thesis by simp
qed

end
