(* ===== verification/Tickets.thy ===== *)
theory Tickets
  imports Commands
begin

text \<open>
  The middleman ticket system (\<open>src/index.js\<close> lines 934--1042 and 1212--1336): a
  modal submission creates a private text channel and records its id in
  \<open>tickets.txt\<close>; in a recorded ticket channel, helpers claim it (the claimer gets
  access, the staff role loses it), unclaim it, transfer it to a user, or close it (the
  channel is deleted three seconds later). The state is the file store and the guild's
  ticket channels with their permission overwrites; a close leaves a pending deletion
  that a timer step carries out. Each \<open>permissionOverwrites.edit\<close> is awaited in turn
  and may throw, which ends the handler with the earlier edits in place.
\<close>

text \<open>\<open>MM_ALLOWED_ROLE\<close> and \<open>MM_STAFF_ROLE\<close>, lines 768--769: the same role.\<close>

definition mm_allowed_role :: snowflake where
  "mm_allowed_role = ''1433264703345393786''"

definition mm_staff_role :: snowflake where
  "mm_staff_role = ''1433264703345393786''"

text \<open>An overwrite as the code writes them: allow View, Send and Read History, or deny
  View and Send.\<close>

datatype ow = OwAllow | OwDeny

type_synonym overwrites = "snowflake \<rightharpoonup> ow"

record tstate =
  t_store :: fstore
  t_chans :: "snowflake \<rightharpoonup> overwrites"
  t_pending :: "snowflake list"

text \<open>
  The platform's answers: the guild id (the id of \<open>@everyone\<close>), the id a created
  channel gets and whether creating it succeeds, and which overwrite edits succeed.
\<close>

record tenv =
  te_guild :: snowflake
  te_new_chan :: snowflake
  te_create_ok :: bool
  te_edit_ok :: "snowflake \<Rightarrow> snowflake \<Rightarrow> bool"

datatype ticket_reply =
    TCreated snowflake | TCreateFailed | TNotText | TNotTicket | TNoPermission
  | TClaimed snowflake | TClaimFailed | TUnclaimed | TUnclaimFailed | TTransferUsage
  | TTransferred snowflake | TTransferFailed | TClosing

text \<open>Awaited \<open>ch.permissionOverwrites.edit(id, ...)\<close> calls in order; \<open>False\<close> when one
  throws, with the earlier edits kept.\<close>

fun apply_edits :: "tenv \<Rightarrow> snowflake \<Rightarrow> (snowflake \<times> ow) list \<Rightarrow> overwrites \<Rightarrow> overwrites \<times> bool" where
  "apply_edits te c [] o' = (o', True)"
| "apply_edits te c ((i, w) # es) o' =
     (if te_edit_ok te c i then apply_edits te c es (o'(i \<mapsto> w)) else (o', False))"

definition edit_channel ::
  "tenv \<Rightarrow> snowflake \<Rightarrow> (snowflake \<times> ow) list \<Rightarrow> tstate \<Rightarrow> tstate \<times> bool" where
  "edit_channel te c es st =
     (case t_chans st c of
        None \<Rightarrow> (st, False)
      | Some o' \<Rightarrow> (case apply_edits te c es o' of (o'', succ) \<Rightarrow> (st\<lparr>t_chans := (t_chans st)(c \<mapsto> o'')\<rparr>, succ)))"

text \<open>\<open>const otherId = parseUserId(otherRaw) || otherRaw.replace(/\D/g, '')\<close>\<close>

definition other_id :: "string \<Rightarrow> string" where
  "other_id raw = (case parse_user_id (Some raw) of Some i \<Rightarrow> i | None \<Rightarrow> filter is_digit raw)"

text \<open>The overwrites a new ticket channel is created with, lines 1269--1277.\<close>

definition ticket_overwrites :: "snowflake \<Rightarrow> snowflake \<Rightarrow> string \<Rightarrow> overwrites" where
  "ticket_overwrites g requester other =
     (let base = [g \<mapsto> OwDeny, requester \<mapsto> OwAllow, mm_allowed_role \<mapsto> OwAllow, mm_staff_role \<mapsto> OwAllow]
      in if valid_id other then base(other \<mapsto> OwAllow) else base)"

text \<open>The modal submission, lines 1259--1336.\<close>

definition create_ticket :: "tenv \<Rightarrow> snowflake \<Rightarrow> string \<Rightarrow> tstate \<Rightarrow> tstate \<times> ticket_reply" where
  "create_ticket te requester other_raw st =
     (if \<not> te_create_ok te then (st, TCreateFailed)
      else
        (let c = te_new_chan te;
             ow = ticket_overwrites (te_guild te) requester (other_id other_raw)
         in (st\<lparr>t_chans := (t_chans st)(c \<mapsto> ow), t_store := add_ticket_channel_id (t_store st) c\<rparr>,
             TCreated c)))"

text \<open>The edits of a claim by \<open>u\<close>, lines 954--962 and 1230--1236.\<close>

definition claim_edits :: "snowflake \<Rightarrow> (snowflake \<times> ow) list" where
  "claim_edits u = [(u, OwAllow), (mm_allowed_role, OwDeny), (mm_staff_role, OwDeny)]"

definition unclaim_edits :: "(snowflake \<times> ow) list" where
  "unclaim_edits = [(mm_allowed_role, OwAllow), (mm_staff_role, OwAllow)]"

text \<open>
  A ticket command in channel \<open>c\<close> (lines 945--1042): \<open>+claim\<close>, \<open>+unclaim\<close>,
  \<open>+transfer @user\<close>, \<open>+close\<close>, once the listener has checked the MM role.
  \<open>is_text\<close> is \<open>channel.type === GuildText\<close>.
\<close>

datatype ticket_cmd = TkClaim | TkUnclaim | TkTransfer "string option" | TkClose

definition ticket_command ::
  "tenv \<Rightarrow> snowflake \<Rightarrow> snowflake \<Rightarrow> bool \<Rightarrow> ticket_cmd \<Rightarrow> tstate \<Rightarrow> tstate \<times> ticket_reply" where
  "ticket_command te author c is_text cmd st =
     (case cmd of
        TkTransfer arg \<Rightarrow>
          (case parse_user_id arg of
             None \<Rightarrow> (st, TTransferUsage)
           | Some u \<Rightarrow>
               if \<not> is_text then (st, TNotText)
               else if \<not> is_ticket_channel_id (t_store st) c then (st, TNotTicket)
               else (case edit_channel te c [(u, OwAllow)] st of
                       (st', True) \<Rightarrow> (st', TTransferred u)
                     | (st', False) \<Rightarrow> (st', TTransferFailed)))
      | _ \<Rightarrow>
          if \<not> is_text then (st, TNotText)
          else if \<not> is_ticket_channel_id (t_store st) c then (st, TNotTicket)
          else (case cmd of
                  TkClaim \<Rightarrow>
                    (case edit_channel te c (claim_edits author) st of
                       (st', True) \<Rightarrow> (st', TClaimed author)
                     | (st', False) \<Rightarrow> (st', TClaimFailed))
                | TkUnclaim \<Rightarrow>
                    (case edit_channel te c unclaim_edits st of
                       (st', True) \<Rightarrow> (st', TUnclaimed)
                     | (st', False) \<Rightarrow> (st', TUnclaimFailed))
                | _ \<Rightarrow> (st\<lparr>t_pending := t_pending st @ [c]\<rparr>, TClosing)))"

text \<open>The Claim and Close buttons, lines 1213--1256: the ticket check, then the helper
  check, then the same edits as the commands.\<close>

definition ticket_button ::
  "tenv \<Rightarrow> snowflake \<Rightarrow> bool \<Rightarrow> snowflake \<Rightarrow> bool \<Rightarrow> tstate \<Rightarrow> tstate \<times> ticket_reply" where
  "ticket_button te member is_helper c claim st =
     (if \<not> is_ticket_channel_id (t_store st) c then (st, TNotTicket)
      else if \<not> is_helper then (st, TNoPermission)
      else if claim then
        (case edit_channel te c (claim_edits member) st of
           (st', True) \<Rightarrow> (st', TClaimed member)
         | (st', False) \<Rightarrow> (st', TClaimFailed))
      else (st\<lparr>t_pending := t_pending st @ [c]\<rparr>, TClosing))"

text \<open>The \<open>setTimeout\<close> of a close firing: \<open>ch.delete(...)\<close>, errors swallowed.\<close>

definition ticket_timer :: "tstate \<Rightarrow> tstate" where
  "ticket_timer st =
     (case t_pending st of
        [] \<Rightarrow> st
      | c # cs \<Rightarrow> st\<lparr>t_chans := (t_chans st)(c := None), t_pending := cs\<rparr>)"

text \<open>The states the ticket system reaches from no ticket channel; created channels get
  snowflake ids.\<close>

inductive treach :: "tstate \<Rightarrow> bool" where
  init: "treach \<lparr>t_store = fs, t_chans = Map.empty, t_pending = []\<rparr>"
| create: "treach st \<Longrightarrow> valid_id (te_new_chan te) \<Longrightarrow> treach (fst (create_ticket te r other st))"
| command: "treach st \<Longrightarrow> treach (fst (ticket_command te a c t cmd st))"
| button: "treach st \<Longrightarrow> treach (fst (ticket_button te m h c cl st))"
| timer: "treach st \<Longrightarrow> treach (ticket_timer st)"

section \<open>Lemmas\<close>

lemma mm_roles_same [simp]: "mm_staff_role = mm_allowed_role"
  by (simp add: mm_staff_role_def mm_allowed_role_def)

lemma apply_edits_ok:
  "\<forall>i \<in> set (map fst es). te_edit_ok te c i \<Longrightarrow> apply_edits te c es o' = (o' ++ map_of (rev es), True)"
  by (induction es arbitrary: o') (auto simp: map_add_def fun_eq_iff map_of_append split: option.split)

lemma edit_channel_frame:
  "t_store (fst (edit_channel te c es st)) = t_store st \<and> t_pending (fst (edit_channel te c es st)) = t_pending st \<and>
   dom (t_chans (fst (edit_channel te c es st))) = dom (t_chans st)"
  by (auto simp: edit_channel_def split: option.splits prod.splits)

lemma fst_case_succ [simp]:
  "fst (case p of (s, True) \<Rightarrow> (s, x) | (s, False) \<Rightarrow> (s, y)) = fst p"
  by (cases p) (simp split: bool.split)

lemma ticket_command_frame:
  "t_store (fst (ticket_command te a c t cmd st)) = t_store st \<and>
   dom (t_chans (fst (ticket_command te a c t cmd st))) = dom (t_chans st)"
  using edit_channel_frame [of te c _ st]
  by (auto simp: ticket_command_def split: ticket_cmd.splits option.splits)

lemma ticket_button_frame:
  "t_store (fst (ticket_button te m h c cl st)) = t_store st \<and>
   dom (t_chans (fst (ticket_button te m h c cl st))) = dom (t_chans st)"
  using edit_channel_frame [of te c _ st]
  by (auto simp: ticket_button_def)

text \<open>Every live ticket channel is recorded in \<open>tickets.txt\<close>, so the ticket commands
  and buttons work in it.\<close>

lemma treach_recorded: "treach st \<Longrightarrow> c \<in> dom (t_chans st) \<Longrightarrow> is_ticket_channel_id (t_store st) c"
proof (induction arbitrary: c rule: treach.induct)
  case (create st te r other)
  then show ?case
    by (auto simp: create_ticket_def add_ticket_channel_id_def is_ticket_channel_id_def add_ids_set Let_def domIff
        split: if_splits)
next
  case (command st te a c' t cmd)
  then show ?case using ticket_command_frame [of te a c' t cmd st] by auto
next
  case (button st te m h c' cl)
  then show ?case using ticket_button_frame [of te m h c' cl st] by auto
next
  case (timer st)
  then show ?case by (auto simp: ticket_timer_def domIff split: list.splits if_splits)
qed simp

section \<open>Claim and transfer\<close>

text \<open>
  C18. A transfer does not take the ticket from its previous claimer: after \<open>+claim\<close> by
  \<open>a\<close> and \<open>+transfer @b\<close> with every edit succeeding, both \<open>a\<close> and \<open>b\<close> are
  allowed in the ticket and the staff role stays denied, although the command is
  described as removing the previous claimer.
\<close>

theorem transfer_keeps_claimer:
  assumes "t_chans st c = Some o'" and "is_ticket_channel_id (t_store st) c" and "\<forall>i. te_edit_ok te c i"
    and "parse_user_id arg = Some b"
  shows "t_chans (fst (ticket_command te b' c True (TkTransfer arg) (fst (ticket_command te a c True TkClaim st)))) c =
           Some (o'(a \<mapsto> OwAllow, mm_allowed_role \<mapsto> OwDeny, b \<mapsto> OwAllow))"
  using assms
  by (simp add: ticket_command_def edit_channel_def claim_edits_def apply_edits_ok map_add_def)

lemma transfer_keeps_claimer_witness:
  "t_chans (fst (ticket_command \<lparr>te_guild = ''500000'', te_new_chan = ''800000'', te_create_ok = True,
                                 te_edit_ok = (\<lambda>_ _. True)\<rparr> ''222222'' ''800000'' True (TkTransfer (Some ''<@444444>''))
     (fst (ticket_command \<lparr>te_guild = ''500000'', te_new_chan = ''800000'', te_create_ok = True,
                           te_edit_ok = (\<lambda>_ _. True)\<rparr> ''333333'' ''800000'' True TkClaim
        \<lparr>t_store = [tickets_file \<mapsto> ''800000'' @ [nl]], t_chans = [''800000'' \<mapsto> Map.empty], t_pending = []\<rparr>))))
     ''800000'' = Some [''333333'' \<mapsto> OwAllow, mm_allowed_role \<mapsto> OwDeny, ''444444'' \<mapsto> OwAllow]"
proof -
  have t: "is_ticket_channel_id [tickets_file \<mapsto> ''800000'' @ [nl]] ''800000''"
    by (simp add: is_ticket_channel_id_def read_set_def split_lines_def js_set_of_def js_set_add_def js_trim_def
        js_ws_def nl_def cr_def drop_cr_def)
  have p: "parse_user_id (Some ''<@444444>'') = Some ''444444''"
    by (simp add: parse_user_id_def valid_id_def is_digit_def)
  show ?thesis
    using transfer_keeps_claimer [of "\<lparr>t_store = [tickets_file \<mapsto> ''800000'' @ [nl]], t_chans = [''800000'' \<mapsto> Map.empty],
        t_pending = []\<rparr>" "''800000''" "Map.empty"] t p
    by simp
qed

end
