(* ===== verification/MMListener.thy ===== *)
theory MMListener
  imports Tickets Vouch Profit
begin

text \<open>
  The middleman listeners (\<open>src/index.js\<close> lines 847--1157 and 1160--1337) as the
  composition of the components they call: the \<open>messageCreate\<close> listener tries, in order,
  the staff help, \<open>+panel\<close>, \<open>+mminfo\<close>, \<open>+hit\<close>, the four ticket commands
  (\<open>Tickets\<close>), the four profit commands (\<open>Profit\<close>) and the three vouch commands
  (\<open>Vouch\<close>), each gated by the author's roles; the \<open>interactionCreate\<close> listener
  handles the request form, the \<open>+hit\<close> invite buttons, the ticket buttons and the form's
  submission. The state is the three components' states side by side.
\<close>

text \<open>\<open>HELPER_ROLE_ID\<close> (line 239) and \<open>MM_TEAM_ROLE_TO_GIVE\<close> (line 770).\<close>

definition helper_role_id :: snowflake where
  "helper_role_id = ''1431477370019254353''"

definition mm_team_role :: snowflake where
  "mm_team_role = ''1433193580809289915''"

record 'n mm_state =
  ms_tickets :: tstate
  ms_vouch :: vouch_state
  ms_profit :: "'n profit_db"

text \<open>
  What the platform answers: the ticket platform, the vouch channel fetch, the
  \<open>Number\<close> operations, the two \<open>nowStamp()\<close>, whether \<open>writeProfitDB\<close> succeeds, and
  \<open>Number(secStr)\<close> of \<open>+vouchinterval\<close> (\<open>None\<close> when not finite).
\<close>

record 'n mm_env =
  me_tenv :: tenv
  me_fetch :: fetch_result
  me_num :: "'n jsnum"
  me_t1 :: string
  me_t2 :: string
  me_write_ok :: bool
  me_secs :: "string option \<Rightarrow> rat option"

text \<open>A message: whether its author is a bot, whether it was sent in a guild, the
  author, the channel and whether it is a text channel, the content, and the roles of
  \<open>msg.member\<close> (none when the member cannot be fetched).\<close>

record mm_msg =
  mm_bot :: bool
  mm_guild :: bool
  mm_author :: snowflake
  mm_chan :: snowflake
  mm_is_text :: bool
  mm_content :: string
  mm_roles :: "snowflake list"

datatype 'n mm_reply =
    MHelp | MPanel | MMMInfo | MHit
  | MTicket ticket_reply | MProfit "'n profit_reply" | MVouch vouch_reply

text \<open>\<open>hasRole(member, roleId)\<close>, line 848.\<close>

definition has_role :: "snowflake list \<Rightarrow> snowflake \<Rightarrow> bool" where
  "has_role rs r \<longleftrightarrow> r \<in> set rs"

text \<open>The three vouch commands, lines 1133--1157: which one the content names.\<close>

definition vouch_cmd_of :: "'n mm_env \<Rightarrow> string \<Rightarrow> string \<Rightarrow> vouch_cmd option" where
  "vouch_cmd_of e lower content =
     (if lower = ''+vouch start'' then Some VouchStart
      else if lower = ''+vouch stop'' then Some VouchStop
      else if starts_with lower ''+vouchinterval'' then Some (VouchInterval (me_secs e (second_word content)))
      else None)"

text \<open>
  The first branches of the \<open>messageCreate\<close> listener of lines 853--1042: the bot and
  guild check, then the staff help, \<open>+panel\<close>, \<open>+mminfo\<close>, \<open>+hit\<close> and the four
  ticket commands, each with its role condition. \<open>MRest\<close>: none of them applies and the
  listener goes on to the profit and vouch commands.
\<close>

datatype mm_branch = MIgnore | MRHelp | MRPanel | MRMMInfo | MRHit | MRTicket ticket_cmd | MRest

definition mm_route :: "mm_msg \<Rightarrow> mm_branch" where
  "mm_route m =
     (if mm_bot m \<or> \<not> mm_guild m then MIgnore
      else
        (let lower = js_lower (js_trim (mm_content m));
             is_mm = has_role (mm_roles m) mm_allowed_role;
             staff = has_role (mm_roles m) mm_staff_role;
             helper = has_role (mm_roles m) helper_role_id
         in if lower = ''+help'' \<and> (is_mm \<or> staff \<or> helper) then MRHelp
            else if lower = ''+panel'' \<and> is_mm then MRPanel
            else if lower = ''+mminfo'' \<and> is_mm then MRMMInfo
            else if lower = ''+hit'' \<and> is_mm then MRHit
            else if lower = ''+claim'' \<and> is_mm then MRTicket TkClaim
            else if lower = ''+unclaim'' \<and> is_mm then MRTicket TkUnclaim
            else if starts_with lower ''+transfer'' \<and> is_mm then MRTicket (TkTransfer (second_word (mm_content m)))
            else if lower = ''+close'' \<and> is_mm then MRTicket TkClose
            else MRest))"

text \<open>The rest of the listener, lines 1044--1157: the profit commands, then the vouch
  commands for the MM and helper roles.\<close>

definition mm_rest :: "'n mm_env \<Rightarrow> mm_msg \<Rightarrow> 'n mm_state \<Rightarrow> 'n mm_state \<times> 'n mm_reply option" where
  "mm_rest e m st =
     (let lower = js_lower (js_trim (mm_content m));
          is_mm = has_role (mm_roles m) mm_allowed_role;
          staff = has_role (mm_roles m) mm_staff_role;
          helper = has_role (mm_roles m) helper_role_id
      in case profit_command (me_num e) (me_t1 e) (me_t2 e) helper staff (me_write_ok e) (mm_content m) (ms_profit st) of
           Some (db, r) \<Rightarrow> (st\<lparr>ms_profit := db\<rparr>, map_option MProfit r)
         | None \<Rightarrow>
             (case vouch_cmd_of e lower (mm_content m) of
                None \<Rightarrow> (st, None)
              | Some c \<Rightarrow>
                  if is_mm \<or> helper then
                    (case vouch_command True c (me_fetch e) (ms_vouch st) of
                       (vs, r) \<Rightarrow> (st\<lparr>ms_vouch := vs\<rparr>, map_option MVouch r))
                  else (st, None)))"

text \<open>The \<open>messageCreate\<close> listener of lines 853--1158.\<close>

definition mm_listener :: "'n mm_env \<Rightarrow> mm_msg \<Rightarrow> 'n mm_state \<Rightarrow> 'n mm_state \<times> 'n mm_reply option" where
  "mm_listener e m st =
     (case mm_route m of
        MIgnore \<Rightarrow> (st, None)
      | MRHelp \<Rightarrow> (st, Some MHelp)
      | MRPanel \<Rightarrow> (st, Some MPanel)
      | MRMMInfo \<Rightarrow> (st, Some MMMInfo)
      | MRHit \<Rightarrow> (st, Some MHit)
      | MRTicket c \<Rightarrow>
          (case ticket_command (me_tenv e) (mm_author m) (mm_chan m) (mm_is_text m) c (ms_tickets st) of
             (ts, r) \<Rightarrow> (st\<lparr>ms_tickets := ts\<rparr>, Some (MTicket r)))
      | MRest \<Rightarrow> mm_rest e m st)"

text \<open>
  The \<open>+hit\<close> invite buttons, lines 1193--1210. Accept: \<open>roles.add(MM_TEAM_ROLE_TO_GIVE)\<close>
  then \<open>interaction.update\<close>, both in one \<open>try\<close> whose \<open>catch\<close> replies ``Could not grant
  role''. Reject: \<open>interaction.update\<close> then \<open>members.kick\<close>, errors ignored. The calls
  are listed in the order they are made, each attempted one included.
\<close>

datatype hit_call = HAddRole snowflake snowflake | HUpdateAccepted | HUpdateRejected | HReplyCouldNotGrant | HKick snowflake

definition hit_accept :: "bool \<Rightarrow> bool \<Rightarrow> snowflake \<Rightarrow> hit_call list" where
  "hit_accept add_ok upd_ok u =
     HAddRole u mm_team_role #
       (if add_ok then HUpdateAccepted # (if upd_ok then [] else [HReplyCouldNotGrant]) else [HReplyCouldNotGrant])"

definition hit_reject :: "bool \<Rightarrow> snowflake \<Rightarrow> hit_call list" where
  "hit_reject upd_ok u = HUpdateRejected # (if upd_ok then [HKick u] else [])"

text \<open>An interaction of the listener of lines 1161--1337.\<close>

datatype mm_interaction =
    IOpenForm | IHitAccept | IHitReject | ITicketClaim | ITicketClose | IModalSubmit string | IOther

text \<open>\<open>TICKET_BUTTON_IDS\<close>, lines 232--235.\<close>

definition ticket_claim_id :: string where
  "ticket_claim_id = ''ticket_claim''"

definition ticket_close_id :: string where
  "ticket_close_id = ''ticket_close''"

text \<open>Which branch of the listener an interaction takes, by \<open>isButton()\<close>,
  \<open>isModalSubmit()\<close> and \<open>customId\<close> (lines 1165, 1193, 1202, 1213, 1259); \<open>other\<close>
  is the form's \<open>mm_other\<close> field.\<close>

definition interaction_of :: "bool \<Rightarrow> bool \<Rightarrow> string \<Rightarrow> string \<Rightarrow> mm_interaction" where
  "interaction_of button modal cid other =
     (if button \<and> cid = ''mm_request_open'' then IOpenForm
      else if button \<and> cid = ''hit_accept'' then IHitAccept
      else if button \<and> cid = ''hit_reject'' then IHitReject
      else if button \<and> cid \<in> set [ticket_claim_id, ticket_close_id] then
        (if cid = ticket_claim_id then ITicketClaim else ITicketClose)
      else if modal \<and> cid = ''mm_request_modal'' then IModalSubmit other
      else IOther)"

text \<open>An interaction: whether it happened in a guild, the user, the member's roles, the
  channel, the kind of component, its custom id and the form's \<open>mm_other\<close> field.\<close>

record mm_imsg =
  im_guild :: bool
  im_user :: snowflake
  im_roles :: "snowflake list"
  im_chan :: snowflake
  im_button :: bool
  im_modal :: bool
  im_custom_id :: string
  im_other :: string

record ienv =
  ie_tenv :: tenv
  ie_add_ok :: bool
  ie_update_ok :: bool

datatype ireply = IShowForm | IHit "hit_call list" | ITicket ticket_reply

definition mm_interact :: "ienv \<Rightarrow> mm_imsg \<Rightarrow> tstate \<Rightarrow> tstate \<times> ireply option" where
  "mm_interact ie im ts =
     (if \<not> im_guild im then (ts, None)
      else case interaction_of (im_button im) (im_modal im) (im_custom_id im) (im_other im) of
        IOpenForm \<Rightarrow> (ts, Some IShowForm)
      | IHitAccept \<Rightarrow> (ts, Some (IHit (hit_accept (ie_add_ok ie) (ie_update_ok ie) (im_user im))))
      | IHitReject \<Rightarrow> (ts, Some (IHit (hit_reject (ie_update_ok ie) (im_user im))))
      | ITicketClaim \<Rightarrow>
          (let helper = has_role (im_roles im) mm_allowed_role \<or> has_role (im_roles im) mm_staff_role
           in map_prod id (Some \<circ> ITicket) (ticket_button (ie_tenv ie) (im_user im) helper (im_chan im) True ts))
      | ITicketClose \<Rightarrow>
          (let helper = has_role (im_roles im) mm_allowed_role \<or> has_role (im_roles im) mm_staff_role
           in map_prod id (Some \<circ> ITicket) (ticket_button (ie_tenv ie) (im_user im) helper (im_chan im) False ts))
      | IModalSubmit other \<Rightarrow> map_prod id (Some \<circ> ITicket) (create_ticket (ie_tenv ie) (im_user im) other ts)
      | IOther \<Rightarrow> (ts, None))"

text \<open>A member of the helper role, a channel and a starting state for the examples.\<close>

abbreviation mm_demo_env :: "int mm_env" where
  "mm_demo_env \<equiv> \<lparr>me_tenv = \<lparr>te_guild = ''500000'', te_new_chan = ''900000'', te_create_ok = True,
                                 te_edit_ok = (\<lambda>_ _. True)\<rparr>,
                    me_fetch = FetchOk, me_num = int_jsnum, me_t1 = ''t'', me_t2 = ''t'', me_write_ok = True,
                    me_secs = (\<lambda>_. None)\<rparr>"

abbreviation mm_demo_state :: "int mm_state" where
  "mm_demo_state \<equiv> \<lparr>ms_tickets = \<lparr>t_store = Map.empty, t_chans = Map.empty, t_pending = []\<rparr>,
                      ms_vouch = vouch_init, ms_profit = Map.empty\<rparr>"

section \<open>Lemmas\<close>

lemmas mm_eval = profit_eval has_role_def helper_role_id_def mm_allowed_role_def mm_staff_role_def js_ws_def
  js_trim_def vouch_cmd_of_def

lemma mm_route_ticket: "mm_route m = MRTicket c \<Longrightarrow> has_role (mm_roles m) mm_allowed_role"
  by (simp add: mm_route_def Let_def split: if_splits)

lemma mm_rest_cases:
  assumes "mm_rest e m st = (st', r)"
  obtains (same) "st' = st"
  | (profit) db r' where "profit_command (me_num e) (me_t1 e) (me_t2 e) (has_role (mm_roles m) helper_role_id)
        (has_role (mm_roles m) mm_staff_role) (me_write_ok e) (mm_content m) (ms_profit st) = Some (db, r')"
      "st' = st\<lparr>ms_profit := db\<rparr>"
  | (vouch) vs where "has_role (mm_roles m) mm_allowed_role \<or> has_role (mm_roles m) helper_role_id"
      "st' = st\<lparr>ms_vouch := vs\<rparr>"
  using assms unfolding mm_rest_def Let_def
  by (auto split: option.split_asm prod.split_asm if_split_asm)

lemma mm_listener_cases:
  assumes "mm_listener e m st = (st', r)"
  obtains (same) "st' = st"
  | (tickets) ts where "has_role (mm_roles m) mm_allowed_role" "st' = st\<lparr>ms_tickets := ts\<rparr>"
  | (rest) "mm_rest e m st = (st', r)"
  using assms unfolding mm_listener_def
  by (auto split: mm_branch.split_asm prod.split_asm dest: mm_route_ticket)

text \<open>The request form and its submission are open to every member, the ticket buttons to
  the MM role only: an interaction by anyone else leaves every existing ticket channel and
  every scheduled deletion as they were (channel ids are fresh).\<close>

lemma mm_interact_nonstaff_frame:
  assumes "\<not> has_role (im_roles im) mm_allowed_role" and "te_new_chan (ie_tenv ie) \<notin> dom (t_chans ts)"
    and "mm_interact ie im ts = (ts', r)"
  shows "t_pending ts' = t_pending ts \<and> (\<forall>c \<in> dom (t_chans ts). t_chans ts' c = t_chans ts c)"
  using assms
  by (auto simp: mm_interact_def ticket_button_def create_ticket_def mm_roles_same Let_def
      split: mm_interaction.splits if_splits)

text \<open>
  C19. Role gates of the middleman listener: a message changes the ticket channels only when
  its author holds the MM role, the profit ledger only when the author holds the helper
  role, and the vouch ticker only when the author holds one of the two.
\<close>

theorem mm_listener_permissions:
  assumes "mm_listener e m st = (st', r)"
  shows "(ms_tickets st' \<noteq> ms_tickets st \<longrightarrow> has_role (mm_roles m) mm_allowed_role) \<and>
         (ms_profit st' \<noteq> ms_profit st \<longrightarrow> has_role (mm_roles m) helper_role_id) \<and>
         (ms_vouch st' \<noteq> ms_vouch st \<longrightarrow> has_role (mm_roles m) mm_allowed_role \<or> has_role (mm_roles m) helper_role_id)"
  using assms
proof (cases rule: mm_listener_cases)
  case rest
  then show ?thesis
  proof (cases rule: mm_rest_cases)
    case (profit db r')
    then show ?thesis
      by (cases "has_role (mm_roles m) helper_role_id") (auto dest: profit_command_nonhelper)
  qed auto
qed auto

lemma mm_listener_permissions_witness:
  "mm_listener mm_demo_env
     \<lparr>mm_bot = False, mm_guild = True, mm_author = ''222222'', mm_chan = ''900000'', mm_is_text = True,
      mm_content = ''+reset <@123456>'', mm_roles = [helper_role_id]\<rparr> mm_demo_state =
     (mm_demo_state\<lparr>ms_profit := [''123456'' \<mapsto> reset_profile int_jsnum ''t'']\<rparr>, Some (MProfit (PRReset ''123456''))) \<and>
   has_role [helper_role_id] helper_role_id"
proof -
  have e: "mm_listener mm_demo_env
     \<lparr>mm_bot = False, mm_guild = True, mm_author = ''222222'', mm_chan = ''900000'', mm_is_text = True,
      mm_content = ''+reset <@123456>'', mm_roles = [helper_role_id]\<rparr> mm_demo_state =
     (mm_demo_state\<lparr>ms_profit := [''123456'' \<mapsto> reset_profile int_jsnum ''t'']\<rparr>, Some (MProfit (PRReset ''123456'')))"
    by (simp add: mm_listener_def mm_route_def mm_rest_def profit_command_def mm_eval)
  show ?thesis using mm_listener_permissions [OF e] e by (simp add: reset_profile_def int_jsnum_def)
qed

end
