(* ===== verification/ProfitStore.thy ===== *)
theory ProfitStore
  imports Profit "HOL-Library.Sublist"
begin

text \<open>
  The storage of the profit ledger (\<open>src/index.js\<close> lines 779--830): \<open>readProfitDB\<close>
  reads \<open>profit.txt\<close>, parses it as JSON and, when that throws, falls back to a legacy
  line format \<open>id current total | log...\<close>; a file that cannot be read is an empty
  ledger. \<open>buildProfitEmbed\<close> shows the profit, the total and the last ten log lines.
  \<open>JSON.parse\<close> is a parameter (\<open>None\<close> when it throws); the ledger it yields is taken
  as is.
\<close>

text \<open>\<open>PROFIT_FILE\<close>, line 781.\<close>

definition profit_file :: string where
  "profit_file = ''profit.txt''"

text \<open>
  The head of a legacy line \<open>t\<close> (trimmed, non-empty), lines 795--796:
  \<open>t.split('|')[0].trim().split(/\s+/)\<close>. Splitting the empty string gives \<open>['']\<close>.
\<close>

definition legacy_head :: "string \<Rightarrow> string list" where
  "legacy_head t = (let h = js_trim (takeWhile (\<lambda>c. c \<noteq> CHR ''|'') t) in if h = [] then [[]] else ws_parts h)"

text \<open>\<open>Number(head[i] || 0)\<close>: a missing field is \<open>0\<close>.\<close>

definition legacy_num :: "'n jsnum \<Rightarrow> string list \<Rightarrow> nat \<Rightarrow> 'n" where
  "legacy_num N head i = (case drop i head of [] \<Rightarrow> jn_zero N | x # _ \<Rightarrow> jn_of_string N x)"

text \<open>The entry of a legacy line, line 800: \<open>{ current, total, logs: [] }\<close>.\<close>

definition legacy_entry :: "'n jsnum \<Rightarrow> string \<Rightarrow> 'n profit" where
  "legacy_entry N t =
     (let head = legacy_head t in \<lparr>pr_current = legacy_num N head 1, pr_total = legacy_num N head 2, pr_logs = []\<rparr>)"

text \<open>One line, lines 793--800: skipped when blank, else \<open>db[head[0]]\<close> is overwritten.\<close>

definition legacy_line :: "'n jsnum \<Rightarrow> string \<Rightarrow> 'n profit_db \<Rightarrow> 'n profit_db" where
  "legacy_line N line db =
     (let t = js_trim line in if t = [] then db else db(hd (legacy_head t) \<mapsto> legacy_entry N t))"

text \<open>\<open>raw.split(/\r?\n/).forEach(...)\<close>, lines 791--802.\<close>

definition legacy_parse :: "'n jsnum \<Rightarrow> string \<Rightarrow> 'n profit_db" where
  "legacy_parse N raw = fold (legacy_line N) (split_lines raw) Map.empty"

text \<open>\<open>readProfitDB()\<close>, lines 784--807.\<close>

definition read_profit_db :: "'n jsnum \<Rightarrow> (string \<Rightarrow> 'n profit_db option) \<Rightarrow> fstore \<Rightarrow> 'n profit_db" where
  "read_profit_db N json_parse fs =
     (case fs profit_file of
        None \<Rightarrow> Map.empty
      | Some raw \<Rightarrow> (case json_parse raw of Some db \<Rightarrow> db | None \<Rightarrow> legacy_parse N raw))"

text \<open>
  \<open>buildProfitEmbed(name, record)\<close>, lines 819--830: the profit and the total
  (\<open>fmtUSD(x || 0)\<close>, kept as numbers) and \<open>(record.logs || []).slice(-10)\<close>, the
  ``No changes yet.'' placeholder being the empty list.
\<close>

definition profit_embed :: "'n jsnum \<Rightarrow> 'n profit \<Rightarrow> 'n \<times> 'n \<times> (string \<times> 'n plog_msg) list" where
  "profit_embed N r =
     (or_zero N (pr_current r), or_zero N (pr_total r), drop (length (pr_logs r) - 10) (pr_logs r))"

section \<open>Lemmas\<close>

lemma legacy_fold_at:
  "fold (legacy_line N) ls db i =
     (let ts = filter (\<lambda>t. t \<noteq> [] \<and> hd (legacy_head t) = i) (map js_trim ls)
      in if ts = [] then db i else Some (legacy_entry N (last ts)))"
proof (induction ls rule: rev_induct)
  case Nil
  then show ?case by simp
next
  case (snoc l ls)
  then show ?case
    by (auto simp: legacy_line_def Let_def)
qed

text \<open>When \<open>JSON.parse\<close> throws, every entry comes from the last line naming its id and
  has no log: the history of the whole ledger is dropped.\<close>

lemma legacy_read_drops_logs:
  assumes "fs profit_file = Some raw" and "json_parse raw = None"
    and "read_profit_db N json_parse fs i = Some p"
  shows "pr_logs p = []"
  using assms legacy_fold_at [of N "split_lines raw" Map.empty i]
  by (auto simp: read_profit_db_def legacy_parse_def legacy_entry_def Let_def split: if_splits)

text \<open>\<open>buildProfitEmbed\<close> shows the last ten log lines, or all of them when there are fewer.\<close>

lemma profit_embed_last_ten:
  "case profit_embed N r of (c, tot, ls) \<Rightarrow>
     c = or_zero N (pr_current r) \<and> tot = or_zero N (pr_total r) \<and>
     suffix ls (pr_logs r) \<and> length ls = min 10 (length (pr_logs r))"
  by (simp add: profit_embed_def suffix_drop)

text \<open>
  C22. A \<open>profit.txt\<close> that cannot be read is an empty ledger, so the next profit command
  that writes replaces the whole file with a ledger of at most the one user it names.
\<close>

theorem profit_read_failure_erases:
  assumes "fs profit_file = None"
    and "profit_command N t t' helper staff w content (read_profit_db N json_parse fs) = Some (db', r)"
  shows "dom db' \<subseteq> {v. parse_user_id (second_word content) = Some v}"
proof
  fix v assume "v \<in> dom db'"
  moreover have "read_profit_db N json_parse fs = Map.empty" using assms(1) by (simp add: read_profit_db_def)
  ultimately show "v \<in> {v. parse_user_id (second_word content) = Some v}"
    using profit_command_changes [OF assms(2), of v] assms(2) by auto
qed

lemma profit_read_failure_erases_witness:
  "profit_command int_jsnum ''t'' ''t'' True False True ''+addprofit <@123456> 5''
      (read_profit_db int_jsnum (\<lambda>_. None) Map.empty) =
     Some ([''123456'' \<mapsto> \<lparr>pr_current = 5, pr_total = 0, pr_logs = [(''t'', LProfitSet 5)]\<rparr>],
           Some (PRReport ''123456'' \<lparr>pr_current = 5, pr_total = 0, pr_logs = [(''t'', LProfitSet 5)]\<rparr>)) \<and>
   dom [''123456'' \<mapsto> \<lparr>pr_current = 5, pr_total = 0, pr_logs = [(''t'', LProfitSet (5::int))]\<rparr>] \<subseteq> {''123456''}"
proof -
  have e: "profit_command int_jsnum ''t'' ''t'' True False True ''+addprofit <@123456> 5''
      (read_profit_db int_jsnum (\<lambda>_. None) Map.empty) =
     Some ([''123456'' \<mapsto> \<lparr>pr_current = 5, pr_total = 0, pr_logs = [(''t'', LProfitSet 5)]\<rparr>],
           Some (PRReport ''123456'' \<lparr>pr_current = 5, pr_total = 0, pr_logs = [(''t'', LProfitSet 5)]\<rparr>))"
    by (simp add: profit_command_def read_profit_db_def addprofit_update_def profit_eval)
  have "parse_user_id (second_word ''+addprofit <@123456> 5'') = Some ''123456''"
    by (simp add: profit_eval)
  then show ?thesis using profit_read_failure_erases [OF _ e] e by (simp add: profit_file_def)
qed

end
