(* ===== verification/VouchTick.thy ===== *)
theory VouchTick
  imports Vouch RoleCommands
begin

text \<open>
  What one tick of the vouch ticker posts (\<open>postOnce\<close>, \<open>src/index.js\<close> lines
  267--297, with \<open>pickRandomFromFile\<close> and \<open>pickRandomFromSet\<close>, lines 1978--1996).
  Each \<open>startVouchTicker\<close> creates a fresh closure whose only state is
  \<open>lastFullFetch\<close>; a tick refreshes the member cache with a full fetch when it holds
  fewer than 100 members or the last full fetch is more than 30 minutes old, picks a
  random cached member and a random line of \<open>user_ids.txt\<close>, and posts the pair.
  \<open>Math.random()\<close> is a parameter: a rational in \<open>[0, 1)\<close> in the code's runtime.
  Floating-point rounding of \<open>Math.random() * n\<close> is not modelled.
\<close>

text \<open>\<open>arr[Math.floor(Math.random() * arr.length)]\<close> after \<open>if (!arr.length) return null\<close>;
  an index outside the array reads \<open>undefined\<close>, which the callers treat as nothing picked.\<close>

definition pick_random :: "rat \<Rightarrow> 'a list \<Rightarrow> 'a option" where
  "pick_random r xs =
     (if xs = [] then None
      else (let i = \<lfloor>r * of_nat (length xs)\<rfloor> in if 0 \<le> i \<and> i < int (length xs) then Some (xs ! nat i) else None))"

text \<open>\<open>pickRandomFromFile(path)\<close>, lines 1978--1990: the trimmed non-empty lines of the
  file, \<open>null\<close> when it cannot be read or has none.\<close>

definition pick_random_from_file :: "rat \<Rightarrow> fstore \<Rightarrow> string \<Rightarrow> string option" where
  "pick_random_from_file r fs path =
     (case fs path of
        None \<Rightarrow> None
      | Some raw \<Rightarrow> pick_random r (filter (\<lambda>s. s \<noteq> []) (map js_trim (split_lines raw))))"

text \<open>\<open>FULL_FETCH_COOLDOWN_MS = 30 * 60_000\<close>, line 268.\<close>

definition full_fetch_cooldown :: int where
  "full_fetch_cooldown = 30 * 60000"

text \<open>
  What the platform answers during one tick: the time, the member cache, the cache after
  \<open>guild.members.fetch()\<close> (\<open>None\<close> when it throws), the two \<open>Math.random()\<close>
  values, and whether the post is sent.
\<close>

record tick_env =
  tk_now :: int
  tk_cache :: "snowflake list"
  tk_fetched :: "snowflake list option"
  tk_r1 :: rat
  tk_r2 :: rat
  tk_send_ok :: bool

text \<open>Whether the tick does a full fetch, line 273.\<close>

definition tick_fetches :: "tick_env \<Rightarrow> int \<Rightarrow> bool" where
  "tick_fetches te lf \<longleftrightarrow> length (tk_cache te) < 100 \<or> full_fetch_cooldown < tk_now te - lf"

text \<open>Lines 272--276: the member cache the tick picks from, after the full fetch when
  there is one (\<open>None\<close>: the fetch throws and the tick ends).\<close>

definition tick_cache :: "tick_env \<Rightarrow> int \<Rightarrow> snowflake list option" where
  "tick_cache te lf = (if tick_fetches te lf then tk_fetched te else Some (tk_cache te))"

text \<open>
  \<open>postOnce()\<close>, lines 270--297: the new \<open>lastFullFetch\<close> and the vouch posted
  (member, id of \<open>user_ids.txt\<close>), if any. Every error is caught and ends the tick.
\<close>

definition post_once :: "tick_env \<Rightarrow> fstore \<Rightarrow> int \<Rightarrow> int \<times> (snowflake \<times> string) option" where
  "post_once te fs lf =
     (case tick_cache te lf of
        None \<Rightarrow> (lf, None)
      | Some cache \<Rightarrow>
          (let lf' = (if tick_fetches te lf then tk_now te else lf)
           in case pick_random (tk_r1 te) cache of
                None \<Rightarrow> (lf', None)
              | Some m \<Rightarrow>
                  (case pick_random_from_file (tk_r2 te) fs user_ids_file of
                     None \<Rightarrow> (lf', None)
                   | Some f \<Rightarrow> (lf', if tk_send_ok te then Some (m, f) else None))))"

text \<open>The ticks of one timer in order, from \<open>lastFullFetch = 0\<close>: the posts and the
  times of the full fetches.\<close>

fun tick_run :: "fstore \<Rightarrow> int \<Rightarrow> tick_env list \<Rightarrow> (snowflake \<times> string) list \<times> int list" where
  "tick_run fs lf [] = ([], [])"
| "tick_run fs lf (te # tes) =
     (case post_once te fs lf of
        (lf', p) \<Rightarrow>
          (case tick_run fs lf' tes of
             (ps, fetches) \<Rightarrow>
               (case p of None \<Rightarrow> ps | Some v \<Rightarrow> v # ps,
                if tick_fetches te lf \<and> tk_fetched te \<noteq> None then tk_now te # fetches else fetches)))"

section \<open>Lemmas\<close>

lemma floor_index_bound:
  fixes r :: rat
  assumes "0 \<le> r" "r < 1" "0 < n"
  shows "0 \<le> \<lfloor>r * of_nat n\<rfloor> \<and> \<lfloor>r * of_nat n\<rfloor> < int n"
proof
  show "0 \<le> \<lfloor>r * of_nat n\<rfloor>" using assms by simp
  have "r * of_nat n < of_nat n" using assms by simp
  then show "\<lfloor>r * of_nat n\<rfloor> < int n" by (simp add: floor_less_iff)
qed

lemma pick_random_index:
  fixes r :: rat
  assumes "0 \<le> r" "r < 1" "xs \<noteq> []"
  shows "pick_random r xs = Some (xs ! nat \<lfloor>r * of_nat (length xs)\<rfloor>) \<and> nat \<lfloor>r * of_nat (length xs)\<rfloor> < length xs"
  using floor_index_bound [OF assms(1,2), of "length xs"] assms(3)
  by (simp add: pick_random_def Let_def nat_less_iff)

lemma pick_random_from_file_user_ids:
  "pick_random_from_file r fs user_ids_file =
     (case read_user_ids fs of None \<Rightarrow> None | Some ids \<Rightarrow> pick_random r ids)"
  by (simp add: pick_random_from_file_def read_user_ids_def split: option.split)

lemma pick_random_eq:
  fixes r :: rat
  assumes "0 \<le> r" "r < 1"
  shows "pick_random r xs = (if xs = [] then None else Some (xs ! nat \<lfloor>r * of_nat (length xs)\<rfloor>))"
  using pick_random_index [OF assms, of xs] by (simp add: pick_random_def)

lemma pick_random_nth_mem:
  fixes r :: rat
  assumes "0 \<le> r" "r < 1" "xs \<noteq> []"
  shows "xs ! nat \<lfloor>r * of_nat (length xs)\<rfloor> \<in> set xs"
  using pick_random_index [OF assms] by simp

lemma post_once_snd:
  "snd (post_once te fs lf) =
     (case tick_cache te lf of
        None \<Rightarrow> None
      | Some c \<Rightarrow> (case pick_random (tk_r1 te) c of
                     None \<Rightarrow> None
                   | Some m \<Rightarrow> (case pick_random_from_file (tk_r2 te) fs user_ids_file of
                                  None \<Rightarrow> None
                                | Some f \<Rightarrow> if tk_send_ok te then Some (m, f) else None)))"
  by (simp add: post_once_def Let_def split: option.split)

text \<open>
  C26. Under \<open>0 \<le> Math.random() < 1\<close> a tick posts exactly when its member cache and the
  lines of \<open>user_ids.txt\<close> are non-empty and the send succeeds, and then the pair it
  posts is a cached member and a line of the file (the random index is in range).
\<close>

theorem post_once_picks:
  assumes "0 \<le> tk_r1 te" "tk_r1 te < 1" "0 \<le> tk_r2 te" "tk_r2 te < 1"
  shows "(snd (post_once te fs lf) \<noteq> None \<longleftrightarrow>
            (\<exists>c ids. tick_cache te lf = Some c \<and> c \<noteq> [] \<and> read_user_ids fs = Some ids \<and> ids \<noteq> [] \<and>
                     tk_send_ok te)) \<and>
         (\<forall>m f. snd (post_once te fs lf) = Some (m, f) \<longrightarrow>
            (\<exists>c ids. tick_cache te lf = Some c \<and> m \<in> set c \<and> read_user_ids fs = Some ids \<and> f \<in> set ids))"
  using pick_random_nth_mem [OF assms(1,2)] pick_random_nth_mem [OF assms(3,4)]
  by (simp add: post_once_snd pick_random_from_file_user_ids pick_random_eq [OF assms(1,2)]
        pick_random_eq [OF assms(3,4)] split: option.split) blast

lemma post_once_picks_witness:
  "snd (post_once \<lparr>tk_now = 0, tk_cache = [''111111''], tk_fetched = Some [''111111''], tk_r1 = 0, tk_r2 = 0,
                    tk_send_ok = True\<rparr> [user_ids_file \<mapsto> ''222222''] 0) = Some (''111111'', ''222222'') \<and>
   read_user_ids [user_ids_file \<mapsto> ''222222''] = Some [''222222'']"
proof -
  have r: "read_user_ids [user_ids_file \<mapsto> ''222222''] = Some [''222222'']"
    by (simp add: read_user_ids_def split_lines_def js_trim_def js_ws_def nl_def)
  have "snd (post_once \<lparr>tk_now = 0, tk_cache = [''111111''], tk_fetched = Some [''111111''], tk_r1 = 0, tk_r2 = 0,
                    tk_send_ok = True\<rparr> [user_ids_file \<mapsto> ''222222''] 0) = Some (''111111'', ''222222'')"
    using r by (simp add: post_once_def tick_cache_def tick_fetches_def pick_random_def
        pick_random_from_file_user_ids)
  then show ?thesis using post_once_picks [of "\<lparr>tk_now = 0, tk_cache = [''111111''], tk_fetched = Some [''111111''],
      tk_r1 = 0, tk_r2 = 0, tk_send_ok = True\<rparr>" "[user_ids_file \<mapsto> ''222222'']" 0] r by simp
qed

lemma tick_run_fetch_gap:
  "sorted_wrt (\<lambda>a b. full_fetch_cooldown < b - a) (lf # snd (tick_run fs lf tes)) \<or>
   (\<exists>te \<in> set tes. length (tk_cache te) < 100)"
proof (induction tes arbitrary: lf)
  case Nil
  then show ?case by simp
next
  case (Cons te tes)
  show ?case
  proof (cases "length (tk_cache te) < 100")
    case True then show ?thesis by auto
  next
    case False
    obtain lf' p where po: "post_once te fs lf = (lf', p)" by fastforce
    have lf': "lf' = (if tick_fetches te lf \<and> tk_fetched te \<noteq> None then tk_now te else lf)"
      using po by (auto simp: post_once_def tick_cache_def Let_def split: option.splits if_splits)
    show ?thesis
    proof (cases "\<exists>te \<in> set tes. length (tk_cache te) < 100")
      case True then show ?thesis by auto
    next
      case nT: False
      then have ih: "sorted_wrt (\<lambda>a b. full_fetch_cooldown < b - a) (lf' # snd (tick_run fs lf' tes))"
        using Cons.IH [of lf'] by auto
      show ?thesis
      proof (cases "tick_fetches te lf \<and> tk_fetched te \<noteq> None")
        case True
        with False have gap: "full_fetch_cooldown < tk_now te - lf" by (simp add: tick_fetches_def)
        have "0 \<le> full_fetch_cooldown" by (simp add: full_fetch_cooldown_def)
        with ih gap True lf' have "\<forall>b \<in> set (snd (tick_run fs lf' tes)). full_fetch_cooldown < b - lf"
          by fastforce
        with ih gap True lf' po show ?thesis by (auto split: prod.split)
      next
        case nf: False
        with ih lf' po show ?thesis by (auto split: prod.split)
      qed
    qed
  qed
qed



end
