(* ===== verification/Spec2Isabelle.thy ===== *)
theory Spec2Isabelle
  imports Watchers RoleWatch Enforcer Commands StoreRaces Reverting Startup Vouch RoleCommands Profit MMListener ProfitStore VouchTick
begin

text \<open>
  A verification development of SecurityBot, the Discord moderation bot of
  \<open>src/index.js\<close>. The bot watches the guild's audit log and undoes what
  non-whitelisted members do (bans, channel and role deletions, role edits, kicks, bot
  additions), records the culprits in a blacklist file, bans blacklisted members every
  second, and takes commands from the users listed in \<open>allowedUsers.txt\<close>.

  \<^bold>\<open>Parts and theories.\<close>
  \<^item> \<open>Prelude\<close>: the JavaScript built-ins the code relies on -- \<open>Set\<close> as a
    duplicate-free list in insertion order (\<open>js_set_add\<close>, \<open>js_set_delete\<close>,
    \<open>js_set_of\<close>), \<open>trim\<close>, \<open>toLowerCase\<close>, the line split of \<open>readSet\<close>
    (\<open>split_lines\<close>), \<open>startsWith\<close>, \<open>join\<close> -- with the lemma collections
    \<open>js_set_simps\<close> and \<open>text_simps\<close>.
  \<^item> \<open>IdStore\<close> (lines 34--123): \<open>readSet\<close>, \<open>writeSet\<close>, \<open>addIds\<close>,
    \<open>removeIds\<close>, \<open>parseUserId\<close> over a file system \<open>fstore\<close> (file name to
    contents). Lemmas: the sets read back are duplicate-free lists of clean ids; write then
    read is the identity; \<open>addIds\<close>/\<open>removeIds\<close> refine insertion/deletion
    (\<open>add_ids_set\<close>, \<open>remove_ids_set\<close>), and seen through
    \<open>abs_store\<close> (each file as a set of ids) they implement the abstract set store
    \<open>spec_add\<close>/\<open>spec_remove\<close> (\<open>store_refines_spec\<close>); the add/remove round
    trip; parsing mentions.
  \<^item> \<open>StoreRaces\<close> (lines 90--95): \<open>addIds\<close> split at its awaits into a read step and
    a write step (\<open>add_step\<close>), two pending calls run under each of the six schedules of
    their steps (\<open>run_sched\<close>): the serial ones keep both ids, the interleaved ones lose
    one.
  \<^item> \<open>Perms\<close>: permission bitfields as \<open>64 word\<close>s and discord.js's
    \<open>permissions.has\<close> with the administrator override (modelled from the library's
    documented behaviour).
  \<^item> \<open>AuditLog\<close>: \<open>fetchAuditLogs({type, limit: 5})\<close>, the watchers' lookups and the
    ban watcher's retry (\<open>resolve_ban_entry\<close>); the two lookup styles agree on logs
    ordered newest first.
  \<^item> \<open>RoleBaseline\<close> (lines 146--182): \<open>ORIGINAL_ROLE_STATE\<close> as nested maps and
    its get/set/remove/snapshot operations with their lookup laws.
  \<^item> \<open>Features\<close> (lines 185--228, 1458--1492): \<open>FEATURES\<close> as a JavaScript object,
    \<open>loadFeatures\<close>/\<open>saveFeatures\<close>, the guards and \<open>+enable\<close>/\<open>+disable\<close>;
    the registry stays well formed (\<open>features_wf\<close>) and save/load round-trips.
  \<^item> \<open>Engine\<close> (lines 415--763): the audit-log watchers. The state is the record
    \<open>bot_state\<close> (set files, \<open>FEATURES\<close>, \<open>ORIGINAL_ROLE_STATE\<close>,
    \<open>REVERTING_ROLES\<close>); the platform's answers during one handler run are the record
    \<open>env\<close>; a run threads the state and the list of platform calls made
    (\<open>action\<close>s), a call that throws is an \<open>Inl\<close> the handler's \<open>catch\<close> ends.
    \<open>handle_event\<close> dispatches a gateway event to its listeners.
  \<^item> \<open>Enforcement\<close>: the frame lemmas of the call combinators, the deny-list
    additions of every watcher (\<open>bl_ok\<close>), the feature gates and the release of
    \<open>REVERTING_ROLES\<close>; \<open>Watchers\<close>: the ban and kick watchers' decision tables;
    \<open>RoleWatch\<close>: the role watcher's accept / first-observation / revert branches and
    the three places where it departs from its design.
  \<^item> \<open>Enforcer\<close> (lines 362--405): one tick of the deny-list sweep over the guilds;
    its safety, its progress (each target is gone after the first accepted ban), its
    idempotence after successful bans and the specification's scenario.
  \<^item> \<open>Commands\<close> (lines 1343--1492, 1667--1710): the owner-command listener's
    moderation commands (\<open>+view\<close>, \<open>+enable\<close>/\<open>+disable\<close>, the four list
    commands) as \<open>on_command\<close>; the \<open>+view\<close> chunk loop as a \<open>while_option\<close>
    with its termination.
  \<^item> \<open>Startup\<close> (lines 24, 39--42, 127--136, 146--148, 320--353): the token guard
    (\<open>start_program\<close>; with the committed empty token the program exits before it
    registers a listener), the state before start-up (\<open>boot_state\<close>) and the
    \<open>ready\<close> handler (\<open>on_ready\<close>: the cached log
    channel, the role snapshot of every guild, \<open>loadFeatures\<close>, the feature-flags post);
    the snapshot gives every fetched role its current state as baseline.
  \<^item> \<open>Reverting\<close>: \<open>REVERTING_ROLES\<close> is written but never read; every event
    gives the same result whatever it holds.
  \<^item> \<open>Vouch\<close> (lines 239--311, 1133--1157): the vouch ticker's globals and the
    runtime's live interval timers, \<open>startVouchTicker\<close> split at its two awaits,
    \<open>stopVouchTicker\<close> and the helper commands; run one at a time they keep one live
    timer at most, two interleaved starts leak one that nothing clears afterwards, and
    the interval command's rounding.
  \<^item> \<open>VouchTick\<close> (lines 267--300, 1978--1996): what one tick posts (\<open>post_once\<close>,
    with its closure state \<open>lastFullFetch\<close>) and the ticks of one timer
    (\<open>tick_run\<close>); with \<open>Math.random()\<close> in \<open>[0, 1)\<close> a tick posts a cached member
    and a line of \<open>user_ids.txt\<close> whenever both exist, and full member fetches are more
    than 30 minutes apart while the cache holds 100 members.
  \<^item> \<open>RoleCommands\<close> (lines 1496--1663, 1714--1973): \<open>+recover\<close>, \<open>+invall\<close>,
    \<open>+promo\<close>, \<open>+demo\<close> and \<open>+save\<close> over \<open>user_ids.txt\<close>, the guild's roles in
    discord.js position order and the platform's answers (\<open>guild_env\<close>); the
    \<open>+recover\<close> loop's calls and summary, the \<open>+save\<close>/\<open>+recover\<close> round trip
    through the file, and that \<open>+promo\<close>/\<open>+demo\<close> only touch roles below the bot.
  \<^item> \<open>Tickets\<close> (lines 934--1042, 1212--1336): ticket channels with their
    permission overwrites and \<open>tickets.txt\<close>; creation from the request form, claim,
    unclaim, transfer and close, by command or button. Every live ticket channel is
    recorded in the file, and a transfer leaves the previous claimer in the ticket.
  \<^item> \<open>Profit\<close> (lines 779--830, 1044--1130): the profit ledger of \<open>profit.txt\<close>
    and \<open>+tprofit\<close>, \<open>+addprofit\<close>, \<open>+search\<close>, \<open>+reset\<close>, over an abstract
    JavaScript \<open>Number\<close> (the record \<open>jsnum\<close> of the operations the code uses, so the
    lemmas hold for IEEE doubles); only helpers change the ledger, one entry at a time,
    and \<open>+tprofit\<close> sets the total while keeping the profit.
  \<^item> \<open>ProfitStore\<close> (lines 779--830): \<open>readProfitDB\<close> with its legacy line format
    and \<open>buildProfitEmbed\<close>; an unreadable file is an empty ledger, which the next
    write makes the whole file, and the legacy fallback drops every log.
  \<^item> \<open>MMListener\<close> (lines 847--1337): the middleman \<open>messageCreate\<close> listener as
    the composition of \<open>Tickets\<close>, \<open>Profit\<close> and \<open>Vouch\<close> over their states side
    by side (\<open>mm_route\<close> for its first branches, \<open>mm_rest\<close> for the profit and vouch
    commands), and the \<open>interactionCreate\<close> listener, dispatched on the real custom
    ids, with the \<open>+hit\<close> invite buttons; each component changes only under its role
    gate, and without the MM role an interaction leaves existing tickets alone.
  \<^item> This theory: one step of the bot (\<open>bot_step\<close>: a gateway event through
    \<open>handle_event\<close> or a message through \<open>on_command\<close>, each run to its end), the
    states the bot reaches (\<open>reach\<close>: \<open>on_ready\<close> on \<open>boot_state\<close>, then any sequence of steps) with their
    invariant, that no step writes a malformed id into a file, the interaction of the
    sweep with the ban watcher, and the whole owner-command listener
    (\<open>owner_listener\<close>), whose role commands leave the enforcement files alone.

  \<^bold>\<open>Correspondence.\<close> Every handler is one definition named after the code
  (\<open>on_guild_ban_add\<close> for \<open>client.on('guildBanAdd')\<close>, \<open>add_executor_to_blacklist\<close>
  for \<open>addExecutorToBlacklist\<close>, \<open>enforce\<close> for the sweep, ...); its guards are the
  code's early returns in order, every awaited platform call is a \<open>call\<close> or
  \<open>send_log\<close>, and every write to a file or a map is an update of \<open>bot_state\<close>.
  Strings are byte lists; the JavaScript character classes are their ASCII parts.

  \<^bold>\<open>Bounds and loops.\<close> Every loop of the modelled code runs over a finite list
  (the blacklist, the guilds, the tokens of a command, the ids of a chunk), so every
  definition is total: \<open>fun\<close>, \<open>fold\<close> and one \<open>function\<close> (\<open>chunks\<close>)
  with a measure; no fuel is needed. The one counting loop, \<open>+view\<close>'s
  \<open>for (let i = 0; i < ids.length; i += chunkSize)\<close>, is a \<open>while_option\<close>
  (\<open>chunk_loop\<close>) whose \<open>None\<close> is divergence: it stops exactly when the step is
  positive or the list is empty, which holds for the code's step of 50. The 1 s timer
  of the sweep, the vouch interval (\<open>tick_run\<close>, a list of ticks) and the 1.5 s retry
  of the ban watcher are modelled as repeated ticks and as a second audit-log reading;
  the cooldown of 30 minutes is the one bound the tick state keeps.

  \<^bold>\<open>Not modelled.\<close> Interleaving of whole handlers at their awaits (each
  \<open>bot_step\<close> runs to its end; only two \<open>addIds\<close> calls and two
  \<open>startVouchTicker\<close> calls are interleaved, in \<open>StoreRaces\<close> and \<open>Vouch\<close>), the
  content of the panel, help, invite, profit and vouch embeds, message rendering and
  the reply destination. \<open>JSON.parse\<close> of \<open>profit.txt\<close> is a parameter and
  \<open>writeProfitDB\<close> writes the ledger object itself (\<open>JSON.stringify\<close> is not
  modelled); \<open>Math.random()\<close> is a parameter and the floating-point rounding of
  \<open>Math.random() * n\<close> is not modelled (for \<open>n < 2^53\<close> it never reaches \<open>n\<close>). The
  imports, the \<open>Client\<close> construction, its \<open>error\<close> handler (which only logs) and
  \<open>client.login\<close> are library calls with no state of the bot. A member fetch that
  fails for a reason other than absence is read as absence.
\<close>

section \<open>The bot as a whole\<close>

text \<open>
  The states the bot can reach: it starts from the files on disk in \<open>boot_state\<close>
  and runs the \<open>ready\<close> handler (role snapshot and \<open>loadFeatures\<close>) under whatever
  the platform answers; then each gateway event runs its watchers, and each message runs
  the command listener.
\<close>

inductive bot_step :: "bot_state \<Rightarrow> bot_state \<Rightarrow> bool" where
  event: "bot_step st (fst (handle_event e ev (st, tr)))"
| command: "on_command p m st = Some (st', rs) \<Longrightarrow> bot_step st st'"

inductive reach :: "bot_state \<Rightarrow> bool" where
  init: "reach (fst (on_ready re (boot_state fs)))"
| step: "reach st \<Longrightarrow> bot_step st st' \<Longrightarrow> reach st'"

text \<open>
  The owner-command listener as a whole (lines 1343--1973): \<open>on_command\<close>, and for
  the commands it leaves out, the role and invite commands of \<open>role_command\<close>.
\<close>

definition owner_listener ::
  "perm \<Rightarrow> guild_env \<Rightarrow> message \<Rightarrow> bot_state \<Rightarrow>
     (bot_state \<times> cmd_reply list \<times> role_call list \<times> role_note list) option" where
  "owner_listener p ge m st =
     (case on_command p m st of
        Some (st', rs) \<Rightarrow> Some (st', rs, [], [])
      | None \<Rightarrow>
          (case role_command ge (store st) (js_trim (m_content m)) of
             None \<Rightarrow> None
           | Some (fs', cs, ns) \<Rightarrow> Some (st\<lparr>store := fs'\<rparr>, [], cs, ns)))"

text \<open>The members a sweep tick banned, in order.\<close>

definition banned_ids :: "action list \<Rightarrow> snowflake list" where
  "banned_ids tr = concat (map (\<lambda>a. case a of BanMember g u \<Rightarrow> [u] | _ \<Rightarrow> []) tr)"

lemma role_command_store:
  "role_command ge fs c = Some (fs', cs, ns) \<Longrightarrow> f \<noteq> user_ids_file \<Longrightarrow> fs' f = fs f"
  by (auto simp: role_command_def save_command_def Let_def split: if_splits prod.splits)

lemma user_ids_file_other [simp]:
  "user_ids_file \<noteq> blacklist_file" "user_ids_file \<noteq> whitelist_file" "user_ids_file \<noteq> allowed_file"
  by (simp_all add: user_ids_file_def blacklist_file_def whitelist_file_def allowed_file_def)

text \<open>
  The role and invite commands leave the enforcement files (blacklist, whitelist, allowed
  users) as they were; the listener's other commands are \<open>on_command\<close>.
\<close>

lemma owner_listener_enforcement_files:
  assumes "owner_listener p ge m st = Some (st', rs, cs, ns)" and "on_command p m st = None"
    and "f \<in> {blacklist_file, whitelist_file, allowed_file}"
  shows "store st' f = store st f"
proof -
  from assms(1,2) obtain fs' where r: "role_command ge (store st) (js_trim (m_content m)) = Some (fs', cs, ns)"
    and s: "st' = st\<lparr>store := fs'\<rparr>"
    by (auto simp: owner_listener_def split: option.splits)
  have "f \<noteq> user_ids_file" using assms(3) by auto
  with role_command_store [OF r] s show ?thesis by simp
qed

lemma features_handle_event [simp]: "features (fst (handle_event e ev r)) = features (fst r)"
  by (cases ev) (simp_all add: on_channel_delete_def on_role_delete_blacklist_def on_role_create_def
      on_role_delete_snapshot_def on_role_update_def Let_def split: option.splits)

lemma fold_self_bans:
  assumes "\<forall>u \<in> set us. ban_executor (es u) u = Some (bot_id (es u))"
  shows "fold (\<lambda>u r. handle_event (es u) (BanAdded u) r) us r = r"
  using assms
  by (induction us) (auto simp: on_guild_ban_add_def ban_executor_def split: option.splits)

lemma new_ids_valid_add_ids: "new_ids_valid f st (st\<lparr>store := fst (add_ids (store st) g ids)\<rparr>)"
  by (cases "f = g") (auto simp: new_ids_valid_def add_ids_set)

lemma new_ids_valid_remove_ids: "new_ids_valid f st (st\<lparr>store := fst (remove_ids (store st) g ids)\<rparr>)"
  by (cases "f = g") (auto simp: new_ids_valid_def remove_ids_set)

lemma new_ids_valid_list_command: "new_ids_valid f st (fst (list_command p content st))"
  unfolding list_command_def Let_def
  by (simp add: new_ids_valid_add_ids new_ids_valid_remove_ids new_ids_valid_refl split: option.splits)

lemma new_ids_valid_on_command:
  "on_command p m st = Some (st', rs) \<Longrightarrow> new_ids_valid f st st'"
  unfolding on_command_def Let_def
  by (auto simp: new_ids_valid_store new_ids_valid_refl split: if_splits option.splits)
     (metis fst_conv new_ids_valid_list_command)





text \<open>
  C12. Well-formed ids: every id a step of the bot (a watcher or a command) writes into
  any of its files is a well-formed id of at least five digits; a step only keeps or
  removes what was there.
\<close>

theorem bot_step_writes_valid_ids:
  assumes "bot_step st st'" and "x \<in> set (read_set (store st') f)" and "x \<notin> set (read_set (store st) f)"
  shows "valid_id x"
proof -
  from assms(1) have "new_ids_valid f st st'"
  proof (cases rule: bot_step.cases)
    case (event e ev tr)
    then show ?thesis using new_ids_valid_handle_event [of f "(st, tr)" e ev] by simp
  next
    case (command p m rs)
    then show ?thesis by (rule new_ids_valid_on_command)
  qed
  with assms(2,3) show ?thesis by (auto simp: new_ids_valid_def)
qed

lemma bot_step_writes_valid_ids_witness:
  "bot_step demo_state (fst (handle_event demo_env (ChannelDeleted ''444444'') (demo_state, []))) \<and>
   ''333333'' \<in> set (read_set (store (fst (handle_event demo_env (ChannelDeleted ''444444'') (demo_state, []))))
                      blacklist_file) \<and>
   ''333333'' \<notin> set (read_set (store demo_state) blacklist_file) \<and> valid_id ''333333''"
proof -
  have s: "bot_step demo_state (fst (handle_event demo_env (ChannelDeleted ''444444'') (demo_state, [])))"
    by (rule bot_step.event)
  have a: "''333333'' \<in> set (read_set (store (fst (handle_event demo_env (ChannelDeleted ''444444'') (demo_state, []))))
                      blacklist_file)"
    by (simp add: on_channel_delete_def on_deletion_def watcher_eval send_log_def
        add_executor_to_blacklist_def blacklist_add_def add_ids_set valid_id_def is_digit_def)
      (simp add: store_eval)
  have b: "''333333'' \<notin> set (read_set (store demo_state) blacklist_file)"
    by (simp add: read_set_def)
  show ?thesis using bot_step_writes_valid_ids [OF s a b] s a b by simp
qed

end
